theory Spec2Isabelle
  imports Main "HOL-Library.Word"
begin

unbundle bit_operations_syntax

section \<open>Data model (include/cbmimage.h, include/cbmimage/internal.h)\<close>

text \<open>
  The C integer types are modelled by machine words. Every C expression is evaluated in
  \<open>int\<close> after integer promotion; the model computes such expressions on \<open>nat\<close> or
  \<open>int\<close> and narrows the result with \<open>of_nat\<close>/\<open>of_int\<close> exactly where the C code
  stores into a \<open>uint8_t\<close> or \<open>uint16_t\<close> object.

  The library is compiled as a release build: \<open>assert\<close> expands to nothing, and the
  explicit run-time checks that follow the assertions in the source decide the result.
  Operations that trap in C (division by zero, reading through a NULL pointer) return
  \<open>None\<close> in the model.
\<close>

type_synonym uint8_t = "8 word"
type_synonym uint16_t = "16 word"

record cbmimage_blockaddress =
  ts_track :: uint8_t
  ts_sector :: uint8_t
  lba :: uint16_t

definition cbmimage_block_unused :: cbmimage_blockaddress where
  "cbmimage_block_unused = \<lparr> ts_track = 0, ts_sector = 0, lba = 0 \<rparr>"

text \<open>
  A pointer into the image buffer is the offset from \<open>parameter->buffer\<close>.
  \<open>cbmimage_blockaccessor\<close>: the address of a block and the pointer to its data.
\<close>

datatype buffer_ptr = NULL | Ptr nat

record cbmimage_blockaccessor =
  acc_block :: cbmimage_blockaddress
  acc_data :: buffer_ptr

text \<open>
  \<open>cbmimage_i_bam_selector\<close>: where the BAM bitmaps (or, with \<open>data_count = 0\<close>, the
  BAM counters) of the tracks from \<open>starttrack\<close> on are found: in the block
  \<open>sel_block\<close>, whose data starts at \<open>sel_buffer\<close>, at the offset
  \<open>startoffset + (track - starttrack) * multiplier\<close>.
\<close>

record cbmimage_i_bam_selector =
  sel_buffer :: buffer_ptr
  starttrack :: uint8_t
  sel_block :: cbmimage_blockaddress
  startoffset :: uint8_t
  multiplier :: uint8_t
  data_count :: uint8_t
  reverse_order :: uint8_t

text \<open>
  The function pointer \<open>fct.set_bam\<close> of the image types of the model: NULL,
  \<open>cbmimage_i_d71_set_bam\<close> or \<open>cbmimage_i_d1m_d2m_d4m_set_bam\<close>.
\<close>

datatype set_bam_fct = set_bam_NULL | set_bam_d71 | set_bam_d1m_d2m_d4m

text \<open>
  \<open>cbmimage_image_settings\<close>: the geometry frame. The three conversion function pointers
  \<open>fct.get_sectors_in_track\<close>, \<open>fct.ts_to_blockaddress\<close> and \<open>fct.lba_to_blockaddress\<close>
  are installed together; \<open>fct_d40_d64_d71\<close> is true when they point to the functions of
  \<open>d40_d64_d71.c\<close> and false when they are NULL (generic conversion).
  \<open>sectors_in_track\<close> and \<open>track_lba_start\<close> are the arrays of the union member
  \<open>d40_d64_d71\<close>, indexed by track number. \<open>info\<close>, \<open>bam\<close> and \<open>bam_counter\<close>
  are pointers: \<open>None\<close> is NULL; \<open>bam\<close> and \<open>bam_counter\<close> point to the selector
  arrays of the union member.
\<close>

record cbmimage_image_settings =
  fct_d40_d64_d71 :: bool
  maxtracks :: uint8_t
  maxsectors :: uint16_t
  bytes_in_block :: uint16_t
  lastblock :: cbmimage_blockaddress
  sectors_in_track :: "uint8_t list"
  track_lba_start :: "uint16_t list"
  subdir_data_offset :: nat
  block_subdir_first :: cbmimage_blockaddress
  block_subdir_last :: cbmimage_blockaddress
  subdir_relative_addressing :: bool
  info :: "cbmimage_blockaccessor option"
  dir :: cbmimage_blockaddress
  bam_count :: nat
  bam :: "cbmimage_i_bam_selector list option"
  bam_counter :: "cbmimage_i_bam_selector list option"
  fct_set_bam :: set_bam_fct
  is_partition_table :: bool
  is_geos :: bool
  geos_border :: cbmimage_blockaddress

section \<open>Getters (lib/getters.c)\<close>

definition cbmimage_get_max_track :: "cbmimage_image_settings \<Rightarrow> uint16_t" where
  "cbmimage_get_max_track s = ucast (maxtracks s)"

definition cbmimage_get_max_sectors :: "cbmimage_image_settings \<Rightarrow> uint16_t" where
  "cbmimage_get_max_sectors s = maxsectors s"

definition cbmimage_get_max_lba :: "cbmimage_image_settings \<Rightarrow> uint16_t" where
  "cbmimage_get_max_lba s = lba (lastblock s)"

definition cbmimage_get_bytes_in_block :: "cbmimage_image_settings \<Rightarrow> uint16_t" where
  "cbmimage_get_bytes_in_block s = bytes_in_block s"

definition cbmimage_i_d40_d64_d71_get_sectors_in_track ::
  "cbmimage_image_settings \<Rightarrow> uint16_t \<Rightarrow> uint16_t" where
  "cbmimage_i_d40_d64_d71_get_sectors_in_track s track =
     (if unat track \<le> unat (maxtracks s) then ucast (sectors_in_track s ! unat track) else 0)"

definition cbmimage_get_sectors_in_track ::
  "cbmimage_image_settings \<Rightarrow> uint16_t \<Rightarrow> uint16_t" where
  "cbmimage_get_sectors_in_track s track =
     (if fct_d40_d64_d71 s then cbmimage_i_d40_d64_d71_get_sectors_in_track s track
      else maxsectors s)"

section \<open>Block addresses (lib/blockaddress.c, lib/d40_d64_d71.c)\<close>

definition cbmimage_blockaddress_ts_exists ::
  "cbmimage_image_settings \<Rightarrow> uint8_t \<Rightarrow> uint8_t \<Rightarrow> bool" where
  "cbmimage_blockaddress_ts_exists s track sector \<longleftrightarrow>
     0 < unat track
     \<and> unat track \<le> unat (cbmimage_get_max_track s)
     \<and> unat sector < unat (cbmimage_get_max_sectors s)
     \<and> unat sector < unat (cbmimage_get_sectors_in_track s (ucast track))"

definition cbmimage_blockaddress_lba_exists ::
  "cbmimage_image_settings \<Rightarrow> uint16_t \<Rightarrow> bool" where
  "cbmimage_blockaddress_lba_exists s l \<longleftrightarrow>
     0 < unat l \<and> unat l \<le> unat (cbmimage_get_max_lba s)"

text \<open>
  The value \<^verbatim>\<open>(block->ts.track - 1) * settings->maxsectors + block->ts.sector + 1\<close>
  stored into the \<open>uint16_t\<close> field \<open>lba\<close>.
\<close>

definition generic_ts_lba :: "cbmimage_image_settings \<Rightarrow> uint8_t \<Rightarrow> uint8_t \<Rightarrow> uint16_t" where
  "generic_ts_lba s track sector =
     of_int ((int (unat track) - 1) * int (unat (maxsectors s)) + int (unat sector) + 1)"

definition cbmimage_i_generic_ts_to_blockaddress ::
  "cbmimage_image_settings \<Rightarrow> cbmimage_blockaddress \<Rightarrow> int \<times> cbmimage_blockaddress" where
  "cbmimage_i_generic_ts_to_blockaddress s block =
     (if \<not> cbmimage_blockaddress_ts_exists s (ts_track block) (ts_sector block)
      then (1, block\<lparr>lba := 0\<rparr>)
      else (0, block\<lparr>lba := generic_ts_lba s (ts_track block) (ts_sector block)\<rparr>))"

text \<open>
  The value \<^verbatim>\<open>settings->d40_d64_d71.track_lba_start[block->ts.track] + block->ts.sector\<close>
  stored into the \<open>uint16_t\<close> field \<open>lba\<close>.
\<close>

definition d40_d64_d71_ts_lba ::
  "cbmimage_image_settings \<Rightarrow> uint8_t \<Rightarrow> uint8_t \<Rightarrow> uint16_t" where
  "d40_d64_d71_ts_lba s track sector =
     of_nat (unat (track_lba_start s ! unat track) + unat sector)"

definition cbmimage_i_d40_d64_d71_ts_to_blockaddress ::
  "cbmimage_image_settings \<Rightarrow> cbmimage_blockaddress \<Rightarrow> int \<times> cbmimage_blockaddress" where
  "cbmimage_i_d40_d64_d71_ts_to_blockaddress s block =
     (if ts_track block = 0 \<or> unat (ts_track block) > unat (maxtracks s)
      then (1, block)
      else (0, block\<lparr>lba := d40_d64_d71_ts_lba s (ts_track block) (ts_sector block)\<rparr>))"

definition cbmimage_blockaddress_init_from_ts ::
  "cbmimage_image_settings \<Rightarrow> cbmimage_blockaddress \<Rightarrow> int \<times> cbmimage_blockaddress" where
  "cbmimage_blockaddress_init_from_ts s block =
     (if fct_d40_d64_d71 s then cbmimage_i_d40_d64_d71_ts_to_blockaddress s block
      else cbmimage_i_generic_ts_to_blockaddress s block)"

text \<open>
  \<open>cbmimage_i_generic_lba_to_blockaddress\<close>: the \<open>uint16_t\<close> locals
  \<^verbatim>\<open>track = ((block->lba - 1) / settings->maxsectors) + 1\<close> and
  \<^verbatim>\<open>sector = (block->lba - 1) - (track - 1) * settings->maxsectors\<close>;
  \<open>CBMIMAGE_TS_SET\<close> narrows both to \<open>uint8_t\<close>. The division traps when
  \<open>maxsectors\<close> is zero.
\<close>

definition generic_lba_track :: "cbmimage_image_settings \<Rightarrow> uint16_t \<Rightarrow> uint16_t" where
  "generic_lba_track s l = of_nat ((unat l - 1) div unat (maxsectors s) + 1)"

definition generic_lba_sector :: "cbmimage_image_settings \<Rightarrow> uint16_t \<Rightarrow> uint16_t" where
  "generic_lba_sector s l =
     of_int (int (unat l) - 1
             - (int (unat (generic_lba_track s l)) - 1) * int (unat (maxsectors s)))"

definition cbmimage_i_generic_lba_to_blockaddress ::
  "cbmimage_image_settings \<Rightarrow> cbmimage_blockaddress
     \<Rightarrow> (int \<times> cbmimage_blockaddress) option" where
  "cbmimage_i_generic_lba_to_blockaddress s block =
     (if lba block = 0 then Some (1, block)
      else if maxsectors s = 0 then None
      else
        let track = generic_lba_track s (lba block);
            sector = generic_lba_sector s (lba block)
        in if unat track > unat (maxtracks s) \<or> unat sector \<ge> unat (maxsectors s)
           then Some (1, block\<lparr>ts_track := 0, ts_sector := 0\<rparr>)
           else Some (0, block\<lparr>ts_track := ucast track, ts_sector := ucast sector\<rparr>))"

text \<open>
  The linear scan of \<open>cbmimage_i_d40_d64_d71_lba_to_blockaddress\<close>:
  \<^verbatim>\<open>for (track = 1; track <= maxtracks; ++track) if (start[track] > lba) break;\<close>
  The function returns the value of \<open>track\<close> when the loop is left.
\<close>

function d40_d64_d71_scan :: "cbmimage_image_settings \<Rightarrow> uint16_t \<Rightarrow> nat \<Rightarrow> nat" where
  "d40_d64_d71_scan s l track =
     (if track \<le> unat (maxtracks s)
      then (if unat (track_lba_start s ! track) > unat l then track
            else d40_d64_d71_scan s l (Suc track))
      else track)"
  by pat_completeness auto
termination
  by (relation "measure (\<lambda>(s, l, track). Suc (unat (maxtracks s)) - track)") auto

declare d40_d64_d71_scan.simps [simp del]

text \<open>
  The \<open>uint16_t\<close> local
  \<^verbatim>\<open>sector = block->lba - settings->d40_d64_d71.track_lba_start[track]\<close>.
\<close>

definition d40_d64_d71_lba_sector ::
  "cbmimage_image_settings \<Rightarrow> uint16_t \<Rightarrow> nat \<Rightarrow> uint16_t" where
  "d40_d64_d71_lba_sector s l track =
     of_int (int (unat l) - int (unat (track_lba_start s ! track)))"

definition cbmimage_i_d40_d64_d71_lba_to_blockaddress ::
  "cbmimage_image_settings \<Rightarrow> cbmimage_blockaddress \<Rightarrow> int \<times> cbmimage_blockaddress" where
  "cbmimage_i_d40_d64_d71_lba_to_blockaddress s block =
     (let track = d40_d64_d71_scan s (lba block) 1 - 1;
          sector = d40_d64_d71_lba_sector s (lba block) track
      in if unat sector > unat (sectors_in_track s ! track)
         then (1, block\<lparr>ts_track := 0, ts_sector := 0\<rparr>)
         else (0, block\<lparr>ts_track := of_nat track, ts_sector := ucast sector\<rparr>))"

definition cbmimage_blockaddress_init_from_lba ::
  "cbmimage_image_settings \<Rightarrow> cbmimage_blockaddress
     \<Rightarrow> (int \<times> cbmimage_blockaddress) option" where
  "cbmimage_blockaddress_init_from_lba s block =
     (if fct_d40_d64_d71 s then Some (cbmimage_i_d40_d64_d71_lba_to_blockaddress s block)
      else cbmimage_i_generic_lba_to_blockaddress s block)"

definition cbmimage_blockaddress_init_from_ts_value ::
  "cbmimage_image_settings \<Rightarrow> cbmimage_blockaddress \<Rightarrow> uint8_t \<Rightarrow> uint8_t
     \<Rightarrow> int \<times> cbmimage_blockaddress" where
  "cbmimage_blockaddress_init_from_ts_value s block track sector =
     cbmimage_blockaddress_init_from_ts s (block\<lparr>ts_track := track, ts_sector := sector\<rparr>)"

definition cbmimage_blockaddress_init_from_lba_value ::
  "cbmimage_image_settings \<Rightarrow> cbmimage_blockaddress \<Rightarrow> uint16_t
     \<Rightarrow> (int \<times> cbmimage_blockaddress) option" where
  "cbmimage_blockaddress_init_from_lba_value s block l =
     cbmimage_blockaddress_init_from_lba s (block\<lparr>lba := l\<rparr>)"

text \<open>
  \<open>cbmimage_blockaddress_add\<close>: \<open>CBMIMAGE_BLOCK_SET_FROM_LBA\<close> stores the sum (computed
  in \<open>int\<close>) into the \<open>uint16_t\<close> field \<open>lba\<close> and discards the return value of
  \<open>cbmimage_blockaddress_init_from_lba\<close>.
\<close>

definition blockaddress_add_lba ::
  "cbmimage_blockaddress \<Rightarrow> cbmimage_blockaddress \<Rightarrow> uint16_t" where
  "blockaddress_add_lba blockresult block_adder =
     of_int (int (unat (lba blockresult)) + int (unat (lba block_adder)) - 1)"

definition cbmimage_blockaddress_add ::
  "cbmimage_image_settings \<Rightarrow> cbmimage_blockaddress \<Rightarrow> cbmimage_blockaddress
     \<Rightarrow> (int \<times> cbmimage_blockaddress) option" where
  "cbmimage_blockaddress_add s blockresult block_adder =
     (if lba block_adder = 0 then Some (0, blockresult)
      else if lba blockresult = 0 then Some (0, block_adder)
      else
        case cbmimage_blockaddress_init_from_lba s
               (cbmimage_block_unused\<lparr>lba := blockaddress_add_lba blockresult block_adder\<rparr>)
        of None \<Rightarrow> None
         | Some (r, result) \<Rightarrow> Some (0, result))"

section \<open>Image geometries (lib/fileimage.c, lib/d40_d64_d71.c, lib/d81.c, lib/dnp.c)\<close>

datatype cbmimage_imagetype =
    TYPE_UNKNOWN | TYPE_D40 | TYPE_D64 | TYPE_D64_40TRACK | TYPE_D64_40TRACK_SPEEDDOS
  | TYPE_D64_40TRACK_DOLPHIN | TYPE_D64_40TRACK_PROLOGIC | TYPE_D64_42TRACK | TYPE_D71
  | TYPE_D81 | TYPE_D80 | TYPE_D82 | TYPE_CMD_D1M | TYPE_CMD_D2M | TYPE_CMD_D4M
  | TYPE_CMD_NATIVE

definition sectors_in_track_d40 :: "uint8_t list" where
  "sectors_in_track_d40 =
     [0,
      21, 21, 21, 21, 21,
      21, 21, 21, 21, 21,
      21, 21, 21, 21, 21,
      21, 21, 20, 20, 20,
      20, 20, 20, 20, 18,
      18, 18, 18, 18, 18,
      17, 17, 17, 17, 17]"

definition sectors_in_track_d64 :: "uint8_t list" where
  "sectors_in_track_d64 =
     [0,
      21, 21, 21, 21, 21,
      21, 21, 21, 21, 21,
      21, 21, 21, 21, 21,
      21, 21, 19, 19, 19,
      19, 19, 19, 19, 18,
      18, 18, 18, 18, 18,
      17, 17, 17, 17, 17,
      17, 17, 17, 17, 17,
      17, 17]"

definition sectors_in_track_d71 :: "uint8_t list" where
  "sectors_in_track_d71 =
     [0,
      21, 21, 21, 21, 21,
      21, 21, 21, 21, 21,
      21, 21, 21, 21, 21,
      21, 21, 19, 19, 19,
      19, 19, 19, 19, 18,
      18, 18, 18, 18, 18,
      17, 17, 17, 17, 17,
      21, 21, 21, 21, 21,
      21, 21, 21, 21, 21,
      21, 21, 21, 21, 21,
      21, 21, 19, 19, 19,
      19, 19, 19, 19, 18,
      18, 18, 18, 18, 18,
      17, 17, 17, 17, 17]"

text \<open>
  A settings object as \<open>calloc\<close> returns it: every field zero, the table pointer NULL
  (no entries), \<open>track_lba_start\<close> an array of \<open>1 + 70\<close> zeros.
\<close>

definition settings_zero :: cbmimage_image_settings where
  "settings_zero =
     \<lparr> fct_d40_d64_d71 = False, maxtracks = 0, maxsectors = 0, bytes_in_block = 0,
       lastblock = cbmimage_block_unused, sectors_in_track = [],
       track_lba_start = replicate 71 0, subdir_data_offset = 0,
       block_subdir_first = cbmimage_block_unused,
       block_subdir_last = cbmimage_block_unused,
       subdir_relative_addressing = False,
       info = None, dir = cbmimage_block_unused, bam_count = 0, bam = None,
       bam_counter = None, fct_set_bam = set_bam_NULL, is_partition_table = False,
       is_geos = False, geos_border = cbmimage_block_unused \<rparr>"

text \<open>
  The selector initialisers \<open>CBMIMAGE_BAM_SELECTOR_INIT\<close> and
  \<open>CBMIMAGE_BAM_COUNTER_SELECTOR_INIT\<close> (the buffer pointer and the LBA are filled in
  when the image is opened), and the templates \<open>i_d40_d64\<close> and \<open>i_d71\<close> built
  with \<open>CBMIMAGE_BAM_AND_BAM_COUNTER_CREATE\<close>: arrays of two selectors each.
\<close>

definition CBMIMAGE_BAM_SELECTOR_INIT ::
  "uint8_t \<Rightarrow> uint8_t \<Rightarrow> uint8_t \<Rightarrow> uint8_t \<Rightarrow> uint8_t \<Rightarrow> uint8_t
     \<Rightarrow> cbmimage_i_bam_selector" where
  "CBMIMAGE_BAM_SELECTOR_INIT st so m dc track sector =
     \<lparr> sel_buffer = NULL, starttrack = st,
       sel_block = \<lparr> ts_track = track, ts_sector = sector, lba = 0 \<rparr>,
       startoffset = so, multiplier = m, data_count = dc, reverse_order = 0 \<rparr>"

definition CBMIMAGE_BAM_COUNTER_SELECTOR_INIT ::
  "uint8_t \<Rightarrow> uint8_t \<Rightarrow> uint8_t \<Rightarrow> uint8_t \<Rightarrow> uint8_t
     \<Rightarrow> cbmimage_i_bam_selector" where
  "CBMIMAGE_BAM_COUNTER_SELECTOR_INIT st so m track sector =
     CBMIMAGE_BAM_SELECTOR_INIT st so m 0 track sector"

definition bam_selector_zero :: cbmimage_i_bam_selector where
  "bam_selector_zero =
     \<lparr> sel_buffer = NULL, starttrack = 0, sel_block = cbmimage_block_unused,
       startoffset = 0, multiplier = 0, data_count = 0, reverse_order = 0 \<rparr>"

definition i_d40_d64_bam :: "cbmimage_i_bam_selector list" where
  "i_d40_d64_bam = [CBMIMAGE_BAM_SELECTOR_INIT 1 (0x04 + 1) 4 3 18 0, bam_selector_zero]"

definition i_d40_d64_bam_counter :: "cbmimage_i_bam_selector list" where
  "i_d40_d64_bam_counter =
     [CBMIMAGE_BAM_COUNTER_SELECTOR_INIT 1 0x04 4 18 0, bam_selector_zero]"

definition i_d71_bam :: "cbmimage_i_bam_selector list" where
  "i_d71_bam = [CBMIMAGE_BAM_SELECTOR_INIT 1 (0x04 + 1) 4 3 18 0,
                CBMIMAGE_BAM_SELECTOR_INIT 36 0x00 3 3 (18 + 35) 0]"

definition i_d71_bam_counter :: "cbmimage_i_bam_selector list" where
  "i_d71_bam_counter = [CBMIMAGE_BAM_COUNTER_SELECTOR_INIT 1 0x04 4 18 0,
                        CBMIMAGE_BAM_COUNTER_SELECTOR_INIT 36 0xDD 1 18 0]"

text \<open>
  \<open>cbmimage_i_create_last_block\<close>: \<open>last_track\<close> and \<open>last_sector\<close> are \<open>uint8_t\<close>
  locals; \<open>last_sector - 1\<close> is narrowed to \<open>uint8_t\<close> by \<open>CBMIMAGE_TS_SET\<close>.
\<close>

definition cbmimage_i_create_last_block ::
  "cbmimage_image_settings \<Rightarrow> cbmimage_image_settings" where
  "cbmimage_i_create_last_block s =
     (let last_track = (ucast (cbmimage_get_max_track s) :: uint8_t);
          last_sector = (ucast (cbmimage_get_sectors_in_track s (ucast last_track)) :: uint8_t)
      in s\<lparr>lastblock := snd (cbmimage_blockaddress_init_from_ts s
              ((lastblock s)\<lparr>ts_track := last_track, ts_sector := last_sector - 1\<rparr>))\<rparr>)"

text \<open>
  \<open>cbmimage_i_d40_d64_d71_calculate_track_lba_start_table\<close>: the loop over
  \<open>track = 1 .. maxtracks\<close> with the running \<open>uint16_t block_number\<close>.
\<close>

function calculate_track_lba_start_loop ::
  "nat \<Rightarrow> uint8_t list \<Rightarrow> nat \<Rightarrow> uint16_t \<Rightarrow> uint16_t list \<Rightarrow> uint16_t list" where
  "calculate_track_lba_start_loop mt sit track block_number tbl =
     (if track \<le> mt
      then calculate_track_lba_start_loop mt sit (Suc track)
             (block_number + ucast (sit ! track)) (tbl[track := block_number])
      else tbl)"
  by pat_completeness auto
termination
  by (relation "measure (\<lambda>(mt, sit, track, block_number, tbl). Suc mt - track)") auto

declare calculate_track_lba_start_loop.simps [simp del]

definition cbmimage_i_d40_d64_d71_calculate_track_lba_start_table ::
  "cbmimage_image_settings \<Rightarrow> cbmimage_image_settings" where
  "cbmimage_i_d40_d64_d71_calculate_track_lba_start_table s =
     s\<lparr>track_lba_start :=
         calculate_track_lba_start_loop (unat (maxtracks s)) (sectors_in_track s) 1 1
           (track_lba_start s)\<rparr>"

text \<open>
  The first part of \<open>cbmimage_i_d40_d64_d71_chdir_partition_init\<close>, up to and with the
  call of \<open>cbmimage_i_create_last_block\<close>: these steps set the geometry and copy the
  selector templates, and do not read the image. Copying the template into the union
  member also clears \<open>track_lba_start\<close>. An image type outside the \<open>switch\<close> leaves
  function pointers, table and selector arrays as they are (all zero in a fresh settings
  object). The second part of the function follows in the section on opening an image.
\<close>

definition d40_d64_d71_partition_geometry ::
  "cbmimage_image_settings \<Rightarrow> cbmimage_imagetype \<Rightarrow> uint8_t \<Rightarrow> cbmimage_image_settings" where
  "d40_d64_d71_partition_geometry s imagetype mt =
     (let s1 = s\<lparr>maxtracks := mt, maxsectors := 21, bytes_in_block := 256\<rparr>;
          s2 = (if imagetype = TYPE_D40
                then s1\<lparr>fct_d40_d64_d71 := True, fct_set_bam := set_bam_NULL,
                       bam_count := 1, track_lba_start := replicate 71 0,
                       bam := Some i_d40_d64_bam, bam_counter := Some i_d40_d64_bam_counter,
                       sectors_in_track := sectors_in_track_d40\<rparr>
                else if imagetype \<in> {TYPE_D64_40TRACK, TYPE_D64_40TRACK_SPEEDDOS,
                        TYPE_D64_40TRACK_DOLPHIN, TYPE_D64_40TRACK_PROLOGIC,
                        TYPE_D64_42TRACK, TYPE_D64}
                then s1\<lparr>fct_d40_d64_d71 := True, fct_set_bam := set_bam_NULL,
                       bam_count := 1, track_lba_start := replicate 71 0,
                       bam := Some i_d40_d64_bam, bam_counter := Some i_d40_d64_bam_counter,
                       sectors_in_track := sectors_in_track_d64\<rparr>
                else if imagetype = TYPE_D71
                then s1\<lparr>fct_d40_d64_d71 := True, fct_set_bam := set_bam_d71,
                       bam_count := 2, track_lba_start := replicate 71 0,
                       bam := Some i_d71_bam, bam_counter := Some i_d71_bam_counter,
                       sectors_in_track := sectors_in_track_d71\<rparr>
                else s1\<lparr>bam := Some (case bam s1 of
                                        None \<Rightarrow> [bam_selector_zero, bam_selector_zero]
                                      | Some b \<Rightarrow> b),
                        bam_counter := Some (case bam_counter s1 of
                                        None \<Rightarrow> [bam_selector_zero, bam_selector_zero]
                                      | Some b \<Rightarrow> b)\<rparr>)
      in cbmimage_i_create_last_block
           (cbmimage_i_d40_d64_d71_calculate_track_lba_start_table s2))"

text \<open>
  The settings of a freshly allocated image after the first part of the partition
  initialisation and the \<open>cbmimage_i_create_last_block\<close> that ends
  \<open>cbmimage_i_fileimage_create\<close>, for the image types D40, D64, D64 with 40 and 42
  tracks, and D71 (\<open>cbmimage_i_d40_image_open\<close> and its siblings pass the track counts
  35, 35, 40, 42 and 70).
\<close>

definition d40_settings :: cbmimage_image_settings where
  "d40_settings =
     cbmimage_i_create_last_block
       (d40_d64_d71_partition_geometry settings_zero TYPE_D40 35)"

definition d64_settings :: cbmimage_image_settings where
  "d64_settings =
     cbmimage_i_create_last_block
       (d40_d64_d71_partition_geometry settings_zero TYPE_D64 35)"

definition d64_40track_settings :: cbmimage_image_settings where
  "d64_40track_settings =
     cbmimage_i_create_last_block
       (d40_d64_d71_partition_geometry settings_zero TYPE_D64_40TRACK 40)"

definition d64_42track_settings :: cbmimage_image_settings where
  "d64_42track_settings =
     cbmimage_i_create_last_block
       (d40_d64_d71_partition_geometry settings_zero TYPE_D64_42TRACK 42)"

definition d71_settings :: cbmimage_image_settings where
  "d71_settings =
     cbmimage_i_create_last_block
       (d40_d64_d71_partition_geometry settings_zero TYPE_D71 70)"

text \<open>
  \<open>cbmimage_i_d81_chdir_partition_init\<close>, geometry fields only: 80 tracks of 40
  sectors. The BAM selectors and the \<open>set_bam\<close> function of the D81 format are not part
  of the model.
\<close>

definition d81_partition_geometry ::
  "cbmimage_image_settings \<Rightarrow> cbmimage_image_settings" where
  "d81_partition_geometry s =
     cbmimage_i_create_last_block
       (s\<lparr>fct_d40_d64_d71 := False, maxtracks := 80, maxsectors := 40,
          bytes_in_block := 256\<rparr>)"

definition d81_settings :: cbmimage_image_settings where
  "d81_settings =
     cbmimage_i_create_last_block (d81_partition_geometry settings_zero)"

section \<open>Well-formed geometries\<close>

text \<open>
  The two kinds of address spaces an open image has. A generic geometry has the same
  number of sectors on every track (D81: 80 x 40; CMD native partitions: up to 255 x 256)
  and its blocks fit into the 16-bit LBA. A table geometry (D40/D64/D71) carries the
  per-track start table that \<open>cbmimage_i_d40_d64_d71_calculate_track_lba_start_table\<close>
  builds: the first track starts at LBA 1 and every later track starts where the previous
  one ends (\<open>track_starts\<close>), without overflow of the 16-bit LBA.
\<close>

definition generic_geometry :: "cbmimage_image_settings \<Rightarrow> bool" where
  "generic_geometry s \<longleftrightarrow>
     \<not> fct_d40_d64_d71 s \<and> 0 < unat (maxsectors s) \<and> unat (maxsectors s) \<le> 256
     \<and> unat (maxtracks s) * unat (maxsectors s) < 65536"

primrec track_starts :: "nat \<Rightarrow> uint8_t list \<Rightarrow> nat list" where
  "track_starts n [] = []"
| "track_starts n (x # xs) = n # track_starts (n + unat x) xs"

definition table_geometry :: "cbmimage_image_settings \<Rightarrow> bool" where
  "table_geometry s \<longleftrightarrow>
     fct_d40_d64_d71 s
     \<and> 0 < unat (maxtracks s)
     \<and> unat (maxtracks s) < length (sectors_in_track s)
     \<and> unat (maxtracks s) < length (track_lba_start s)
     \<and> map unat (take (unat (maxtracks s)) (tl (track_lba_start s)))
          = track_starts 1 (take (unat (maxtracks s)) (tl (sectors_in_track s)))
     \<and> 1 + sum_list (map unat (take (unat (maxtracks s)) (tl (sectors_in_track s))))
          \<le> 65536"

definition track_start :: "uint8_t list \<Rightarrow> nat \<Rightarrow> nat" where
  "track_start sit t = 1 + sum_list (map unat (take (t - 1) (tl sit)))"

section \<open>The image and its buffer (lib/fileimage.c, lib/readwriteblock.c)\<close>

text \<open>
  \<open>cbmimage_fileimage\<close>: the active settings frame together with the image parameter
  (\<open>parameter->size\<close> and \<open>parameter->buffer\<close>). A pointer into the buffer is the
  offset from \<open>parameter->buffer\<close>. Reading the buffer at or beyond its length is
  undefined in C and unspecified in the model.
\<close>

record cbmimage_fileimage =
  settings :: cbmimage_image_settings
  parameter_size :: nat
  parameter_buffer :: "uint8_t list"

text \<open>
  \<open>cbmimage_i_adjust_relative_address\<close>: \<^verbatim>\<open>block->lba += first.lba - 1\<close> is computed
  in \<open>int\<close> and narrowed to \<open>uint16_t\<close>; the return value of
  \<open>cbmimage_blockaddress_init_from_lba\<close> is discarded.
\<close>

definition adjust_relative_lba :: "cbmimage_image_settings \<Rightarrow> uint16_t \<Rightarrow> uint16_t" where
  "adjust_relative_lba s l =
     of_int (int (unat l) + (int (unat (lba (block_subdir_first s))) - 1))"

definition cbmimage_i_adjust_relative_address ::
  "cbmimage_image_settings \<Rightarrow> cbmimage_blockaddress
     \<Rightarrow> (int \<times> cbmimage_blockaddress) option" where
  "cbmimage_i_adjust_relative_address s block =
     (if subdir_relative_addressing s
      then (if unat (lba block) \<ge> unat (lba (block_subdir_last s))
            then Some (- 1, block)
            else case cbmimage_blockaddress_init_from_lba s
                        (block\<lparr>lba := adjust_relative_lba s (lba block)\<rparr>)
                 of None \<Rightarrow> None
                  | Some (r, block') \<Rightarrow> Some (0, block'))
      else Some (0, block))"

text \<open>
  \<open>cbmimage_i_get_address_of_block\<close>. \<open>size - bytes_in_block\<close> is \<open>size_t\<close>
  arithmetic (64 bit) and wraps around when the buffer is shorter than one block.
\<close>

definition cbmimage_i_get_address_of_block ::
  "cbmimage_fileimage \<Rightarrow> cbmimage_blockaddress \<Rightarrow> buffer_ptr option" where
  "cbmimage_i_get_address_of_block img block =
     (case cbmimage_i_adjust_relative_address (settings img) block of
        None \<Rightarrow> None
      | Some (r, block') \<Rightarrow>
          if r \<noteq> 0 then Some NULL
          else if 0 < unat (lba block')
                  \<and> unat (lba block') \<le> unat (cbmimage_get_max_lba (settings img))
          then
            let bytes = unat (cbmimage_get_bytes_in_block (settings img));
                buffer_offset = (unat (lba block') - 1) * bytes
            in if int buffer_offset \<le> (int (parameter_size img) - int bytes) mod 2 ^ 64
               then Some (Ptr (buffer_offset + subdir_data_offset (settings img)))
               else Some NULL
          else Some NULL)"

text \<open>
  \<open>cbmimage_read_block\<close> with a non-NULL destination of \<open>buffersize\<close> bytes. The
  result is the return value and the bytes copied into the destination (none on error).
\<close>

definition cbmimage_read_block ::
  "cbmimage_fileimage \<Rightarrow> cbmimage_blockaddress \<Rightarrow> nat \<Rightarrow> (int \<times> uint8_t list) option" where
  "cbmimage_read_block img block buffersize =
     (case cbmimage_i_get_address_of_block img block of
        None \<Rightarrow> None
      | Some NULL \<Rightarrow> Some (- 1, [])
      | Some (Ptr p) \<Rightarrow>
          let bytes = unat (cbmimage_get_bytes_in_block (settings img))
          in if buffersize \<ge> bytes
             then Some (if parameter_buffer img ! p = 0
                        then uint (parameter_buffer img ! (p + 1))
                        else 0,
                        take bytes (drop p (parameter_buffer img)))
             else Some (- 1, []))"

section \<open>Reconstructed FAT (lib/fat.c)\<close>

text \<open>
  \<open>cbmimage_fat\<close>: the array \<open>entry\<close> of \<open>elements\<close> 16-bit target LBAs. A store
  with \<open>block.lba \<ge> elements\<close> writes outside the array in C; the model leaves the
  table unchanged there.
\<close>

record cbmimage_fat =
  entry :: "uint16_t list"

definition CBMIMAGE_FAT_LASTBLOCK :: uint16_t where
  "CBMIMAGE_FAT_LASTBLOCK = 0xFFFF"

definition CBMIMAGE_FAT_UNUSED :: uint16_t where
  "CBMIMAGE_FAT_UNUSED = 0"

definition cbmimage_fat_create :: "cbmimage_image_settings \<Rightarrow> cbmimage_fat" where
  "cbmimage_fat_create s = \<lparr> entry = replicate (unat (cbmimage_get_max_lba s) + 1) 0 \<rparr>"

definition cbmimage_i_fat_set ::
  "cbmimage_fat \<Rightarrow> cbmimage_blockaddress \<Rightarrow> uint16_t \<Rightarrow> int \<times> cbmimage_fat" where
  "cbmimage_i_fat_set fat block target_lba =
     (0, fat\<lparr>entry := (entry fat)[unat (lba block) := target_lba]\<rparr>)"

definition cbmimage_fat_set ::
  "cbmimage_fat \<Rightarrow> cbmimage_blockaddress \<Rightarrow> cbmimage_blockaddress \<Rightarrow> int \<times> cbmimage_fat" where
  "cbmimage_fat_set fat block target =
     (let l = (if lba target = 0 then CBMIMAGE_FAT_LASTBLOCK else lba target)
      in cbmimage_i_fat_set fat block l)"

definition cbmimage_fat_clear ::
  "cbmimage_fat \<Rightarrow> cbmimage_blockaddress \<Rightarrow> int \<times> cbmimage_fat" where
  "cbmimage_fat_clear fat block = cbmimage_i_fat_set fat block CBMIMAGE_FAT_UNUSED"

definition cbmimage_i_fat_get_target_lba :: "cbmimage_fat \<Rightarrow> cbmimage_blockaddress \<Rightarrow> int" where
  "cbmimage_i_fat_get_target_lba fat block = uint (entry fat ! unat (lba block))"

text \<open>
  \<open>cbmimage_fat_get\<close>. The local \<open>int lba\<close> receives the value of the comparison
  \<^verbatim>\<open>cbmimage_i_fat_get_target_lba(fat, block) != CBMIMAGE_FAT_UNUSED\<close>, that is 0 or 1.
  The \<open>default\<close> branch of the \<open>switch\<close> applies \<open>CBMIMAGE_BLOCK_SET_FROM_LBA\<close> to the
  parameter \<open>block\<close>, not to \<open>target\<close>; \<open>target\<close> is returned.
\<close>

definition cbmimage_fat_get ::
  "cbmimage_image_settings \<Rightarrow> cbmimage_fat \<Rightarrow> cbmimage_blockaddress
     \<Rightarrow> cbmimage_blockaddress option" where
  "cbmimage_fat_get s fat block =
     (let l = (if cbmimage_i_fat_get_target_lba fat block \<noteq> uint CBMIMAGE_FAT_UNUSED
               then 1 else 0 :: int);
          target = cbmimage_block_unused
      in if l = uint CBMIMAGE_FAT_UNUSED then Some target
         else if l = uint CBMIMAGE_FAT_LASTBLOCK
         then Some (target\<lparr>lba := CBMIMAGE_FAT_LASTBLOCK\<rparr>)
         else case cbmimage_blockaddress_init_from_lba s (block\<lparr>lba := of_int l\<rparr>) of
                None \<Rightarrow> None
              | Some (r, block') \<Rightarrow> Some target)"

definition cbmimage_fat_is_used :: "cbmimage_fat \<Rightarrow> cbmimage_blockaddress \<Rightarrow> bool" where
  "cbmimage_fat_is_used fat block \<longleftrightarrow>
     cbmimage_i_fat_get_target_lba fat block \<noteq> uint CBMIMAGE_FAT_UNUSED"

section \<open>Block accessor (lib/blockaccessor.c)\<close>

definition cbmimage_i_blockaccessor_release ::
  "cbmimage_blockaccessor \<Rightarrow> cbmimage_blockaccessor" where
  "cbmimage_i_blockaccessor_release accessor =
     accessor\<lparr>acc_data := NULL, acc_block := cbmimage_block_unused\<rparr>"

definition cbmimage_blockaccessor_set_to ::
  "cbmimage_fileimage \<Rightarrow> cbmimage_blockaccessor \<Rightarrow> cbmimage_blockaddress
     \<Rightarrow> (int \<times> cbmimage_blockaccessor) option" where
  "cbmimage_blockaccessor_set_to img accessor block =
     (let released = cbmimage_i_blockaccessor_release accessor
      in if 0 < unat (ts_track block)
            \<and> unat (ts_track block) \<le> unat (cbmimage_get_max_track (settings img))
            \<and> unat (ts_sector block)
                < unat (cbmimage_get_sectors_in_track (settings img) (ucast (ts_track block)))
            \<and> 0 < unat (lba block)
         then case cbmimage_i_get_address_of_block img block of
                None \<Rightarrow> None
              | Some p \<Rightarrow> Some (0, released\<lparr>acc_block := block, acc_data := p\<rparr>)
         else Some (0, released))"

definition cbmimage_blockaccessor_create ::
  "cbmimage_fileimage \<Rightarrow> cbmimage_blockaddress \<Rightarrow> cbmimage_blockaccessor option" where
  "cbmimage_blockaccessor_create img block =
     map_option snd
       (cbmimage_blockaccessor_set_to img
          \<lparr> acc_block = cbmimage_block_unused, acc_data = NULL \<rparr> block)"

text \<open>
  \<open>cbmimage_blockaccessor_get_next_block\<close>. The argument \<open>block_next\<close> is \<open>None\<close> for
  a NULL pointer and \<open>Some b\<close> for a pointer to a block address holding \<open>b\<close>; the
  result carries the return value and the block address after the call. Reading through
  a NULL \<open>accessor->data\<close> traps.
\<close>

definition cbmimage_blockaccessor_get_next_block ::
  "cbmimage_fileimage \<Rightarrow> cbmimage_blockaccessor \<Rightarrow> cbmimage_blockaddress option
     \<Rightarrow> (int \<times> cbmimage_blockaddress option) option" where
  "cbmimage_blockaccessor_get_next_block img accessor block_next =
     (case acc_data accessor of
        NULL \<Rightarrow> None
      | Ptr p \<Rightarrow>
          let track = parameter_buffer img ! p;
              sector = parameter_buffer img ! (p + 1)
          in if track = 0
             then Some (if sector = 0 then 256 else uint sector, block_next)
             else if unat track \<le> unat (cbmimage_get_max_track (settings img))
                     \<and> unat sector
                         < unat (cbmimage_get_sectors_in_track (settings img) (ucast track))
             then (case block_next of
                     None \<Rightarrow> Some (0, None)
                   | Some b \<Rightarrow>
                       let (r, b') = cbmimage_blockaddress_init_from_ts_value
                                       (settings img) b track sector
                       in Some (r, Some b'))
             else Some (- 1, block_next))"

section \<open>Loop detector (lib/loop.c)\<close>

record cbmimage_loop =
  loop_map :: "uint8_t list"

text \<open>
  \<open>cbmimage_loop_create\<close>: \<open>count_of_blocks\<close> is a \<open>uint16_t\<close>, so
  \<open>max_lba + 1\<close> wraps at 65536; the map has \<open>(count_of_blocks + 7) / 8\<close> zero bytes.
\<close>

definition cbmimage_loop_create :: "cbmimage_image_settings \<Rightarrow> cbmimage_loop" where
  "cbmimage_loop_create s =
     \<lparr> loop_map = replicate ((unat (cbmimage_get_max_lba s + 1) + 7) div 8) 0 \<rparr>"

definition cbmimage_loop_mark ::
  "cbmimage_image_settings \<Rightarrow> cbmimage_loop \<Rightarrow> cbmimage_blockaddress
     \<Rightarrow> int \<times> cbmimage_loop" where
  "cbmimage_loop_mark s loop block =
     (if lba block = 0 \<or> unat (lba block) > unat (cbmimage_get_max_lba s)
      then (- 1, loop)
      else
        let byte_of_block = unat (lba block) div 8;
            bit_of_block = unat (lba block) mod 8
        in if byte_of_block \<ge> length (loop_map loop) then (- 1, loop)
           else
             let is_marked =
                   (if loop_map loop ! byte_of_block AND push_bit bit_of_block 1 \<noteq> 0
                    then 1 else 0)
             in (is_marked,
                 loop\<lparr>loop_map := (loop_map loop)
                    [byte_of_block := loop_map loop ! byte_of_block OR push_bit bit_of_block 1]\<rparr>))"

definition cbmimage_loop_check ::
  "cbmimage_image_settings \<Rightarrow> cbmimage_loop \<Rightarrow> cbmimage_blockaddress \<Rightarrow> int" where
  "cbmimage_loop_check s loop block =
     (if lba block = 0 \<or> unat (lba block) > unat (cbmimage_get_max_lba s)
      then - 1
      else
        let byte_of_block = unat (lba block) div 8;
            bit_of_block = unat (lba block) mod 8
        in if byte_of_block \<ge> length (loop_map loop) then - 1
           else if loop_map loop ! byte_of_block AND push_bit bit_of_block 1 \<noteq> 0
                then 1 else 0)"

section \<open>Chain follower (lib/chain.c)\<close>

record cbmimage_chain =
  block_start :: cbmimage_blockaddress
  is_done :: bool
  is_loop :: bool
  loop_detector :: cbmimage_loop
  block_accessor :: cbmimage_blockaccessor

definition cbmimage_i_chain_readblock ::
  "cbmimage_fileimage \<Rightarrow> cbmimage_chain \<Rightarrow> cbmimage_blockaddress
     \<Rightarrow> (int \<times> cbmimage_chain) option" where
  "cbmimage_i_chain_readblock img chain block =
     (let (marked, loop') = cbmimage_loop_mark (settings img) (loop_detector chain) block;
          chain1 = chain\<lparr>loop_detector := loop'\<rparr>
      in if marked \<noteq> 0
         then Some (- 1, chain1\<lparr>is_loop := True, is_done := True\<rparr>)
         else case cbmimage_blockaccessor_set_to img (block_accessor chain1) block of
                None \<Rightarrow> None
              | Some (ret, accessor') \<Rightarrow>
                  let chain2 = chain1\<lparr>block_accessor := accessor'\<rparr>
                  in if ret = 0
                     then (case cbmimage_blockaccessor_get_next_block img accessor' None of
                             None \<Rightarrow> None
                           | Some (ret', _) \<Rightarrow> Some (ret', chain2))
                     else Some (ret, chain2))"

definition cbmimage_chain_start ::
  "cbmimage_fileimage \<Rightarrow> cbmimage_blockaddress \<Rightarrow> cbmimage_chain option" where
  "cbmimage_chain_start img start =
     (case cbmimage_blockaccessor_create img start of
        None \<Rightarrow> None
      | Some accessor \<Rightarrow>
          map_option snd
            (cbmimage_i_chain_readblock img
               \<lparr> block_start = start, is_done = False, is_loop = False,
                 loop_detector = cbmimage_loop_create (settings img),
                 block_accessor = accessor \<rparr>
               start))"

text \<open>
  \<open>cbmimage_chain_advance\<close>. The local \<open>block_next\<close> is uninitialised in C; every
  field of it is written before it is read (only when the call returns 0).
\<close>

definition cbmimage_chain_advance ::
  "cbmimage_fileimage \<Rightarrow> cbmimage_chain \<Rightarrow> (int \<times> cbmimage_chain) option" where
  "cbmimage_chain_advance img chain =
     (case cbmimage_blockaccessor_get_next_block img (block_accessor chain)
             (Some cbmimage_block_unused) of
        None \<Rightarrow> None
      | Some (ret, block_next) \<Rightarrow>
          if ret = 0
          then cbmimage_i_chain_readblock img chain
                 (case block_next of Some b \<Rightarrow> b | None \<Rightarrow> cbmimage_block_unused)
          else Some (ret, chain\<lparr>is_done := True\<rparr>))"

definition cbmimage_chain_last_result ::
  "cbmimage_fileimage \<Rightarrow> cbmimage_chain \<Rightarrow> int option" where
  "cbmimage_chain_last_result img chain =
     map_option fst (cbmimage_blockaccessor_get_next_block img (block_accessor chain) None)"

definition cbmimage_chain_is_done :: "cbmimage_chain \<Rightarrow> bool" where
  "cbmimage_chain_is_done chain = is_done chain"

definition cbmimage_chain_is_loop :: "cbmimage_chain \<Rightarrow> bool" where
  "cbmimage_chain_is_loop chain = is_loop chain"

definition cbmimage_chain_get_current :: "cbmimage_chain \<Rightarrow> cbmimage_blockaddress" where
  "cbmimage_chain_get_current chain = acc_block (block_accessor chain)"

definition cbmimage_chain_get_next ::
  "cbmimage_fileimage \<Rightarrow> cbmimage_chain \<Rightarrow> cbmimage_blockaddress option" where
  "cbmimage_chain_get_next img chain =
     (case cbmimage_blockaccessor_get_next_block img (block_accessor chain)
             (Some cbmimage_block_unused) of
        None \<Rightarrow> None
      | Some (ret, block_next) \<Rightarrow> block_next)"

definition cbmimage_chain_get_data :: "cbmimage_chain \<Rightarrow> buffer_ptr" where
  "cbmimage_chain_get_data chain = acc_data (block_accessor chain)"

text \<open>Calling \<open>cbmimage_chain_advance\<close> n times in a row.\<close>

fun chain_advance_times ::
  "cbmimage_fileimage \<Rightarrow> nat \<Rightarrow> cbmimage_chain \<Rightarrow> cbmimage_chain option" where
  "chain_advance_times img 0 chain = Some chain"
| "chain_advance_times img (Suc n) chain =
     (case cbmimage_chain_advance img chain of
        None \<Rightarrow> None
      | Some (ret, chain') \<Rightarrow> chain_advance_times img n chain')"

section \<open>Example images\<close>

text \<open>
  The image of \<open>tests/image_internal_d64.c\<close>: a zero-filled buffer of 174848 bytes
  with the geometry of a D64 image.
\<close>

definition image_d64_zero :: cbmimage_fileimage where
  "image_d64_zero =
     \<lparr> settings = d64_settings, parameter_size = 174848,
       parameter_buffer = replicate 174848 0 \<rparr>"

section \<open>Measures and well-formedness used in the termination arguments\<close>

text \<open>
  The set of bit positions that are set in the map of a loop detector, and the number of
  LBAs of the frame that are not yet marked.
\<close>

definition loop_marked :: "uint8_t list \<Rightarrow> nat set" where
  "loop_marked m = {i. i < 8 * length m \<and> bit (m ! (i div 8)) (i mod 8)}"

definition loop_unmarked :: "cbmimage_image_settings \<Rightarrow> cbmimage_loop \<Rightarrow> nat" where
  "loop_unmarked s loop =
     card ({l. 0 < l \<and> l \<le> unat (cbmimage_get_max_lba s)} - loop_marked (loop_map loop))"

text \<open>
  An image whose buffer holds every block of the active frame: no relative addressing,
  and the blocks \<open>1 .. max_lba\<close> of at least two bytes each lie inside the buffer.
\<close>

definition image_addressable :: "cbmimage_fileimage \<Rightarrow> bool" where
  "image_addressable img \<longleftrightarrow>
     \<not> subdir_relative_addressing (settings img)
     \<and> 2 \<le> unat (bytes_in_block (settings img))
     \<and> unat (bytes_in_block (settings img)) \<le> parameter_size img
     \<and> parameter_size img < 2 ^ 64
     \<and> unat (cbmimage_get_max_lba (settings img)) * unat (bytes_in_block (settings img))
          \<le> parameter_size img
     \<and> subdir_data_offset (settings img)
          + unat (cbmimage_get_max_lba (settings img)) * unat (bytes_in_block (settings img))
          \<le> length (parameter_buffer img)"

text \<open>The accessor of a chain points into the buffer.\<close>

definition chain_inv :: "cbmimage_chain \<Rightarrow> bool" where
  "chain_inv c \<longleftrightarrow> (\<exists>p. acc_data (block_accessor c) = Ptr p)"

section \<open>Opening an image of the D40/D64/D71 family (lib/d40_d64_d71.c, lib/fileimage.c)\<close>

text \<open>
  \<open>cbmimage_i_init_bam_selector\<close>: for each of the first \<open>selector_count\<close> selectors
  the LBA of its block is computed from the T/S and the buffer pointer is set to the
  data of the block. The array holds at least \<open>selector_count\<close> selectors.
\<close>

fun init_bam_selector_loop ::
  "cbmimage_fileimage \<Rightarrow> cbmimage_i_bam_selector list \<Rightarrow> cbmimage_i_bam_selector list option" where
  "init_bam_selector_loop img [] = Some []"
| "init_bam_selector_loop img (sel # sels) =
     (let block = snd (cbmimage_blockaddress_init_from_ts (settings img) (sel_block sel))
      in case cbmimage_i_get_address_of_block img block of
           None \<Rightarrow> None
         | Some p \<Rightarrow>
             map_option ((#) (sel\<lparr>sel_block := block, sel_buffer := p\<rparr>))
               (init_bam_selector_loop img sels))"

definition cbmimage_i_init_bam_selector ::
  "cbmimage_fileimage \<Rightarrow> cbmimage_i_bam_selector list \<Rightarrow> nat
     \<Rightarrow> cbmimage_i_bam_selector list option" where
  "cbmimage_i_init_bam_selector img selector selector_count =
     map_option (\<lambda>initialised. initialised @ drop selector_count selector)
       (init_bam_selector_loop img (take selector_count selector))"

text \<open>
  \<open>CBMIMAGE_BLOCK_SET_FROM_TS\<close> stores track and sector and calls
  \<open>cbmimage_blockaddress_init_from_ts\<close>, whose return value it drops.
  \<open>cbmimage_blockaccessor_create_from_ts\<close> applies it to an uninitialised local, whose
  LBA is written whenever the T/S exists in the geometry.
\<close>

definition CBMIMAGE_BLOCK_SET_FROM_TS ::
  "cbmimage_image_settings \<Rightarrow> cbmimage_blockaddress \<Rightarrow> uint8_t \<Rightarrow> uint8_t
     \<Rightarrow> cbmimage_blockaddress" where
  "CBMIMAGE_BLOCK_SET_FROM_TS s block track sector =
     snd (cbmimage_blockaddress_init_from_ts s (block\<lparr>ts_track := track, ts_sector := sector\<rparr>))"

definition cbmimage_blockaccessor_create_from_ts ::
  "cbmimage_fileimage \<Rightarrow> uint8_t \<Rightarrow> uint8_t \<Rightarrow> cbmimage_blockaccessor option" where
  "cbmimage_blockaccessor_create_from_ts img track sector =
     cbmimage_blockaccessor_create img
       (CBMIMAGE_BLOCK_SET_FROM_TS (settings img) cbmimage_block_unused track sector)"

text \<open>
  \<open>cbmimage_i_d40_d64_d71_get_geos_infoblock\<close>: \<open>strncmp\<close> compares the 15 characters
  of \<^verbatim>\<open>"GEOS format V1."\<close> with the bytes at offset \<open>0xAD\<close> of the info block. The
  result is the return value and the settings with the GEOS border block stored.
\<close>

definition geos_text :: "uint8_t list" where
  "geos_text = map (\<lambda>c. of_nat (of_char c)) ''GEOS format V1.''"

definition cbmimage_i_d40_d64_d71_get_geos_infoblock ::
  "cbmimage_fileimage \<Rightarrow> (int \<times> cbmimage_image_settings) option" where
  "cbmimage_i_d40_d64_d71_get_geos_infoblock img =
     (case info (settings img) of
        None \<Rightarrow> None
      | Some accessor \<Rightarrow>
          (case acc_data accessor of
             NULL \<Rightarrow> None
           | Ptr p \<Rightarrow>
               if take (length geos_text) (drop (p + 0xAD) (parameter_buffer img)) = geos_text
               then
                 let border_track = parameter_buffer img ! (p + 0xAB);
                     border_sector = parameter_buffer img ! (p + 0xAC);
                     border = CBMIMAGE_BLOCK_SET_FROM_TS (settings img)
                                (geos_border (settings img)) border_track border_sector
                 in Some (1, (settings img)
                      \<lparr>geos_border :=
                         snd (cbmimage_blockaddress_init_from_ts (settings img) border)\<rparr>)
               else Some (0, settings img)))"

text \<open>
  \<open>cbmimage_i_d40_d64_d71_chdir_partition_init\<close> on an image: the first part
  (\<open>d40_d64_d71_partition_geometry\<close>), then the directory start 18/1, the accessor of
  the info block 18/0, the GEOS probe and the initialisation of the BAM selectors and
  BAM counter selectors. The function returns 0; the result here is the image with its
  settings initialised.
\<close>

definition selector_array :: "cbmimage_i_bam_selector list option \<Rightarrow> cbmimage_i_bam_selector list" where
  "selector_array selectors = (case selectors of None \<Rightarrow> [] | Some a \<Rightarrow> a)"

definition cbmimage_i_d40_d64_d71_chdir_partition_init ::
  "cbmimage_fileimage \<Rightarrow> cbmimage_imagetype \<Rightarrow> uint8_t \<Rightarrow> cbmimage_fileimage option" where
  "cbmimage_i_d40_d64_d71_chdir_partition_init img imagetype mt =
     (let s1 = d40_d64_d71_partition_geometry (settings img) imagetype mt;
          s2 = s1\<lparr>dir := CBMIMAGE_BLOCK_SET_FROM_TS s1 (dir s1) 18 1\<rparr>
      in case cbmimage_blockaccessor_create_from_ts (img\<lparr>settings := s2\<rparr>) 18 0 of
           None \<Rightarrow> None
         | Some accessor \<Rightarrow>
             let s3 = s2\<lparr>info := Some accessor,
                        dir := snd (cbmimage_blockaddress_init_from_ts s2 (dir s2))\<rparr>
             in case cbmimage_i_d40_d64_d71_get_geos_infoblock (img\<lparr>settings := s3\<rparr>) of
                  None \<Rightarrow> None
                | Some (geos, s4) \<Rightarrow>
                    let s5 = s4\<lparr>is_geos := (geos \<noteq> 0)\<rparr>
                    in case cbmimage_i_init_bam_selector (img\<lparr>settings := s5\<rparr>)
                              (selector_array (bam s5)) (bam_count s5) of
                         None \<Rightarrow> None
                       | Some b \<Rightarrow>
                           let s6 = s5\<lparr>bam := Some b\<rparr>
                           in case cbmimage_i_init_bam_selector (img\<lparr>settings := s6\<rparr>)
                                     (selector_array (bam_counter s6)) (bam_count s6) of
                                None \<Rightarrow> None
                              | Some c \<Rightarrow>
                                  Some (img\<lparr>settings := s6\<lparr>bam_counter := Some c\<rparr>\<rparr>))"

text \<open>
  \<open>cbmimage_i_d64_image_open\<close> and \<open>cbmimage_i_d71_image_open\<close>, and
  \<open>cbmimage_image_open\<close> with the type hints \<open>TYPE_D64\<close> and \<open>TYPE_D71\<close>: with a hint
  the type is not guessed and \<open>parameter->size\<close> is the size of the buffer handed in;
  the fresh image has zeroed settings and a copy of the buffer; after the open function
  of the type, \<open>cbmimage_i_fileimage_create\<close> calls \<open>cbmimage_i_create_last_block\<close>.
\<close>

definition cbmimage_i_d64_image_open :: "cbmimage_fileimage \<Rightarrow> cbmimage_fileimage option" where
  "cbmimage_i_d64_image_open img = cbmimage_i_d40_d64_d71_chdir_partition_init img TYPE_D64 35"

definition cbmimage_i_d71_image_open :: "cbmimage_fileimage \<Rightarrow> cbmimage_fileimage option" where
  "cbmimage_i_d71_image_open img = cbmimage_i_d40_d64_d71_chdir_partition_init img TYPE_D71 70"

definition fileimage_fresh :: "uint8_t list \<Rightarrow> cbmimage_fileimage" where
  "fileimage_fresh buffer =
     \<lparr> settings = settings_zero, parameter_size = length buffer, parameter_buffer = buffer \<rparr>"

definition fileimage_create_last_block :: "cbmimage_fileimage \<Rightarrow> cbmimage_fileimage" where
  "fileimage_create_last_block img = img\<lparr>settings := cbmimage_i_create_last_block (settings img)\<rparr>"

definition cbmimage_image_open_d64 :: "uint8_t list \<Rightarrow> cbmimage_fileimage option" where
  "cbmimage_image_open_d64 buffer =
     map_option fileimage_create_last_block (cbmimage_i_d64_image_open (fileimage_fresh buffer))"

definition cbmimage_image_open_d71 :: "uint8_t list \<Rightarrow> cbmimage_fileimage option" where
  "cbmimage_image_open_d71 buffer =
     map_option fileimage_create_last_block (cbmimage_i_d71_image_open (fileimage_fresh buffer))"

section \<open>BAM (lib/bam.c)\<close>

text \<open>
  Diagnostic output. Every message the library prints through \<open>cbmimage_i_fmt_print\<close>
  in the functions below is one entry of a list, with the arguments of the format
  string.
\<close>

datatype diagnostic =
    Track_invalid uint16_t
  | Bits_not_allowed uint16_t uint16_t
  | Free_exceeds_sectors uint16_t uint16_t uint16_t
  | Free_count_mismatch uint16_t uint16_t uint16_t
  | Loop_found cbmimage_blockaddress cbmimage_blockaddress
  | Already_marked cbmimage_blockaddress cbmimage_blockaddress
  | Marked_but_bam_free cbmimage_blockaddress
  | Unmarked_but_bam_used cbmimage_blockaddress

definition BAM_MASK_COUNT :: nat where
  "BAM_MASK_COUNT = 0x20"

text \<open>\<open>reverse_bit_order\<close> and \<open>cbmimage_i_countbits\<close>: the loops over the 8 bits of a byte.\<close>

definition reverse_bit_order :: "uint8_t \<Rightarrow> uint8_t" where
  "reverse_bit_order input =
     fst (fold (\<lambda>j (output, inp). (push_bit 1 output OR (inp AND 1), drop_bit 1 inp))
            [0..<8] (0, input))"

definition countbits_byte :: "uint8_t \<Rightarrow> int" where
  "countbits_byte b =
     fst (fold (\<lambda>j (result, bam_byte).
                  (result + (if bam_byte AND 1 \<noteq> 0 then 1 else 0), drop_bit 1 bam_byte))
            [0..<8] (0, b))"

definition cbmimage_i_countbits :: "uint8_t list \<Rightarrow> int" where
  "cbmimage_i_countbits mask_value =
     fold (\<lambda>i result. result + countbits_byte (mask_value ! i)) [0..<BAM_MASK_COUNT] 0"

text \<open>
  \<open>cbmimage_i_get_right_selector\<close>. The loop bound \<open>selector_count - 1\<close> is \<open>size_t\<close>
  arithmetic and wraps around for \<open>selector_count = 0\<close>; the callers exclude that case.
\<close>

function right_selector_scan ::
  "cbmimage_i_bam_selector list \<Rightarrow> nat \<Rightarrow> uint8_t \<Rightarrow> nat \<Rightarrow> nat" where
  "right_selector_scan selector bound track selector_number =
     (if selector_number < bound
      then (if track < starttrack (selector ! (selector_number + 1))
            then selector_number
            else right_selector_scan selector bound track (selector_number + 1))
      else selector_number)"
  by pat_completeness auto
termination
  by (relation "measure (\<lambda>(selector, bound, track, n). bound - n)") auto

declare right_selector_scan.simps [simp del]

definition cbmimage_i_get_right_selector ::
  "cbmimage_image_settings \<Rightarrow> cbmimage_i_bam_selector list \<Rightarrow> nat \<Rightarrow> uint8_t \<Rightarrow> int" where
  "cbmimage_i_get_right_selector s selector selector_count track =
     (if track < 1 \<or> track > maxtracks s then - 1
      else int (right_selector_scan selector
                  (nat ((int selector_count - 1) mod 2 ^ 64)) track 0))"

text \<open>
  The offset \<^verbatim>\<open>startoffset + (track - starttrack) * multiplier\<close>, computed in \<open>int\<close>
  and stored into the \<open>uint8_t offset_bam\<close>.
\<close>

definition bam_offset :: "cbmimage_i_bam_selector \<Rightarrow> uint8_t \<Rightarrow> uint8_t" where
  "bam_offset sel track =
     of_int (uint (startoffset sel) + (uint track - uint (starttrack sel)) * uint (multiplier sel))"

text \<open>
  \<open>cbmimage_i_get_bam_of_track\<close>: the return value and the 32 bytes of the mask (no
  mask is written when the function fails). \<open>data_count\<close> is at most 32 in every
  selector template. Reading through a NULL selector array or a NULL buffer traps.
\<close>

definition cbmimage_i_get_bam_of_track ::
  "cbmimage_fileimage \<Rightarrow> uint8_t \<Rightarrow> (int \<times> uint8_t list) option" where
  "cbmimage_i_get_bam_of_track img track =
     (let s = settings img
      in if bam_count s = 0 then Some (- 1, [])
         else
           (case bam s of
              None \<Rightarrow> None
            | Some selectors \<Rightarrow>
                let selector_number =
                      cbmimage_i_get_right_selector s selectors (bam_count s) track
                in if selector_number < 0 then Some (- 1, [])
                   else
                     let sel = selectors ! nat selector_number;
                         offset_bam = bam_offset sel track
                     in if data_count sel = 0 then Some (0, replicate BAM_MASK_COUNT 0)
                        else
                          (case sel_buffer sel of
                             NULL \<Rightarrow> None
                           | Ptr p \<Rightarrow>
                               Some (0,
                                 map (\<lambda>i. if i < unat (data_count sel)
                                          then
                                            let bam_byte = parameter_buffer img
                                                             ! (p + unat offset_bam + i)
                                            in if reverse_order sel \<noteq> 0
                                               then reverse_bit_order bam_byte
                                               else bam_byte
                                          else 0)
                                   [0..<BAM_MASK_COUNT]))))"

text \<open>
  \<open>cbmimage_i_get_bam_counter_of_track\<close>: without a counter selector array (DNP) the
  bits of the bitmap are counted; otherwise the counter byte is read.
\<close>

definition cbmimage_i_get_bam_counter_of_track ::
  "cbmimage_fileimage \<Rightarrow> uint8_t \<Rightarrow> uint16_t option" where
  "cbmimage_i_get_bam_counter_of_track img track =
     (let s = settings img
      in case bam_counter s of
           None \<Rightarrow>
             (case cbmimage_i_get_bam_of_track img track of
                None \<Rightarrow> None
              | Some (r, bam_mask) \<Rightarrow>
                  Some (if r < 0 then 0 else of_int (cbmimage_i_countbits bam_mask)))
         | Some selectors \<Rightarrow>
             if bam_count s = 0 then Some 0
             else
               let selector_number =
                     cbmimage_i_get_right_selector s selectors (bam_count s) track
               in if selector_number < 0 then Some 0
                  else
                    let sel = selectors ! nat selector_number;
                        offset_bam = bam_offset sel track
                    in (case sel_buffer sel of
                          NULL \<Rightarrow> None
                        | Ptr p \<Rightarrow>
                            Some (ucast (parameter_buffer img ! (p + unat offset_bam)))))"

text \<open>
  \<open>cbmimage_i_check_max_bam_of_track\<close>: the return value and the diagnostic printed.
  \<open>remaining_sectors_on_track\<close> stays at its value once it is below 8;
  \<^verbatim>\<open>0xFFu << remaining_sectors_on_track\<close> is narrowed to \<open>uint8_t\<close>.
\<close>

fun check_max_bam_loop :: "nat \<Rightarrow> uint8_t list \<Rightarrow> bool" where
  "check_max_bam_loop remaining [] = True"
| "check_max_bam_loop remaining (m # ms) =
     (if remaining \<ge> 8 then check_max_bam_loop (remaining - 8) ms
      else if remaining = 0
      then (if m \<noteq> 0 then False else check_max_bam_loop remaining ms)
      else (if m AND push_bit remaining 0xFF \<noteq> 0 then False
            else check_max_bam_loop remaining ms))"

definition cbmimage_i_check_max_bam_of_track ::
  "cbmimage_image_settings \<Rightarrow> uint16_t \<Rightarrow> uint8_t list \<Rightarrow> int \<times> diagnostic list" where
  "cbmimage_i_check_max_bam_of_track s track bam_mask =
     (if track > cbmimage_get_max_track s then (- 1, [Track_invalid track])
      else
        let sectors_on_track = cbmimage_get_sectors_in_track s track
        in if check_max_bam_loop (unat sectors_on_track) (take BAM_MASK_COUNT bam_mask)
           then (0, [])
           else (- 1, [Bits_not_allowed track sectors_on_track]))"

text \<open>
  \<open>cbmimage_bam_check_consistency\<close>: the loop over \<open>track = 1 .. maxtrack\<close>. The
  result is the return value and the diagnostics printed, in order. The return value of
  \<open>cbmimage_i_check_max_bam_of_track\<close> is not used by the source.
\<close>

function bam_check_consistency_loop ::
  "cbmimage_fileimage \<Rightarrow> nat \<Rightarrow> nat \<Rightarrow> diagnostic list \<Rightarrow> (int \<times> diagnostic list) option" where
  "bam_check_consistency_loop img maxtrack track out =
     (if track \<le> maxtrack
      then
        (case cbmimage_i_get_bam_of_track img (of_nat track) of
           None \<Rightarrow> None
         | Some (r, bam_mask) \<Rightarrow>
             if r < 0 then Some (- 1, out)
             else
               (case cbmimage_i_get_bam_counter_of_track img (of_nat track) of
                  None \<Rightarrow> None
                | Some bam_counter_of_track \<Rightarrow>
                    let sectors_on_track =
                          cbmimage_get_sectors_in_track (settings img) (of_nat track);
                        out1 = out @ snd (cbmimage_i_check_max_bam_of_track (settings img)
                                            (of_nat track) bam_mask);
                        count_of_bam_blocks = (of_int (cbmimage_i_countbits bam_mask) :: uint16_t);
                        out2 = out1 @ (if bam_counter_of_track > sectors_on_track
                                       then [Free_exceeds_sectors (of_nat track)
                                               bam_counter_of_track sectors_on_track]
                                       else []);
                        out3 = out2 @ (if count_of_bam_blocks \<noteq> bam_counter_of_track
                                       then [Free_count_mismatch (of_nat track)
                                               bam_counter_of_track count_of_bam_blocks]
                                       else [])
                    in bam_check_consistency_loop img maxtrack (Suc track) out3))
      else Some (0, out))"
  by pat_completeness auto
termination
  by (relation "measure (\<lambda>(img, maxtrack, track, out). Suc maxtrack - track)") auto

declare bam_check_consistency_loop.simps [simp del]

definition cbmimage_bam_check_consistency ::
  "cbmimage_fileimage \<Rightarrow> (int \<times> diagnostic list) option" where
  "cbmimage_bam_check_consistency img =
     bam_check_consistency_loop img (unat (cbmimage_get_max_track (settings img))) 1 []"

section \<open>Example images with a BAM\<close>

text \<open>
  The settings of a D64 image of 174848 bytes after \<open>cbmimage_image_open\<close>, for an image
  without the GEOS signature: info block and BAM in block 18/0 at buffer offset 91392,
  directory at 18/1.
\<close>

definition d64_image_settings :: cbmimage_image_settings where
  "d64_image_settings = d64_settings
     \<lparr> info := Some \<lparr> acc_block = \<lparr> ts_track = 18, ts_sector = 0, lba = 358 \<rparr>,
                      acc_data = Ptr 91392 \<rparr>,
       dir := \<lparr> ts_track = 18, ts_sector = 1, lba = 359 \<rparr>,
       bam := Some [\<lparr> sel_buffer = Ptr 91392, starttrack = 1,
                      sel_block = \<lparr> ts_track = 18, ts_sector = 0, lba = 358 \<rparr>,
                      startoffset = 5, multiplier = 4, data_count = 3, reverse_order = 0 \<rparr>,
                    bam_selector_zero],
       bam_counter := Some [\<lparr> sel_buffer = Ptr 91392, starttrack = 1,
                              sel_block = \<lparr> ts_track = 18, ts_sector = 0, lba = 358 \<rparr>,
                              startoffset = 4, multiplier = 4, data_count = 0,
                              reverse_order = 0 \<rparr>,
                            bam_selector_zero] \<rparr>"

text \<open>
  A zero-filled D64 image in which the BAM entry of track 1 (21 sectors) reports 22 free
  blocks and has all 24 bits of its bitmap set.
\<close>

definition buffer_d64_bad_bam :: "uint8_t list" where
  "buffer_d64_bad_bam =
     (replicate 174848 0)[91396 := 22, 91397 := 0xFF, 91398 := 0xFF, 91399 := 0xFF]"

text \<open>
  In a D64 image the BAM entry of track \<open>t\<close> is in block 18/0 (buffer offset 91392) at
  the offset \<open>4 * t\<close>: the counter byte, then the three bytes of the bitmap.
\<close>

definition d64_bam_bytes :: "uint8_t list \<Rightarrow> nat \<Rightarrow> uint8_t list" where
  "d64_bam_bytes buffer t =
     [buffer ! (91397 + 4 * (t - 1)), buffer ! (91398 + 4 * (t - 1)),
      buffer ! (91399 + 4 * (t - 1))]"

definition d64_bam_counter_byte :: "uint8_t list \<Rightarrow> nat \<Rightarrow> uint8_t" where
  "d64_bam_counter_byte buffer t = buffer ! (91396 + 4 * (t - 1))"


section \<open>Opening a D1M, D2M or D4M image (lib/d1m_d2m_d4m.c)\<close>

text \<open>
  \<open>cbmimage_i_d1m_d2m_d4m_image_create\<close>: the settings are overwritten with the
  template (81 tracks, generic conversion, directory at 1/0, no BAM selectors), the
  number of sectors per track is set, and the frame is the partition table. The info
  accessor and the GEOS probe (the same code as for the D64 family) run before the
  frame is restricted to the system partition 81/8 to 81/39 with relative addressing.
\<close>

definition d1m_d2m_d4m_settings_template :: cbmimage_image_settings where
  "d1m_d2m_d4m_settings_template =
     settings_zero\<lparr> fct_set_bam := set_bam_d1m_d2m_d4m,
                    dir := \<lparr> ts_track = 1, ts_sector = 0, lba = 0 \<rparr>,
                    maxtracks := 81, maxsectors := 40, bytes_in_block := 256 \<rparr>"

definition cbmimage_i_d1m_d2m_d4m_get_geos_infoblock ::
  "cbmimage_fileimage \<Rightarrow> (int \<times> cbmimage_image_settings) option" where
  "cbmimage_i_d1m_d2m_d4m_get_geos_infoblock img =
     (case info (settings img) of
        None \<Rightarrow> None
      | Some accessor \<Rightarrow>
          (case acc_data accessor of
             NULL \<Rightarrow> None
           | Ptr p \<Rightarrow>
               if take (length geos_text) (drop (p + 0xAD) (parameter_buffer img)) = geos_text
               then
                 let border_track = parameter_buffer img ! (p + 0xAB);
                     border_sector = parameter_buffer img ! (p + 0xAC);
                     border = CBMIMAGE_BLOCK_SET_FROM_TS (settings img)
                                (geos_border (settings img)) border_track border_sector
                 in Some (1, (settings img)
                      \<lparr>geos_border :=
                         snd (cbmimage_blockaddress_init_from_ts (settings img) border)\<rparr>)
               else Some (0, settings img)))"

definition cbmimage_i_d1m_d2m_d4m_image_create ::
  "cbmimage_fileimage \<Rightarrow> uint8_t \<Rightarrow> cbmimage_fileimage option" where
  "cbmimage_i_d1m_d2m_d4m_image_create img ms =
     (let s1 = d1m_d2m_d4m_settings_template\<lparr>maxsectors := ucast ms,
                                               is_partition_table := True\<rparr>;
          s2 = cbmimage_i_create_last_block s1
      in case cbmimage_blockaccessor_create_from_ts (img\<lparr>settings := s2\<rparr>) 1 0 of
           None \<Rightarrow> None
         | Some accessor \<Rightarrow>
             let s3 = s2\<lparr>info := Some accessor,
                        dir := snd (cbmimage_blockaddress_init_from_ts s2 (dir s2))\<rparr>
             in case cbmimage_i_d1m_d2m_d4m_get_geos_infoblock (img\<lparr>settings := s3\<rparr>) of
                  None \<Rightarrow> None
                | Some (geos, s4) \<Rightarrow>
                    let s5 = s4\<lparr>is_geos := (geos \<noteq> 0)\<rparr>;
                        s6 = s5\<lparr>block_subdir_first :=
                                  CBMIMAGE_BLOCK_SET_FROM_TS s5 (block_subdir_first s5) 81 8\<rparr>;
                        s7 = s6\<lparr>block_subdir_last :=
                                  CBMIMAGE_BLOCK_SET_FROM_TS s6 (block_subdir_last s6) 81 39\<rparr>
                    in Some (img\<lparr>settings := s7\<lparr>subdir_relative_addressing := True\<rparr>\<rparr>))"

definition cbmimage_i_d1m_image_open :: "cbmimage_fileimage \<Rightarrow> cbmimage_fileimage option" where
  "cbmimage_i_d1m_image_open img = cbmimage_i_d1m_d2m_d4m_image_create img 40"

definition cbmimage_image_open_d1m :: "uint8_t list \<Rightarrow> cbmimage_fileimage option" where
  "cbmimage_image_open_d1m buffer =
     map_option fileimage_create_last_block (cbmimage_i_d1m_image_open (fileimage_fresh buffer))"

text \<open>
  A D1M image of 3240 blocks, zero-filled except for the first byte of block 81/8, the
  first block of the system partition: its link is (2, 0).
\<close>

definition buffer_d1m_link :: "uint8_t list" where
  "buffer_d1m_link = (replicate 829440 0)[821248 := 2]"

text \<open>
  The settings of this image after \<open>cbmimage_image_open\<close> with the type hint
  \<open>TYPE_CMD_D1M\<close>, the image, and the chain that \<open>cbmimage_chain_start\<close> returns for
  block 1/0 of the system partition (block 81/8 of the image, at buffer offset 821248).
\<close>

definition d1m_image_settings :: cbmimage_image_settings where
  "d1m_image_settings =
     \<lparr> fct_d40_d64_d71 = False, maxtracks = 81, maxsectors = 40, bytes_in_block = 256,
       lastblock = \<lparr> ts_track = 81, ts_sector = 39, lba = 3240 \<rparr>,
       sectors_in_track = [], track_lba_start = replicate 71 0, subdir_data_offset = 0,
       block_subdir_first = \<lparr> ts_track = 81, ts_sector = 8, lba = 3209 \<rparr>,
       block_subdir_last = \<lparr> ts_track = 81, ts_sector = 39, lba = 3240 \<rparr>,
       subdir_relative_addressing = True,
       info = Some \<lparr> acc_block = \<lparr> ts_track = 1, ts_sector = 0, lba = 1 \<rparr>,
                      acc_data = Ptr 0 \<rparr>,
       dir = \<lparr> ts_track = 1, ts_sector = 0, lba = 1 \<rparr>, bam_count = 0, bam = None,
       bam_counter = None, fct_set_bam = set_bam_d1m_d2m_d4m, is_partition_table = True,
       is_geos = False, geos_border = cbmimage_block_unused \<rparr>"

definition image_d1m_link :: cbmimage_fileimage where
  "image_d1m_link =
     \<lparr> settings = d1m_image_settings, parameter_size = 829440,
       parameter_buffer = buffer_d1m_link \<rparr>"

definition d1m_link_chain :: cbmimage_chain where
  "d1m_link_chain =
     \<lparr> block_start = \<lparr>ts_track = 1, ts_sector = 0, lba = 1\<rparr>, is_done = False,
       is_loop = False,
       loop_detector = \<lparr> loop_map = (replicate 406 0)[0 := 2] \<rparr>,
       block_accessor = \<lparr> acc_block = \<lparr>ts_track = 1, ts_sector = 0, lba = 1\<rparr>,
                          acc_data = Ptr 821248 \<rparr> \<rparr>"

section \<open>Classification of a block by the BAM (lib/bam.c)\<close>

text \<open>The values of \<open>enum cbmimage_BAM_state_e\<close>.\<close>

definition BAM_UNKNOWN :: int where "BAM_UNKNOWN = 0"
definition BAM_REALLY_FREE :: int where "BAM_REALLY_FREE = 1"
definition BAM_FREE :: int where "BAM_FREE = 2"
definition BAM_USED :: int where "BAM_USED = 3"
definition BAM_DOES_NOT_EXIST :: int where "BAM_DOES_NOT_EXIST = 4"

text \<open>
  \<open>cbmimage_i_bam_check_really_unused\<close>: the block is all 0, or all 1 from its second
  byte on.
\<close>

definition cbmimage_i_bam_check_really_unused ::
  "cbmimage_fileimage \<Rightarrow> cbmimage_blockaddress \<Rightarrow> int option" where
  "cbmimage_i_bam_check_really_unused img block =
     (case cbmimage_i_get_address_of_block img block of
        None \<Rightarrow> None
      | Some NULL \<Rightarrow> Some 0
      | Some (Ptr p) \<Rightarrow>
          let n = unat (cbmimage_get_bytes_in_block (settings img));
              buffer = parameter_buffer img
          in if buffer ! (p + 2) = 1
             then Some (if list_all (\<lambda>i. buffer ! (p + i) = 1) [1..<n] then 1 else 0)
             else if buffer ! (p + 2) = 0
             then Some (if list_all (\<lambda>i. buffer ! (p + i) = 0) [0..<n] then 1 else 0)
             else Some 0)"

text \<open>
  \<open>cbmimage_bam_get\<close>: the bit of the sector in the bitmap of its track; a free block
  is really free when its contents say so. The value is -1 when the bitmap cannot be
  read.
\<close>

definition cbmimage_bam_get ::
  "cbmimage_fileimage \<Rightarrow> cbmimage_blockaddress \<Rightarrow> int option" where
  "cbmimage_bam_get img block =
     (case cbmimage_i_get_bam_of_track img (ts_track block) of
        None \<Rightarrow> None
      | Some (r, bam_of_track) \<Rightarrow>
          if r < 0 then Some (- 1)
          else
            let index = unat (ts_sector block) div 8;
                bitpos = unat (ts_sector block) mod 8;
                bam_state = (if bam_of_track ! index AND push_bit bitpos 1 \<noteq> 0
                             then BAM_FREE else BAM_USED)
            in if bam_state = BAM_FREE
               then (case cbmimage_i_bam_check_really_unused img block of
                       None \<Rightarrow> None
                     | Some unused \<Rightarrow>
                         Some (if unused \<noteq> 0 then BAM_REALLY_FREE else bam_state))
               else Some bam_state)"

section \<open>Advancing a block address (lib/blockaddress.c)\<close>

text \<open>
  \<open>cbmimage_i_blockaddress_advance\<close>: the return value and the block address after the
  call. \<open>track\<close> and \<open>sector\<close> are \<open>uint16_t\<close> locals, narrowed by \<open>CBMIMAGE_TS_SET\<close>;
  \<^verbatim>\<open>block->lba + first.lba - 1\<close> is computed in \<open>int\<close>.
\<close>

definition cbmimage_i_blockaddress_advance ::
  "cbmimage_image_settings \<Rightarrow> cbmimage_blockaddress \<Rightarrow> bool
     \<Rightarrow> int \<times> cbmimage_blockaddress" where
  "cbmimage_i_blockaddress_advance s block do_not_advance_in_track =
     (let track = (ucast (ts_track block) :: uint16_t);
          sector = (ucast (ts_sector block) :: uint16_t);
          sector_count = cbmimage_get_sectors_in_track s track;
          maxtrack = cbmimage_get_max_track s
      in if \<not> cbmimage_blockaddress_lba_exists s (lba block) then (- 1, block)
         else if subdir_relative_addressing s
                 \<and> uint (lba block) + uint (lba (block_subdir_first s)) - 1
                     \<ge> uint (cbmimage_get_max_lba s)
         then (- 1, block)
         else if sector + 1 \<ge> sector_count
         then (if do_not_advance_in_track then (- 1, block)
               else if track + 1 > maxtrack then (- 1, block)
               else (0, block\<lparr>ts_track := ucast (track + 1), ts_sector := 0,
                               lba := lba block + 1\<rparr>))
         else (0, block\<lparr>ts_track := ucast track, ts_sector := ucast (sector + 1),
                          lba := lba block + 1\<rparr>))"

definition cbmimage_blockaddress_advance ::
  "cbmimage_image_settings \<Rightarrow> cbmimage_blockaddress \<Rightarrow> int \<times> cbmimage_blockaddress" where
  "cbmimage_blockaddress_advance s block = cbmimage_i_blockaddress_advance s block False"

definition cbmimage_blockaddress_advance_in_track ::
  "cbmimage_image_settings \<Rightarrow> cbmimage_blockaddress \<Rightarrow> int \<times> cbmimage_blockaddress" where
  "cbmimage_blockaddress_advance_in_track s block = cbmimage_i_blockaddress_advance s block True"

text \<open>The distance of an LBA from the end of the 16-bit range, 0 for the LBA 0.\<close>

definition lba_measure :: "cbmimage_blockaddress \<Rightarrow> nat" where
  "lba_measure block = (if lba block = 0 then 0 else 65536 - unat (lba block))"

section \<open>A blank D64 image\<close>

text \<open>A zero-filled buffer of 174848 bytes after \<open>cbmimage_image_open\<close> as a D64 image.\<close>

definition image_d64_opened_zero :: cbmimage_fileimage where
  "image_d64_opened_zero =
     \<lparr> settings = d64_image_settings, parameter_size = 174848,
       parameter_buffer = replicate 174848 0 \<rparr>"

section \<open>Facts about machine words\<close>

lemma unat_uint8_less: "unat (x :: uint8_t) < 256"
  using unsigned_less[of x] by simp

lemma unat_uint16_less: "unat (x :: uint16_t) < 65536"
  using unsigned_less[of x] by simp

lemma unat_ucast_8_16: "unat (ucast (x :: uint8_t) :: uint16_t) = unat x"
proof -
  have "unat x < 2 ^ 16" using unat_uint8_less[of x] by simp
  then show ?thesis by (simp add: unsigned_ucast_eq take_bit_nat_eq_self)
qed

lemma ucast_ucast_8_16_8: "(ucast (ucast (x :: uint8_t) :: uint16_t) :: uint8_t) = x"
  by (simp add: ucast_up_ucast_id is_up)

lemma unat_of_nat_16: "n < 65536 \<Longrightarrow> unat (of_nat n :: uint16_t) = n"
  by (simp add: unsigned_of_nat take_bit_nat_eq_self)

lemma unat_of_nat_8: "n < 256 \<Longrightarrow> unat (of_nat n :: uint8_t) = n"
  by (simp add: unsigned_of_nat take_bit_nat_eq_self)

lemma uint16_neq_0_iff: "(x :: uint16_t) \<noteq> 0 \<longleftrightarrow> 0 < unat x"
  by (simp add: unat_gt_0)

lemma uint8_neq_0_iff: "(x :: uint8_t) \<noteq> 0 \<longleftrightarrow> 0 < unat x"
  by (simp add: unat_gt_0)

lemma unat_of_int_16: "0 \<le> i \<Longrightarrow> i < 65536 \<Longrightarrow> unat (of_int i :: uint16_t) = nat i"
proof -
  assume a: "0 \<le> i" "i < 65536"
  then have "(of_int i :: uint16_t) = of_nat (nat i)" by simp
  moreover have "nat i < 65536" using a by simp
  ultimately show ?thesis by (simp only: unat_of_nat_16)
qed

section \<open>The geometries of the supported image types\<close>

text \<open>
  The settings of the image types in closed form, computed from their definitions, and
  the facts that each of them is a well-formed geometry.
\<close>

lemma d40_settings_value:
  "d40_settings =
     \<lparr> fct_d40_d64_d71 = True, maxtracks = 35, maxsectors = 21, bytes_in_block = 256,
       lastblock = \<lparr> ts_track = 35, ts_sector = 16, lba = 690 \<rparr>,
       sectors_in_track = sectors_in_track_d40,
       track_lba_start =
         [0, 1, 22, 43, 64, 85, 106, 127, 148, 169, 190, 211, 232, 253, 274, 295, 316,
          337, 358, 378, 398, 418, 438, 458, 478, 498, 516, 534, 552, 570, 588, 606,
          623, 640, 657, 674, 0, 0, 0, 0, 0, 0, 0, 0, 0, 0, 0, 0, 0, 0, 0, 0, 0, 0, 0,
          0, 0, 0, 0, 0, 0, 0, 0, 0, 0, 0, 0, 0, 0, 0, 0],
       subdir_data_offset = 0,
       block_subdir_first = cbmimage_block_unused,
       block_subdir_last = cbmimage_block_unused,
       subdir_relative_addressing = False,
       info = None, dir = cbmimage_block_unused, bam_count = 1,
       bam = Some i_d40_d64_bam, bam_counter = Some i_d40_d64_bam_counter,
       fct_set_bam = set_bam_NULL, is_partition_table = False, is_geos = False,
       geos_border = cbmimage_block_unused \<rparr>"
  by code_simp

lemma d40_table_geometry: "table_geometry d40_settings"
  by (simp add: table_geometry_def d40_settings_value sectors_in_track_d40_def)

lemma d64_settings_value:
  "d64_settings =
     \<lparr> fct_d40_d64_d71 = True, maxtracks = 35, maxsectors = 21, bytes_in_block = 256,
       lastblock = \<lparr> ts_track = 35, ts_sector = 16, lba = 683 \<rparr>,
       sectors_in_track = sectors_in_track_d64,
       track_lba_start =
         [0, 1, 22, 43, 64, 85, 106, 127, 148, 169, 190, 211, 232, 253, 274, 295, 316,
          337, 358, 377, 396, 415, 434, 453, 472, 491, 509, 527, 545, 563, 581, 599,
          616, 633, 650, 667, 0, 0, 0, 0, 0, 0, 0, 0, 0, 0, 0, 0, 0, 0, 0, 0, 0, 0, 0,
          0, 0, 0, 0, 0, 0, 0, 0, 0, 0, 0, 0, 0, 0, 0, 0],
       subdir_data_offset = 0,
       block_subdir_first = cbmimage_block_unused,
       block_subdir_last = cbmimage_block_unused,
       subdir_relative_addressing = False,
       info = None, dir = cbmimage_block_unused, bam_count = 1,
       bam = Some i_d40_d64_bam, bam_counter = Some i_d40_d64_bam_counter,
       fct_set_bam = set_bam_NULL, is_partition_table = False, is_geos = False,
       geos_border = cbmimage_block_unused \<rparr>"
  by code_simp

lemma d64_table_geometry: "table_geometry d64_settings"
  by (simp add: table_geometry_def d64_settings_value sectors_in_track_d64_def)

lemma d64_40track_settings_value:
  "d64_40track_settings =
     \<lparr> fct_d40_d64_d71 = True, maxtracks = 40, maxsectors = 21, bytes_in_block = 256,
       lastblock = \<lparr> ts_track = 40, ts_sector = 16, lba = 768 \<rparr>,
       sectors_in_track = sectors_in_track_d64,
       track_lba_start =
         [0, 1, 22, 43, 64, 85, 106, 127, 148, 169, 190, 211, 232, 253, 274, 295, 316,
          337, 358, 377, 396, 415, 434, 453, 472, 491, 509, 527, 545, 563, 581, 599,
          616, 633, 650, 667, 684, 701, 718, 735, 752, 0, 0, 0, 0, 0, 0, 0, 0, 0, 0, 0,
          0, 0, 0, 0, 0, 0, 0, 0, 0, 0, 0, 0, 0, 0, 0, 0, 0, 0, 0],
       subdir_data_offset = 0,
       block_subdir_first = cbmimage_block_unused,
       block_subdir_last = cbmimage_block_unused,
       subdir_relative_addressing = False,
       info = None, dir = cbmimage_block_unused, bam_count = 1,
       bam = Some i_d40_d64_bam, bam_counter = Some i_d40_d64_bam_counter,
       fct_set_bam = set_bam_NULL, is_partition_table = False, is_geos = False,
       geos_border = cbmimage_block_unused \<rparr>"
  by code_simp

lemma d64_40track_table_geometry: "table_geometry d64_40track_settings"
  by (simp add: table_geometry_def d64_40track_settings_value sectors_in_track_d64_def)

lemma d64_42track_settings_value:
  "d64_42track_settings =
     \<lparr> fct_d40_d64_d71 = True, maxtracks = 42, maxsectors = 21, bytes_in_block = 256,
       lastblock = \<lparr> ts_track = 42, ts_sector = 16, lba = 802 \<rparr>,
       sectors_in_track = sectors_in_track_d64,
       track_lba_start =
         [0, 1, 22, 43, 64, 85, 106, 127, 148, 169, 190, 211, 232, 253, 274, 295, 316,
          337, 358, 377, 396, 415, 434, 453, 472, 491, 509, 527, 545, 563, 581, 599,
          616, 633, 650, 667, 684, 701, 718, 735, 752, 769, 786, 0, 0, 0, 0, 0, 0, 0,
          0, 0, 0, 0, 0, 0, 0, 0, 0, 0, 0, 0, 0, 0, 0, 0, 0, 0, 0, 0, 0],
       subdir_data_offset = 0,
       block_subdir_first = cbmimage_block_unused,
       block_subdir_last = cbmimage_block_unused,
       subdir_relative_addressing = False,
       info = None, dir = cbmimage_block_unused, bam_count = 1,
       bam = Some i_d40_d64_bam, bam_counter = Some i_d40_d64_bam_counter,
       fct_set_bam = set_bam_NULL, is_partition_table = False, is_geos = False,
       geos_border = cbmimage_block_unused \<rparr>"
  by code_simp

lemma d64_42track_table_geometry: "table_geometry d64_42track_settings"
  by (simp add: table_geometry_def d64_42track_settings_value sectors_in_track_d64_def)

lemma d71_settings_value:
  "d71_settings =
     \<lparr> fct_d40_d64_d71 = True, maxtracks = 70, maxsectors = 21, bytes_in_block = 256,
       lastblock = \<lparr> ts_track = 70, ts_sector = 16, lba = 1366 \<rparr>,
       sectors_in_track = sectors_in_track_d71,
       track_lba_start =
         [0, 1, 22, 43, 64, 85, 106, 127, 148, 169, 190, 211, 232, 253, 274, 295, 316,
          337, 358, 377, 396, 415, 434, 453, 472, 491, 509, 527, 545, 563, 581, 599,
          616, 633, 650, 667, 684, 705, 726, 747, 768, 789, 810, 831, 852, 873, 894,
          915, 936, 957, 978, 999, 1020, 1041, 1060, 1079, 1098, 1117, 1136, 1155,
          1174, 1192, 1210, 1228, 1246, 1264, 1282, 1299, 1316, 1333, 1350],
       subdir_data_offset = 0,
       block_subdir_first = cbmimage_block_unused,
       block_subdir_last = cbmimage_block_unused,
       subdir_relative_addressing = False,
       info = None, dir = cbmimage_block_unused, bam_count = 2,
       bam = Some i_d71_bam, bam_counter = Some i_d71_bam_counter,
       fct_set_bam = set_bam_d71, is_partition_table = False, is_geos = False,
       geos_border = cbmimage_block_unused \<rparr>"
  by code_simp

lemma d71_table_geometry: "table_geometry d71_settings"
  by (simp add: table_geometry_def d71_settings_value sectors_in_track_d71_def)

lemma d81_settings_value:
  "d81_settings =
     \<lparr> fct_d40_d64_d71 = False, maxtracks = 80, maxsectors = 40, bytes_in_block = 256,
       lastblock = \<lparr> ts_track = 80, ts_sector = 39, lba = 3200 \<rparr>,
       sectors_in_track = [],
       track_lba_start = replicate 71 0,
       subdir_data_offset = 0,
       block_subdir_first = cbmimage_block_unused,
       block_subdir_last = cbmimage_block_unused,
       subdir_relative_addressing = False,
       info = None, dir = cbmimage_block_unused, bam_count = 0,
       bam = None, bam_counter = None,
       fct_set_bam = set_bam_NULL, is_partition_table = False, is_geos = False,
       geos_border = cbmimage_block_unused \<rparr>"
  by code_simp

lemma d81_generic_geometry: "generic_geometry d81_settings"
  by (simp add: generic_geometry_def d81_settings_value)

section \<open>Address conversion on a generic geometry\<close>

lemma ts_exists_generic:
  assumes "\<not> fct_d40_d64_d71 s"
  shows "cbmimage_blockaddress_ts_exists s t sec \<longleftrightarrow>
           0 < unat t \<and> unat t \<le> unat (maxtracks s) \<and> unat sec < unat (maxsectors s)"
  using assms
  by (auto simp: cbmimage_blockaddress_ts_exists_def cbmimage_get_max_track_def
      cbmimage_get_max_sectors_def cbmimage_get_sectors_in_track_def unat_ucast_8_16)

lemma generic_lba_bound:
  assumes "0 < t" "t \<le> mt" "sec < (ms::nat)"
  shows "(t - 1) * ms + sec + 1 \<le> mt * ms"
proof -
  have "(t - 1) * ms + sec + 1 \<le> (t - 1) * ms + ms"
    using assms(3) by simp
  also have "\<dots> = t * ms"
    using assms(1) by (cases t) simp_all
  also have "\<dots> \<le> mt * ms"
    using assms(2) by simp
  finally show ?thesis .
qed

lemma unat_generic_ts_lba:
  assumes "0 < unat t" "(unat t - 1) * unat (maxsectors s) + unat sec + 1 < 65536"
  shows "unat (generic_ts_lba s t sec) = (unat t - 1) * unat (maxsectors s) + unat sec + 1"
proof -
  let ?n = "(unat t - 1) * unat (maxsectors s) + unat sec + 1"
  have "int (unat t) - 1 = int (unat t - 1)" using assms(1) by simp
  then have "(int (unat t) - 1) * int (unat (maxsectors s)) + int (unat sec) + 1 = int ?n"
    by simp
  then have "generic_ts_lba s t sec = of_int (int ?n)"
    unfolding generic_ts_lba_def by (simp only:)
  also have "\<dots> = of_nat ?n" by (rule of_int_of_nat_eq)
  finally have "generic_ts_lba s t sec = of_nat ?n" .
  then show ?thesis using unat_of_nat_16[OF assms(2)] by (simp only:)
qed

lemma unat_generic_lba_track:
  "unat (generic_lba_track s l) = (unat l - 1) div unat (maxsectors s) + 1"
proof -
  have "(unat l - 1) div unat (maxsectors s) \<le> unat l - 1" by (rule div_le_dividend)
  then have "(unat l - 1) div unat (maxsectors s) + 1 < 65536"
    using unat_uint16_less[of l] by linarith
  then show ?thesis unfolding generic_lba_track_def by (rule unat_of_nat_16)
qed

lemma generic_from_lba_arith:
  assumes "0 < (l::nat)"
  shows "int l - 1 - (int ((l - 1) div ms + 1) - 1) * int ms = int ((l - 1) mod ms)"
proof -
  have a: "int l - 1 = int (l - 1)" using assms by simp
  have "int (l - 1) = int ((l - 1) div ms * ms + (l - 1) mod ms)" by simp
  also have "\<dots> = int ((l - 1) div ms) * int ms + int ((l - 1) mod ms)"
    by (simp only: of_nat_add of_nat_mult)
  finally have b: "int (l - 1) = int ((l - 1) div ms) * int ms + int ((l - 1) mod ms)" .
  have c: "int ((l - 1) div ms + 1) - 1 = int ((l - 1) div ms)" by simp
  show ?thesis unfolding a c using b by linarith
qed

lemma unat_generic_lba_sector:
  assumes "0 < unat l"
  shows "unat (generic_lba_sector s l) = (unat l - 1) mod unat (maxsectors s)"
proof -
  let ?ms = "unat (maxsectors s)"
  let ?r = "(unat l - 1) mod ?ms"
  have "int (unat l) - 1 - (int (unat (generic_lba_track s l)) - 1) * int ?ms = int ?r"
    unfolding unat_generic_lba_track using assms by (rule generic_from_lba_arith)
  then have "generic_lba_sector s l = of_int (int ?r)"
    unfolding generic_lba_sector_def by (simp only:)
  also have "\<dots> = of_nat ?r" by (rule of_int_of_nat_eq)
  finally have e: "generic_lba_sector s l = of_nat ?r" .
  have "?r \<le> unat l - 1" by (rule mod_less_eq_dividend)
  then have "?r < 65536" using unat_uint16_less[of l] by linarith
  then have "unat (of_nat ?r :: uint16_t) = ?r" by (rule unat_of_nat_16)
  with e show ?thesis by (simp only:)
qed

lemma generic_round_trip:
  assumes g: "generic_geometry s" and e: "cbmimage_blockaddress_ts_exists s t sec"
  shows "\<exists>b. cbmimage_blockaddress_init_from_ts_value s b0 t sec = (0, b)
           \<and> ts_track b = t \<and> ts_sector b = sec
           \<and> cbmimage_blockaddress_init_from_lba_value s b1 (lba b)
               = Some (0, b1\<lparr>ts_track := t, ts_sector := sec, lba := lba b\<rparr>)"
proof -
  let ?ms = "unat (maxsectors s)"
  let ?n = "(unat t - 1) * ?ms + unat sec + 1"
  let ?l = "generic_ts_lba s t sec"
  from g have nf: "\<not> fct_d40_d64_d71 s" and ms: "0 < ?ms" "?ms \<le> 256"
    and tot: "unat (maxtracks s) * ?ms < 65536"
    by (auto simp: generic_geometry_def)
  from e nf have t: "0 < unat t" "unat t \<le> unat (maxtracks s)" and sec: "unat sec < ?ms"
    by (auto simp: ts_exists_generic)
  have nb: "?n < 65536" using generic_lba_bound[OF t sec] tot by simp
  have ul: "unat ?l = ?n" using t(1) nb by (rule unat_generic_ts_lba)
  have 1: "cbmimage_blockaddress_init_from_ts_value s b0 t sec
             = (0, b0\<lparr>ts_track := t, ts_sector := sec, lba := ?l\<rparr>)"
    using nf e by (simp add: cbmimage_blockaddress_init_from_ts_value_def
        cbmimage_blockaddress_init_from_ts_def cbmimage_i_generic_ts_to_blockaddress_def)
  have l0: "?l \<noteq> 0" using ul by (simp add: uint16_neq_0_iff)
  have ms0: "maxsectors s \<noteq> 0" using ms by (simp add: uint16_neq_0_iff)
  have "(?n - 1) div ?ms = unat t - 1" using sec ms by simp
  then have "unat (generic_lba_track s ?l) = unat t"
    using t(1) by (simp add: unat_generic_lba_track ul)
  then have tr: "generic_lba_track s ?l = ucast t"
    by (simp add: word_unat_eq_iff unat_ucast_8_16)
  have "0 < unat ?l" using ul by simp
  then have "unat (generic_lba_sector s ?l) = (?n - 1) mod ?ms"
    by (simp add: unat_generic_lba_sector ul)
  also have "\<dots> = unat sec" using sec by simp
  finally have se: "generic_lba_sector s ?l = ucast sec"
    by (simp add: word_unat_eq_iff unat_ucast_8_16)
  have 2: "cbmimage_blockaddress_init_from_lba_value s b1 ?l
               = Some (0, b1\<lparr>ts_track := t, ts_sector := sec, lba := ?l\<rparr>)"
    using nf l0 ms0 t sec
    by (simp add: cbmimage_blockaddress_init_from_lba_value_def
        cbmimage_blockaddress_init_from_lba_def cbmimage_i_generic_lba_to_blockaddress_def
        tr se unat_ucast_8_16 ucast_ucast_8_16_8 Let_def)
  show ?thesis using 1 2 by simp
qed

lemma generic_init_from_lba_fails_iff:
  assumes g: "generic_geometry s"
    and lb: "unat (lba (lastblock s)) = unat (maxtracks s) * unat (maxsectors s)"
  shows "\<exists>r b'. cbmimage_blockaddress_init_from_lba_value s b l = Some (r, b')
           \<and> (r \<noteq> 0 \<longleftrightarrow> \<not> cbmimage_blockaddress_lba_exists s l)"
proof (cases "l = 0")
  case True
  with g show ?thesis
    by (simp add: generic_geometry_def cbmimage_blockaddress_init_from_lba_value_def
        cbmimage_blockaddress_init_from_lba_def cbmimage_i_generic_lba_to_blockaddress_def
        cbmimage_blockaddress_lba_exists_def)
next
  case False
  let ?ms = "unat (maxsectors s)"
  let ?mt = "unat (maxtracks s)"
  let ?l = "unat l"
  from g have nf: "\<not> fct_d40_d64_d71 s" and ms: "0 < ?ms"
    by (auto simp: generic_geometry_def)
  have l0: "0 < ?l" using False by (simp add: uint16_neq_0_iff)
  have ms0: "maxsectors s \<noteq> 0" using ms by (simp add: uint16_neq_0_iff)
  have lt: "unat (generic_lba_sector s l) < ?ms"
    using ms by (simp add: unat_generic_lba_sector[OF l0])
  have iff: "?mt < unat (generic_lba_track s l) \<longleftrightarrow> ?mt * ?ms < ?l"
  proof -
    have "?mt < unat (generic_lba_track s l) \<longleftrightarrow> ?mt \<le> (?l - 1) div ?ms"
      unfolding unat_generic_lba_track by auto
    also have "\<dots> \<longleftrightarrow> ?mt * ?ms \<le> ?l - 1"
      using ms by (simp add: less_eq_div_iff_mult_less_eq)
    also have "\<dots> \<longleftrightarrow> ?mt * ?ms < ?l" using l0 by auto
    finally show ?thesis .
  qed
  have ex: "cbmimage_blockaddress_lba_exists s l \<longleftrightarrow> \<not> ?mt * ?ms < ?l"
    using l0 lb by (auto simp: cbmimage_blockaddress_lba_exists_def cbmimage_get_max_lba_def)
  show ?thesis
    using nf False ms0 lt iff ex
    by (simp add: cbmimage_blockaddress_init_from_lba_value_def
        cbmimage_blockaddress_init_from_lba_def cbmimage_i_generic_lba_to_blockaddress_def
        Let_def)
qed

section \<open>Address conversion on a table geometry\<close>

lemma nth_track_starts:
  "t < length xs \<Longrightarrow> track_starts n xs ! t = n + sum_list (map unat (take t xs))"
proof (induction xs arbitrary: n t)
  case Nil
  then show ?case by simp
next
  case (Cons x xs)
  show ?case
  proof (cases t)
    case 0
    then show ?thesis by simp
  next
    case (Suc k)
    with Cons.prems have "k < length xs" by simp
    from Cons.IH[OF this, of "n + unat x"] Suc show ?thesis by simp
  qed
qed

lemma length_track_starts: "length (track_starts n xs) = length xs"
  by (induction xs arbitrary: n) simp_all

lemma table_start:
  assumes g: "table_geometry s" and t: "1 \<le> t" "t \<le> unat (maxtracks s)"
  shows "unat (track_lba_start s ! t) = track_start (sectors_in_track s) t"
proof -
  let ?mt = "unat (maxtracks s)"
  let ?tls = "track_lba_start s"
  let ?sit = "sectors_in_track s"
  from g have len: "?mt < length ?sit" "?mt < length ?tls"
    and eq: "map unat (take ?mt (tl ?tls)) = track_starts 1 (take ?mt (tl ?sit))"
    by (auto simp: table_geometry_def)
  have k: "t - 1 < ?mt" using t by simp
  have l1: "t - 1 < length (take ?mt (tl ?tls))" using k len by simp
  have l2: "t - 1 < length (take ?mt (tl ?sit))" using k len by simp
  have "unat (?tls ! t) = unat (tl ?tls ! (t - 1))"
    using t len by (simp add: nth_tl)
  also have "\<dots> = map unat (take ?mt (tl ?tls)) ! (t - 1)"
    using l1 k by simp
  also have "\<dots> = track_starts 1 (take ?mt (tl ?sit)) ! (t - 1)"
    by (simp only: eq)
  also have "\<dots> = 1 + sum_list (map unat (take (t - 1) (take ?mt (tl ?sit))))"
    using l2 by (rule nth_track_starts)
  also have "take (t - 1) (take ?mt (tl ?sit)) = take (t - 1) (tl ?sit)"
    using k by (simp add: min_def)
  finally show ?thesis by (simp add: track_start_def)
qed

lemma track_start_Suc:
  assumes "1 \<le> t" "t < length sit"
  shows "track_start sit (Suc t) = track_start sit t + unat (sit ! t)"
proof -
  have k: "t - 1 < length (tl sit)" using assms by simp
  have "take t (tl sit) = take (Suc (t - 1)) (tl sit)" using assms by simp
  also have "\<dots> = take (t - 1) (tl sit) @ [tl sit ! (t - 1)]"
    using k by (rule take_Suc_conv_app_nth)
  also have "tl sit ! (t - 1) = sit ! t"
    using assms by (simp add: nth_tl)
  finally show ?thesis by (simp add: track_start_def)
qed

lemma track_start_mono:
  assumes "t \<le> t'"
  shows "track_start sit t \<le> track_start sit t'"
proof -
  have "take (t' - 1) (tl sit) = take (t - 1) (tl sit) @ take (t' - 1 - (t - 1)) (drop (t - 1) (tl sit))"
    using assms by (metis diff_le_mono le_add_diff_inverse take_add)
  then show ?thesis by (simp add: track_start_def)
qed

lemma table_total:
  assumes "table_geometry s"
  shows "track_start (sectors_in_track s) (Suc (unat (maxtracks s))) \<le> 65536"
  using assms by (simp add: table_geometry_def track_start_def)

lemma scan_finds:
  assumes g: "table_geometry s"
    and t: "1 \<le> t" "t \<le> unat (maxtracks s)"
    and lo: "track_start (sectors_in_track s) t \<le> unat l"
    and hi: "unat l < track_start (sectors_in_track s) (Suc t)"
    and k: "1 \<le> k" "k \<le> Suc t"
  shows "d40_d64_d71_scan s l k = Suc t"
  using k
proof (induction "Suc t - k" arbitrary: k)
  case 0
  then have kt: "k = Suc t" by simp
  show ?case
  proof (cases "k \<le> unat (maxtracks s)")
    case True
    have "unat (track_lba_start s ! k) = track_start (sectors_in_track s) k"
      using g "0.prems"(1) True by (rule table_start)
    with hi kt True show ?thesis
      by (subst d40_d64_d71_scan.simps) simp
  next
    case False
    with kt show ?thesis by (subst d40_d64_d71_scan.simps) simp
  qed
next
  case (Suc n)
  then have kt: "k \<le> t" by simp
  with t have km: "k \<le> unat (maxtracks s)" by simp
  have "unat (track_lba_start s ! k) = track_start (sectors_in_track s) k"
    using g Suc.prems(1) km by (rule table_start)
  also have "\<dots> \<le> track_start (sectors_in_track s) t"
    using kt by (rule track_start_mono)
  finally have le: "unat (track_lba_start s ! k) \<le> unat l" using lo by simp
  have "d40_d64_d71_scan s l (Suc k) = Suc t"
    using Suc.hyps(2) kt by (intro Suc.hyps(1)) simp_all
  with km le show ?case by (subst d40_d64_d71_scan.simps) simp
qed

lemma ts_exists_table:
  assumes "fct_d40_d64_d71 s"
  shows "cbmimage_blockaddress_ts_exists s t sec \<longleftrightarrow>
           0 < unat t \<and> unat t \<le> unat (maxtracks s) \<and> unat sec < unat (maxsectors s)
           \<and> unat sec < unat (sectors_in_track s ! unat t)"
  using assms
  by (auto simp: cbmimage_blockaddress_ts_exists_def cbmimage_get_max_track_def
      cbmimage_get_max_sectors_def cbmimage_get_sectors_in_track_def unat_ucast_8_16
      cbmimage_i_d40_d64_d71_get_sectors_in_track_def)

lemma table_round_trip:
  assumes g: "table_geometry s" and e: "cbmimage_blockaddress_ts_exists s t sec"
  shows "\<exists>b. cbmimage_blockaddress_init_from_ts_value s b0 t sec = (0, b)
           \<and> ts_track b = t \<and> ts_sector b = sec
           \<and> cbmimage_blockaddress_init_from_lba_value s b1 (lba b)
               = Some (0, b1\<lparr>ts_track := t, ts_sector := sec, lba := lba b\<rparr>)"
proof -
  let ?sit = "sectors_in_track s"
  let ?tls = "track_lba_start s"
  let ?n = "unat (?tls ! unat t) + unat sec"
  let ?l = "d40_d64_d71_ts_lba s t sec"
  from g have f: "fct_d40_d64_d71 s" and len: "unat (maxtracks s) < length ?sit"
    by (auto simp: table_geometry_def)
  from e f have t: "0 < unat t" "unat t \<le> unat (maxtracks s)"
    and sec: "unat sec < unat (?sit ! unat t)"
    by (auto simp: ts_exists_table)
  have t1: "1 \<le> unat t" using t(1) by simp
  have st: "unat (?tls ! unat t) = track_start ?sit (unat t)"
    using g t1 t(2) by (rule table_start)
  have nx: "track_start ?sit (Suc (unat t)) = track_start ?sit (unat t) + unat (?sit ! unat t)"
    using t1 t(2) len by (intro track_start_Suc) simp_all
  have "track_start ?sit (Suc (unat t)) \<le> track_start ?sit (Suc (unat (maxtracks s)))"
    using t(2) by (intro track_start_mono) simp
  also have "\<dots> \<le> 65536" using g by (rule table_total)
  finally have nb: "?n < 65536" using st nx sec by simp
  have ul: "unat ?l = ?n" unfolding d40_d64_d71_ts_lba_def using nb by (rule unat_of_nat_16)
  have t0: "t \<noteq> 0" using t(1) by (simp add: uint8_neq_0_iff)
  have 1: "cbmimage_blockaddress_init_from_ts_value s b0 t sec
             = (0, b0\<lparr>ts_track := t, ts_sector := sec, lba := ?l\<rparr>)"
    using f t0 t(2)
    by (simp add: cbmimage_blockaddress_init_from_ts_value_def
        cbmimage_blockaddress_init_from_ts_def cbmimage_i_d40_d64_d71_ts_to_blockaddress_def)
  have sc: "d40_d64_d71_scan s ?l 1 = Suc (unat t)"
    using g t1 t(2) _ _ _ _
  proof (rule scan_finds)
    show "track_start ?sit (unat t) \<le> unat ?l" using ul st by simp
    show "unat ?l < track_start ?sit (Suc (unat t))" using ul st nx sec by simp
    show "(1::nat) \<le> 1" by simp
    show "1 \<le> Suc (unat t)" by simp
  qed
  have sc': "d40_d64_d71_scan s ?l (Suc 0) = Suc (unat t)" using sc by simp
  have "int (unat ?l) - int (unat (?tls ! unat t)) = int (unat sec)"
    using ul by simp
  then have "d40_d64_d71_lba_sector s ?l (unat t) = of_int (int (unat sec))"
    unfolding d40_d64_d71_lba_sector_def by (simp only:)
  then have sw: "d40_d64_d71_lba_sector s ?l (unat t) = ucast sec" by simp
  have 2: "cbmimage_blockaddress_init_from_lba_value s b1 ?l
               = Some (0, b1\<lparr>ts_track := t, ts_sector := sec, lba := ?l\<rparr>)"
    using f sec
    by (simp add: cbmimage_blockaddress_init_from_lba_value_def
        cbmimage_blockaddress_init_from_lba_def cbmimage_i_d40_d64_d71_lba_to_blockaddress_def
        sc' sw unat_ucast_8_16 ucast_ucast_8_16_8 Let_def)
  show ?thesis using 1 2 by simp
qed

section \<open>Claims about block addresses\<close>

text \<open>
  Claim C7 (address round trip). On every well-formed geometry, generic or table based,
  and for every track/sector pair that exists in the frame, converting the pair to a
  block address succeeds, and converting the LBA of that block address back succeeds and
  yields the same track and sector.
\<close>

theorem address_round_trip:
  assumes "generic_geometry s \<or> table_geometry s"
    and "cbmimage_blockaddress_ts_exists s t sec"
  shows "\<exists>b. cbmimage_blockaddress_init_from_ts_value s b0 t sec = (0, b)
           \<and> ts_track b = t \<and> ts_sector b = sec
           \<and> cbmimage_blockaddress_init_from_lba_value s b1 (lba b)
               = Some (0, b1\<lparr>ts_track := t, ts_sector := sec, lba := lba b\<rparr>)"
  using assms generic_round_trip table_round_trip by blast

theorem address_round_trip_witness:
  "(generic_geometry d64_settings \<or> table_geometry d64_settings)
   \<and> cbmimage_blockaddress_ts_exists d64_settings 18 1
   \<and> (\<exists>b. cbmimage_blockaddress_init_from_ts_value d64_settings
              cbmimage_block_unused 18 1 = (0, b)
         \<and> ts_track b = 18 \<and> ts_sector b = 1
         \<and> cbmimage_blockaddress_init_from_lba_value d64_settings
              cbmimage_block_unused (lba b)
             = Some (0, cbmimage_block_unused\<lparr>ts_track := 18, ts_sector := 1, lba := lba b\<rparr>))
   \<and> (generic_geometry d81_settings \<or> table_geometry d81_settings)
   \<and> cbmimage_blockaddress_ts_exists d81_settings 40 3
   \<and> (\<exists>b. cbmimage_blockaddress_init_from_ts_value d81_settings
              cbmimage_block_unused 40 3 = (0, b)
         \<and> ts_track b = 40 \<and> ts_sector b = 3
         \<and> cbmimage_blockaddress_init_from_lba_value d81_settings
              cbmimage_block_unused (lba b)
             = Some (0, cbmimage_block_unused\<lparr>ts_track := 40, ts_sector := 3, lba := lba b\<rparr>))"
proof -
  have g64: "generic_geometry d64_settings \<or> table_geometry d64_settings"
    using d64_table_geometry by simp
  have e64: "cbmimage_blockaddress_ts_exists d64_settings 18 1"
    by (simp add: ts_exists_table d64_settings_value sectors_in_track_d64_def)
  have g81: "generic_geometry d81_settings \<or> table_geometry d81_settings"
    using d81_generic_geometry by simp
  have e81: "cbmimage_blockaddress_ts_exists d81_settings 40 3"
    by (simp add: ts_exists_generic d81_settings_value)
  show ?thesis
    using g64 e64 g81 e81
      address_round_trip [OF g64 e64, of cbmimage_block_unused cbmimage_block_unused]
      address_round_trip [OF g81 e81, of cbmimage_block_unused cbmimage_block_unused]
    by simp
qed

text \<open>
  Claim C4 (LBA range check). The claim requires initialising a block address from an
  LBA to fail exactly for \<open>l = 0\<close> and \<open>l > max_lba\<close>. The generic conversion does so
  (\<open>generic_init_from_lba_fails_iff\<close>). The table conversion of the D40/D64/D71 family
  compares \<open>sector > sectors_in_track[track]\<close> where the last sector of a track is
  \<open>sectors_in_track[track] - 1\<close>: on a D64 image (35 tracks, \<open>max_lba = 683\<close>) the call
  with \<open>l = 684\<close> returns 0 and delivers track 35, sector 17, which does not exist; the
  call with \<open>l = 0\<close> returns 0 as well.
\<close>

theorem init_from_lba_value_d64_past_last_block:
  "cbmimage_get_max_lba d64_settings = 683
   \<and> \<not> cbmimage_blockaddress_lba_exists d64_settings 684
   \<and> cbmimage_blockaddress_init_from_lba_value d64_settings
         cbmimage_block_unused 684
       = Some (0, \<lparr>ts_track = 35, ts_sector = 17, lba = 684\<rparr>)
   \<and> \<not> cbmimage_blockaddress_ts_exists d64_settings 35 17
   \<and> \<not> cbmimage_blockaddress_lba_exists d64_settings 0
   \<and> cbmimage_blockaddress_init_from_lba_value d64_settings
         cbmimage_block_unused 0
       = Some (0, cbmimage_block_unused)"
  unfolding d64_settings_value by code_simp

lemma init_from_lba_keeps_lba:
  assumes "cbmimage_blockaddress_init_from_lba s b = Some (rc, b')"
  shows "lba b' = lba b"
  using assms
  by (auto simp: cbmimage_blockaddress_init_from_lba_def
      cbmimage_i_d40_d64_d71_lba_to_blockaddress_def
      cbmimage_i_generic_lba_to_blockaddress_def Let_def split: if_splits)

lemma init_from_lba_returns:
  assumes "fct_d40_d64_d71 s \<or> maxsectors s \<noteq> 0"
  shows "\<exists>rc b'. cbmimage_blockaddress_init_from_lba s b = Some (rc, b')"
  using assms
  by (auto simp: cbmimage_blockaddress_init_from_lba_def
      cbmimage_i_d40_d64_d71_lba_to_blockaddress_def
      cbmimage_i_generic_lba_to_blockaddress_def Let_def)

lemma blockaddress_add_lba_word:
  "blockaddress_add_lba blockresult block_adder = lba blockresult + lba block_adder - 1"
  by (simp add: blockaddress_add_lba_def)

text \<open>
  Claim C10 (\<open>cbmimage_blockaddress_add\<close>). On every frame whose LBA conversion cannot
  trap (the conversion is table based or \<open>maxsectors\<close> is not zero; this excludes only
  the zeroed frame of an image of unknown type, which has no block), the function
  returns 0. The result operand is unchanged when the
  adder's LBA is 0; it is the adder when the result operand's LBA is 0; otherwise it is
  the block address that \<open>cbmimage_blockaddress_init_from_lba\<close> makes of the LBA
  \<open>result.lba + adder.lba - 1\<close>, computed in the 16-bit type of the field, whatever
  that conversion returns.
\<close>

theorem blockaddress_add_result:
  assumes "fct_d40_d64_d71 s \<or> maxsectors s \<noteq> 0"
  shows "\<exists>r. cbmimage_blockaddress_add s blockresult block_adder = Some (0, r)
           \<and> (if lba block_adder = 0 then r = blockresult
               else if lba blockresult = 0 then r = block_adder
               else lba r = lba blockresult + lba block_adder - 1
                    \<and> (\<exists>rc. cbmimage_blockaddress_init_from_lba s
                          (cbmimage_block_unused\<lparr>lba := lba blockresult + lba block_adder - 1\<rparr>)
                        = Some (rc, r)))"
proof -
  let ?b = "cbmimage_block_unused\<lparr>lba := lba blockresult + lba block_adder - 1\<rparr>"
  from init_from_lba_returns[OF assms, of ?b] obtain rc b'
    where i: "cbmimage_blockaddress_init_from_lba s ?b = Some (rc, b')" by blast
  from init_from_lba_keeps_lba[OF i] have "lba b' = lba blockresult + lba block_adder - 1"
    by simp
  with i show ?thesis
    by (simp add: cbmimage_blockaddress_add_def blockaddress_add_lba_word)
qed

theorem blockaddress_add_result_witness:
  "(fct_d40_d64_d71 d81_settings \<or> maxsectors d81_settings \<noteq> 0)
   \<and> cbmimage_blockaddress_add d81_settings
         \<lparr>ts_track = 1, ts_sector = 5, lba = 6\<rparr> \<lparr>ts_track = 3, ts_sector = 0, lba = 81\<rparr>
       = Some (0, \<lparr>ts_track = 3, ts_sector = 5, lba = 86\<rparr>)"
proof -
  have h: "fct_d40_d64_d71 d81_settings \<or> maxsectors d81_settings \<noteq> 0"
    by (simp add: d81_settings_value)
  from blockaddress_add_result[OF h, of "\<lparr>ts_track = 1, ts_sector = 5, lba = 6\<rparr>"
      "\<lparr>ts_track = 3, ts_sector = 0, lba = 81\<rparr>"]
  obtain r where r: "cbmimage_blockaddress_add d81_settings
         \<lparr>ts_track = 1, ts_sector = 5, lba = 6\<rparr> \<lparr>ts_track = 3, ts_sector = 0, lba = 81\<rparr>
       = Some (0, r)"
    and "\<exists>rc. cbmimage_blockaddress_init_from_lba d81_settings
            (cbmimage_block_unused\<lparr>lba := 86\<rparr>) = Some (rc, r)"
    by auto
  moreover have "cbmimage_blockaddress_init_from_lba d81_settings
            (cbmimage_block_unused\<lparr>lba := 86\<rparr>) = Some (0, \<lparr>ts_track = 3, ts_sector = 5, lba = 86\<rparr>)"
    by (simp add: d81_settings_value cbmimage_blockaddress_init_from_lba_def
        cbmimage_i_generic_lba_to_blockaddress_def generic_lba_track_def generic_lba_sector_def
        cbmimage_block_unused_def Let_def)
  ultimately show ?thesis using h by simp
qed

section \<open>Claims about the reconstructed FAT\<close>

lemma fat_get_unused:
  assumes "fct_d40_d64_d71 s \<or> maxsectors s \<noteq> 0"
  shows "cbmimage_fat_get s fat block = Some cbmimage_block_unused"
proof -
  obtain rc b' where
    "cbmimage_blockaddress_init_from_lba s (block\<lparr>lba := 1\<rparr>) = Some (rc, b')"
    using init_from_lba_returns[OF assms] by blast
  then show ?thesis
    by (simp add: cbmimage_fat_get_def CBMIMAGE_FAT_UNUSED_def CBMIMAGE_FAT_LASTBLOCK_def Let_def)
qed

text \<open>
  Claim C3 (FAT set/get). The claim requires \<open>cbmimage_fat_get\<close> to return the stored
  target after \<open>cbmimage_fat_set\<close>. The code stores the target correctly, but
  \<open>cbmimage_fat_get\<close> returns the unused block address for every entry
  (\<open>fat_get_unused\<close>): on a D64 image, after setting the entry of block 18/0 to 18/1
  the table holds LBA 359 and the getter returns LBA 0; after setting the entry of block
  18/1 to the unused address the table holds the sentinel \<open>0xFFFF\<close> and the getter
  returns LBA 0.
\<close>

theorem fat_get_after_fat_set_d64:
  "cbmimage_fat_get d64_settings
     (snd (cbmimage_fat_set (cbmimage_fat_create d64_settings)
             \<lparr>ts_track = 18, ts_sector = 0, lba = 358\<rparr>
             \<lparr>ts_track = 18, ts_sector = 1, lba = 359\<rparr>))
     \<lparr>ts_track = 18, ts_sector = 0, lba = 358\<rparr>
   = Some cbmimage_block_unused
   \<and> cbmimage_i_fat_get_target_lba
       (snd (cbmimage_fat_set (cbmimage_fat_create d64_settings)
             \<lparr>ts_track = 18, ts_sector = 0, lba = 358\<rparr>
             \<lparr>ts_track = 18, ts_sector = 1, lba = 359\<rparr>))
       \<lparr>ts_track = 18, ts_sector = 0, lba = 358\<rparr> = 359
   \<and> cbmimage_fat_get d64_settings
     (snd (cbmimage_fat_set (cbmimage_fat_create d64_settings)
             \<lparr>ts_track = 18, ts_sector = 1, lba = 359\<rparr>
             cbmimage_block_unused))
     \<lparr>ts_track = 18, ts_sector = 1, lba = 359\<rparr>
   = Some cbmimage_block_unused
   \<and> cbmimage_i_fat_get_target_lba
       (snd (cbmimage_fat_set (cbmimage_fat_create d64_settings)
             \<lparr>ts_track = 18, ts_sector = 1, lba = 359\<rparr>
             cbmimage_block_unused))
       \<lparr>ts_track = 18, ts_sector = 1, lba = 359\<rparr> = 0xFFFF"
proof -
  have h: "fct_d40_d64_d71 d64_settings \<or> maxsectors d64_settings \<noteq> 0"
    by (simp add: d64_settings_value)
  have m: "cbmimage_get_max_lba d64_settings = 683"
    by (simp add: d64_settings_value cbmimage_get_max_lba_def)
  show ?thesis
    by (simp add: fat_get_unused[OF h] m cbmimage_fat_set_def cbmimage_i_fat_set_def
        cbmimage_fat_create_def cbmimage_i_fat_get_target_lba_def
        CBMIMAGE_FAT_LASTBLOCK_def cbmimage_block_unused_def)
qed

section \<open>Claims about reading blocks and following links\<close>

lemma init_from_ts_value_valid_link:
  assumes "track \<noteq> 0"
    and "unat track \<le> unat (cbmimage_get_max_track s)"
    and "unat sector < unat (cbmimage_get_sectors_in_track s (ucast track))"
  shows "fst (cbmimage_blockaddress_init_from_ts_value s b track sector) = 0"
proof (cases "fct_d40_d64_d71 s")
  case True
  with assms show ?thesis
    by (simp add: cbmimage_blockaddress_init_from_ts_value_def
        cbmimage_blockaddress_init_from_ts_def cbmimage_i_d40_d64_d71_ts_to_blockaddress_def
        cbmimage_get_max_track_def unat_ucast_8_16)
next
  case False
  with assms have "cbmimage_blockaddress_ts_exists s track sector"
    by (simp add: cbmimage_blockaddress_ts_exists_def cbmimage_get_sectors_in_track_def
        cbmimage_get_max_sectors_def uint8_neq_0_iff)
  with False show ?thesis
    by (simp add: cbmimage_blockaddress_init_from_ts_value_def
        cbmimage_blockaddress_init_from_ts_def cbmimage_i_generic_ts_to_blockaddress_def)
qed

text \<open>
  Claim C6 (result of the chain follower). Let the accessor of a chain point at a block
  in the buffer. If the link-track byte of the block is zero, the block is the
  terminator: \<open>cbmimage_chain_last_result\<close> and
  \<open>cbmimage_blockaccessor_get_next_block\<close> return the link-sector byte, with 256 for a
  link-sector of 0, and \<open>cbmimage_chain_advance\<close> returns the same value and marks the
  chain done. If the link names an existing track and sector, the result is 0. Any
  other link gives -1.
\<close>

theorem chain_result_of_link:
  assumes "acc_data (block_accessor chain) = Ptr p"
  shows
    "(let track = parameter_buffer img ! p;
          sector = parameter_buffer img ! (p + 1)
      in if track = 0
         then cbmimage_chain_last_result img chain
                = Some (if sector = 0 then 256 else uint sector)
            \<and> cbmimage_blockaccessor_get_next_block img (block_accessor chain) bn
                = Some (if sector = 0 then 256 else uint sector, bn)
            \<and> cbmimage_chain_advance img chain
                = Some (if sector = 0 then 256 else uint sector, chain\<lparr>is_done := True\<rparr>)
         else if unat track \<le> unat (cbmimage_get_max_track (settings img))
                 \<and> unat sector
                     < unat (cbmimage_get_sectors_in_track (settings img) (ucast track))
         then cbmimage_chain_last_result img chain = Some 0
            \<and> (\<exists>b'. cbmimage_blockaccessor_get_next_block img (block_accessor chain) (Some b)
                      = Some (0, Some b'))
         else cbmimage_chain_last_result img chain = Some (- 1))"
proof -
  let ?track = "parameter_buffer img ! p"
  let ?sector = "parameter_buffer img ! (p + 1)"
  show ?thesis
  proof (cases "?track = 0")
    case True
    with assms show ?thesis
      by (simp add: cbmimage_chain_last_result_def cbmimage_blockaccessor_get_next_block_def
          cbmimage_chain_advance_def Let_def unsigned_eq_0_iff)
  next
    case nz: False
    show ?thesis
    proof (cases "unat ?track \<le> unat (cbmimage_get_max_track (settings img))
                 \<and> unat ?sector
                     < unat (cbmimage_get_sectors_in_track (settings img) (ucast ?track))")
      case True
      then have "fst (cbmimage_blockaddress_init_from_ts_value (settings img) b ?track ?sector) = 0"
        using nz by (intro init_from_ts_value_valid_link) simp_all
      then obtain b' where
        "cbmimage_blockaddress_init_from_ts_value (settings img) b ?track ?sector = (0, b')"
        by (cases "cbmimage_blockaddress_init_from_ts_value (settings img) b ?track ?sector") simp
      with assms nz True show ?thesis
        by (simp add: cbmimage_chain_last_result_def cbmimage_blockaccessor_get_next_block_def
            Let_def)
    next
      case False
      with assms nz show ?thesis
        by (auto simp add: cbmimage_chain_last_result_def cbmimage_blockaccessor_get_next_block_def
            Let_def)
    qed
  qed
qed

theorem chain_result_of_link_witness:
  "acc_data (block_accessor
      \<lparr> block_start = \<lparr>ts_track = 1, ts_sector = 0, lba = 1\<rparr>, is_done = False,
        is_loop = False, loop_detector = cbmimage_loop_create d64_settings,
        block_accessor = \<lparr> acc_block = \<lparr>ts_track = 1, ts_sector = 0, lba = 1\<rparr>,
                           acc_data = Ptr 0 \<rparr> \<rparr>) = Ptr 0
   \<and> cbmimage_chain_last_result image_d64_zero
      \<lparr> block_start = \<lparr>ts_track = 1, ts_sector = 0, lba = 1\<rparr>, is_done = False,
        is_loop = False, loop_detector = cbmimage_loop_create d64_settings,
        block_accessor = \<lparr> acc_block = \<lparr>ts_track = 1, ts_sector = 0, lba = 1\<rparr>,
                           acc_data = Ptr 0 \<rparr> \<rparr> = Some 256"
  using chain_result_of_link [of
      "\<lparr> block_start = \<lparr>ts_track = 1, ts_sector = 0, lba = 1\<rparr>, is_done = False,
        is_loop = False, loop_detector = cbmimage_loop_create d64_settings,
        block_accessor = \<lparr> acc_block = \<lparr>ts_track = 1, ts_sector = 0, lba = 1\<rparr>,
                           acc_data = Ptr 0 \<rparr> \<rparr>" 0 image_d64_zero None cbmimage_block_unused]
  by (simp add: image_d64_zero_def)

lemma set_to_data:
  assumes "cbmimage_blockaddress_ts_exists (settings img) (ts_track block) (ts_sector block)"
    and "lba block \<noteq> 0"
    and "cbmimage_i_get_address_of_block img block = Some q"
  shows "cbmimage_blockaccessor_create img block = Some \<lparr> acc_block = block, acc_data = q \<rparr>"
  using assms
  by (simp add: cbmimage_blockaccessor_create_def cbmimage_blockaccessor_set_to_def
      cbmimage_blockaddress_ts_exists_def cbmimage_i_blockaccessor_release_def Let_def
      uint16_neq_0_iff)

lemma zero_d64_address:
  "cbmimage_i_get_address_of_block image_d64_zero \<lparr>ts_track = 1, ts_sector = 0, lba = 1\<rparr>
     = Some (Ptr 0)"
  by (simp add: cbmimage_i_get_address_of_block_def cbmimage_i_adjust_relative_address_def
      image_d64_zero_def d64_settings_value cbmimage_get_max_lba_def
      cbmimage_get_bytes_in_block_def Let_def)

text \<open>
  Claim C9 (\<open>cbmimage_read_block\<close> on a terminal block). For a block that resolves to
  an address in the buffer and whose link-track byte is zero, \<open>cbmimage_read_block\<close>
  (given a destination of at least one block) returns the raw link-sector byte, hence 0
  for the link (0,0), whereas \<open>cbmimage_blockaccessor_get_next_block\<close> on an accessor
  of the same block returns 256 for a link-sector of 0; for any other link-sector both
  return the same count.
\<close>

theorem read_block_terminal_count:
  assumes "cbmimage_i_get_address_of_block img block = Some (Ptr p)"
    and "unat (cbmimage_get_bytes_in_block (settings img)) \<le> buffersize"
    and "parameter_buffer img ! p = 0"
  shows "fst (the (cbmimage_read_block img block buffersize))
           = uint (parameter_buffer img ! (p + 1))
       \<and> cbmimage_read_block img block buffersize \<noteq> None
       \<and> cbmimage_blockaccessor_get_next_block img
             \<lparr> acc_block = block, acc_data = Ptr p \<rparr> None
           = Some (if parameter_buffer img ! (p + 1) = 0 then 256
                   else uint (parameter_buffer img ! (p + 1)), None)
       \<and> (if parameter_buffer img ! (p + 1) = 0
           then fst (the (cbmimage_read_block img block buffersize)) = 0
              \<and> fst (the (cbmimage_blockaccessor_get_next_block img
                     \<lparr> acc_block = block, acc_data = Ptr p \<rparr> None)) = 256
           else fst (the (cbmimage_read_block img block buffersize))
              = fst (the (cbmimage_blockaccessor_get_next_block img
                     \<lparr> acc_block = block, acc_data = Ptr p \<rparr> None)))"
  using assms
  by (simp add: cbmimage_read_block_def cbmimage_blockaccessor_get_next_block_def Let_def)


theorem read_block_terminal_count_witness:
  "cbmimage_i_get_address_of_block image_d64_zero \<lparr>ts_track = 1, ts_sector = 0, lba = 1\<rparr>
     = Some (Ptr 0)
   \<and> unat (cbmimage_get_bytes_in_block (settings image_d64_zero)) \<le> 256
   \<and> parameter_buffer image_d64_zero ! 0 = 0
   \<and> fst (the (cbmimage_read_block image_d64_zero
                  \<lparr>ts_track = 1, ts_sector = 0, lba = 1\<rparr> 256)) = 0
   \<and> fst (the (cbmimage_blockaccessor_get_next_block image_d64_zero
                  \<lparr> acc_block = \<lparr>ts_track = 1, ts_sector = 0, lba = 1\<rparr>,
                    acc_data = Ptr 0 \<rparr> None)) = 256"
proof -
  have b: "unat (cbmimage_get_bytes_in_block (settings image_d64_zero)) \<le> 256"
    by (simp add: image_d64_zero_def d64_settings_value cbmimage_get_bytes_in_block_def)
  have z: "parameter_buffer image_d64_zero ! 0 = 0"
    by (simp add: image_d64_zero_def)
  have z1: "parameter_buffer image_d64_zero ! (0 + 1) = 0"
    by (simp add: image_d64_zero_def)
  show ?thesis
    using read_block_terminal_count [OF zero_d64_address b z] zero_d64_address b z z1
    by simp
qed

section \<open>Termination of chain traversal\<close>

lemma bit_or_push_bit_uint8:
  assumes "k < 8" "j < 8"
  shows "bit ((w :: uint8_t) OR push_bit k 1) j \<longleftrightarrow> bit w j \<or> j = k"
  using assms by (auto simp: bit_or_iff bit_exp_iff possible_bit_word)

lemma bit_or_exp_uint8:
  assumes "k < 8" "j < 8"
  shows "bit ((w :: uint8_t) OR 2 ^ k) j \<longleftrightarrow> bit w j \<or> j = k"
  using assms by (auto simp: bit_or_iff bit_exp_iff possible_bit_word)

lemma and_push_bit_uint8:
  "(w :: uint8_t) AND push_bit k 1 \<noteq> 0 \<longleftrightarrow> bit w k"
  by (simp add: bit_iff_and_push_bit_not_eq_0)

lemma div_mod_8_eq: "(i::nat) div 8 = l div 8 \<and> i mod 8 = l mod 8 \<longleftrightarrow> i = l"
  by (metis div_mult_mod_eq)

lemma loop_marked_update:
  assumes "l div 8 < length m"
  shows "loop_marked (m[l div 8 := m ! (l div 8) OR push_bit (l mod 8) 1])
           = insert l (loop_marked m)"
proof -
  let ?m' = "m[l div 8 := m ! (l div 8) OR push_bit (l mod 8) 1]"
  have lt: "l < 8 * length m" using assms by (simp add: less_mult_imp_div_less mult.commute)
  have "i \<in> loop_marked ?m' \<longleftrightarrow> i \<in> insert l (loop_marked m)" for i
  proof (cases "i div 8 = l div 8")
    case True
    then have "bit (?m' ! (i div 8)) (i mod 8) \<longleftrightarrow> bit (m ! (i div 8)) (i mod 8) \<or> i mod 8 = l mod 8"
      using assms by (simp add: bit_or_exp_uint8)
    moreover have "i mod 8 = l mod 8 \<longleftrightarrow> i = l" using True div_mod_8_eq[of i l] by simp
    moreover have "i < 8 * length m" using True assms
      by (metis lt div_mod_8_eq less_mult_imp_div_less mult.commute div_less_iff_less_mult zero_less_numeral)
    ultimately show ?thesis using lt by (auto simp: loop_marked_def)
  next
    case False
    then have "i \<noteq> l" by auto
    with False show ?thesis by (auto simp: loop_marked_def)
  qed
  then show ?thesis by blast
qed


lemma loop_marked_update_exp:
  assumes "l div 8 < length m"
  shows "loop_marked (m[l div 8 := m ! (l div 8) OR 2 ^ (l mod 8)])
           = insert l (loop_marked m)"
  using loop_marked_update[OF assms] by simp

lemma get_next_block_returns:
  assumes "acc_data acc = Ptr p"
  shows "\<exists>r. cbmimage_blockaccessor_get_next_block img acc None = Some (r, None)"
  using assms by (simp add: cbmimage_blockaccessor_get_next_block_def Let_def)

lemma loop_mark_cases:
  "fst (cbmimage_loop_mark s loop b) \<in> {- 1, 0, 1}"
  by (simp add: cbmimage_loop_mark_def Let_def)

lemma loop_mark_unmarked_le:
  "loop_unmarked s (snd (cbmimage_loop_mark s loop b)) \<le> loop_unmarked s loop"
proof (cases "lba b = 0 \<or> unat (lba b) > unat (cbmimage_get_max_lba s)
              \<or> unat (lba b) div 8 \<ge> length (loop_map loop)")
  case True
  then show ?thesis by (auto simp: cbmimage_loop_mark_def Let_def)
next
  case False
  then have "loop_marked (loop_map (snd (cbmimage_loop_mark s loop b)))
               = insert (unat (lba b)) (loop_marked (loop_map loop))"
    by (simp add: cbmimage_loop_mark_def Let_def loop_marked_update_exp)
  then show ?thesis
    unfolding loop_unmarked_def
    by (intro card_mono) auto
qed

lemma loop_mark_new:
  assumes "cbmimage_loop_mark s loop b = (0, loop')"
  shows "loop_unmarked s loop' < loop_unmarked s loop"
    and "0 < unat (lba b)" and "unat (lba b) \<le> unat (cbmimage_get_max_lba s)"
proof -
  let ?l = "unat (lba b)"
  let ?m = "loop_map loop"
  from assms have r: "lba b \<noteq> 0" "?l \<le> unat (cbmimage_get_max_lba s)"
    and bt: "?l div 8 < length ?m"
    by (auto simp: cbmimage_loop_mark_def Let_def split: if_splits)
  from assms r bt have nm: "\<not> bit (?m ! (?l div 8)) (?l mod 8)"
    and l': "loop' = loop\<lparr>loop_map := ?m[?l div 8 := ?m ! (?l div 8) OR push_bit (?l mod 8) 1]\<rparr>"
    by (auto simp: cbmimage_loop_mark_def Let_def bit_iff_and_push_bit_not_eq_0
        split: if_splits)
  show p: "0 < ?l" using r(1) by (simp add: uint16_neq_0_iff)
  show "?l \<le> unat (cbmimage_get_max_lba s)" by (rule r(2))
  have ins: "loop_marked (loop_map loop') = insert ?l (loop_marked ?m)"
    unfolding l' using bt by (simp add: loop_marked_update_exp)
  have notin: "?l \<notin> loop_marked ?m" using nm by (simp add: loop_marked_def)
  let ?S = "{l. 0 < l \<and> l \<le> unat (cbmimage_get_max_lba s)}"
  have fin: "finite (?S - loop_marked ?m)" by simp
  have "?S - loop_marked (loop_map loop') \<subset> ?S - loop_marked ?m"
    using ins notin p r(2) by auto
  then show "loop_unmarked s loop' < loop_unmarked s loop"
    unfolding loop_unmarked_def using fin by (rule psubset_card_mono[rotated])
qed

lemma addressable_offset:
  assumes "(bib::nat) \<le> sz" "sz < 2 ^ 64" "mx * bib \<le> sz" "0 < l" "l \<le> mx"
  shows "int ((l - 1) * bib) \<le> (int sz - int bib) mod 2 ^ 64"
proof -
  have "(l - 1) * bib + bib = l * bib"
    using assms(4) by (cases l) simp_all
  also have "\<dots> \<le> mx * bib" using assms(5) by simp
  finally have le: "(l - 1) * bib + bib \<le> sz" using assms(3) by simp
  have "(int sz - int bib) mod 2 ^ 64 = int sz - int bib"
    using assms(1,2) by (intro mod_pos_pos_trivial) simp_all
  moreover have "int ((l - 1) * bib) \<le> int sz - int bib"
    using le by linarith
  ultimately show ?thesis by simp
qed

lemma addressable_address:
  assumes a: "image_addressable img"
    and l: "0 < unat (lba b)" "unat (lba b) \<le> unat (cbmimage_get_max_lba (settings img))"
  shows "\<exists>p. cbmimage_i_get_address_of_block img b = Some (Ptr p)"
proof -
  let ?bib = "unat (bytes_in_block (settings img))"
  let ?max = "unat (cbmimage_get_max_lba (settings img))"
  from a have nr: "\<not> subdir_relative_addressing (settings img)"
    and sz: "?bib \<le> parameter_size img" "parameter_size img < 2 ^ 64"
      "?max * ?bib \<le> parameter_size img"
    by (auto simp: image_addressable_def)
  have c: "int ((unat (lba b) - 1) * ?bib)
      \<le> (int (parameter_size img) - int ?bib) mod 2 ^ 64"
    using sz l by (rule addressable_offset)
  have "cbmimage_i_get_address_of_block img b
          = Some (Ptr ((unat (lba b) - 1) * ?bib + subdir_data_offset (settings img)))"
    unfolding cbmimage_i_get_address_of_block_def cbmimage_i_adjust_relative_address_def
      cbmimage_get_bytes_in_block_def Let_def
    using nr l c by (simp only: if_False if_True option.case prod.case simp_thms refl)
  then show ?thesis by blast
qed

lemma init_from_ts_value_ts:
  "ts_track (snd (cbmimage_blockaddress_init_from_ts_value s b t sec)) = t
   \<and> ts_sector (snd (cbmimage_blockaddress_init_from_ts_value s b t sec)) = sec"
  by (simp add: cbmimage_blockaddress_init_from_ts_value_def
      cbmimage_blockaddress_init_from_ts_def cbmimage_i_d40_d64_d71_ts_to_blockaddress_def
      cbmimage_i_generic_ts_to_blockaddress_def)

lemma readblock_step:
  assumes a: "image_addressable img" and inv: "chain_inv c"
    and tr: "0 < unat (ts_track b)"
      "unat (ts_track b) \<le> unat (cbmimage_get_max_track (settings img))"
      "unat (ts_sector b)
         < unat (cbmimage_get_sectors_in_track (settings img) (ucast (ts_track b)))"
  shows "\<exists>r c'. cbmimage_i_chain_readblock img c b = Some (r, c') \<and> chain_inv c'
           \<and> (is_done c \<longrightarrow> is_done c')
           \<and> (\<not> is_done c' \<longrightarrow>
                 loop_unmarked (settings img) (loop_detector c')
                   < loop_unmarked (settings img) (loop_detector c))
           \<and> loop_unmarked (settings img) (loop_detector c')
                \<le> loop_unmarked (settings img) (loop_detector c)"
proof -
  obtain m loop' where lm: "cbmimage_loop_mark (settings img) (loop_detector c) b = (m, loop')"
    by (cases "cbmimage_loop_mark (settings img) (loop_detector c) b")
  have le: "loop_unmarked (settings img) loop' \<le> loop_unmarked (settings img) (loop_detector c)"
    using loop_mark_unmarked_le[of "settings img" "loop_detector c" b] lm by simp
  show ?thesis
  proof (cases "m = 0")
    case False
    with lm inv le show ?thesis
      by (simp add: cbmimage_i_chain_readblock_def chain_inv_def)
  next
    case True
    with lm have lm0: "cbmimage_loop_mark (settings img) (loop_detector c) b = (0, loop')"
      by simp
    note new = loop_mark_new[OF lm0]
    from addressable_address[OF a new(2,3)] obtain p
      where p: "cbmimage_i_get_address_of_block img b = Some (Ptr p)" by blast
    have st: "cbmimage_blockaccessor_set_to img (block_accessor c) b
                = Some (0, \<lparr>acc_block = b, acc_data = Ptr p\<rparr>)"
      using tr new(2) p
      by (simp add: cbmimage_blockaccessor_set_to_def cbmimage_i_blockaccessor_release_def
          Let_def)
    obtain r' where gn: "cbmimage_blockaccessor_get_next_block img
        \<lparr>acc_block = b, acc_data = Ptr p\<rparr> None = Some (r', None)"
      using get_next_block_returns[of "\<lparr>acc_block = b, acc_data = Ptr p\<rparr>" p img]
      by auto
    show ?thesis
      using lm0 st gn new(1)
      by (simp add: cbmimage_i_chain_readblock_def chain_inv_def)
  qed
qed

lemma advance_step:
  assumes a: "image_addressable img" and inv: "chain_inv c"
  shows "\<exists>r c'. cbmimage_chain_advance img c = Some (r, c') \<and> chain_inv c'
           \<and> (is_done c \<longrightarrow> is_done c')
           \<and> (\<not> is_done c' \<longrightarrow>
                 loop_unmarked (settings img) (loop_detector c')
                   < loop_unmarked (settings img) (loop_detector c))
           \<and> loop_unmarked (settings img) (loop_detector c')
                \<le> loop_unmarked (settings img) (loop_detector c)"
proof -
  from inv obtain p where p: "acc_data (block_accessor c) = Ptr p"
    by (auto simp: chain_inv_def)
  let ?track = "parameter_buffer img ! p"
  let ?sector = "parameter_buffer img ! (p + 1)"
  let ?valid = "?track \<noteq> 0 \<and> unat ?track \<le> unat (cbmimage_get_max_track (settings img))
                 \<and> unat ?sector
                     < unat (cbmimage_get_sectors_in_track (settings img) (ucast ?track))"
  show ?thesis
  proof (cases ?valid)
    case False
    then have "\<exists>r. r \<noteq> 0 \<and> cbmimage_blockaccessor_get_next_block img (block_accessor c)
                 (Some cbmimage_block_unused) = Some (r, Some cbmimage_block_unused)"
      using p by (auto simp: cbmimage_blockaccessor_get_next_block_def Let_def unsigned_eq_0_iff)
    then show ?thesis using inv
      by (auto simp: cbmimage_chain_advance_def chain_inv_def)
  next
    case True
    let ?r = "cbmimage_blockaddress_init_from_ts_value (settings img) cbmimage_block_unused
                ?track ?sector"
    have f: "fst ?r = 0" using True by (intro init_from_ts_value_valid_link) simp_all
    then have r: "?r = (0, snd ?r)" by (cases ?r) simp
    have gn: "cbmimage_blockaccessor_get_next_block img (block_accessor c)
                 (Some cbmimage_block_unused) = Some (0, Some (snd ?r))"
      using p True f
      by (simp add: cbmimage_blockaccessor_get_next_block_def Let_def case_prod_unfold)
    have ts: "ts_track (snd ?r) = ?track" "ts_sector (snd ?r) = ?sector"
      using init_from_ts_value_ts[of "settings img" cbmimage_block_unused ?track ?sector]
      by simp_all
    have "\<exists>r c'. cbmimage_i_chain_readblock img c (snd ?r) = Some (r, c') \<and> chain_inv c'
           \<and> (is_done c \<longrightarrow> is_done c')
           \<and> (\<not> is_done c' \<longrightarrow>
                 loop_unmarked (settings img) (loop_detector c')
                   < loop_unmarked (settings img) (loop_detector c))
           \<and> loop_unmarked (settings img) (loop_detector c')
                \<le> loop_unmarked (settings img) (loop_detector c)"
      using a inv
    proof (rule readblock_step)
      show "0 < unat (ts_track (snd ?r))" using True ts by (simp add: uint8_neq_0_iff)
      show "unat (ts_track (snd ?r)) \<le> unat (cbmimage_get_max_track (settings img))"
        using True ts by simp
      show "unat (ts_sector (snd ?r))
         < unat (cbmimage_get_sectors_in_track (settings img) (ucast (ts_track (snd ?r))))"
        using True ts by simp
    qed
    then show ?thesis using gn by (simp add: cbmimage_chain_advance_def)
  qed
qed


lemma loop_unmarked_le_max:
  "loop_unmarked s loop \<le> unat (cbmimage_get_max_lba s)"
proof -
  let ?S = "{l. 0 < l \<and> l \<le> unat (cbmimage_get_max_lba s)}"
  have "?S = {1 .. unat (cbmimage_get_max_lba s)}" by auto
  then have "card ?S = unat (cbmimage_get_max_lba s)" by simp
  moreover have "card (?S - loop_marked (loop_map loop)) \<le> card ?S"
    by (intro card_mono) auto
  ultimately show ?thesis by (simp add: loop_unmarked_def)
qed

lemma chain_start_step:
  assumes a: "image_addressable img"
    and e: "cbmimage_blockaddress_ts_exists (settings img) (ts_track b) (ts_sector b)"
    and l: "cbmimage_blockaddress_lba_exists (settings img) (lba b)"
  shows "\<exists>c. cbmimage_chain_start img b = Some c \<and> chain_inv c
           \<and> (is_done c \<or> loop_unmarked (settings img) (loop_detector c)
                              < unat (cbmimage_get_max_lba (settings img)))"
proof -
  from e have tr: "0 < unat (ts_track b)"
      "unat (ts_track b) \<le> unat (cbmimage_get_max_track (settings img))"
      "unat (ts_sector b)
         < unat (cbmimage_get_sectors_in_track (settings img) (ucast (ts_track b)))"
    by (auto simp: cbmimage_blockaddress_ts_exists_def)
  from l have lb: "0 < unat (lba b)"
      "unat (lba b) \<le> unat (cbmimage_get_max_lba (settings img))"
    by (auto simp: cbmimage_blockaddress_lba_exists_def)
  from addressable_address[OF a lb] obtain p
    where p: "cbmimage_i_get_address_of_block img b = Some (Ptr p)" by blast
  let ?c0 = "\<lparr> block_start = b, is_done = False, is_loop = False,
                 loop_detector = cbmimage_loop_create (settings img),
                 block_accessor = \<lparr>acc_block = b, acc_data = Ptr p\<rparr> \<rparr>"
  have cr: "cbmimage_blockaccessor_create img b = Some \<lparr>acc_block = b, acc_data = Ptr p\<rparr>"
    using tr lb p
    by (simp add: cbmimage_blockaccessor_create_def cbmimage_blockaccessor_set_to_def
        cbmimage_i_blockaccessor_release_def Let_def)
  have inv0: "chain_inv ?c0" by (simp add: chain_inv_def)
  from readblock_step[OF a inv0 tr] obtain r c where
    rb: "cbmimage_i_chain_readblock img ?c0 b = Some (r, c)" and inv: "chain_inv c"
    and dec: "\<not> is_done c \<longrightarrow> loop_unmarked (settings img) (loop_detector c)
                   < loop_unmarked (settings img) (loop_detector ?c0)"
    by blast
  have "loop_unmarked (settings img) (loop_detector ?c0)
          \<le> unat (cbmimage_get_max_lba (settings img))"
    by (rule loop_unmarked_le_max)
  with dec have "is_done c \<or> loop_unmarked (settings img) (loop_detector c)
                              < unat (cbmimage_get_max_lba (settings img))"
    by auto
  moreover have "cbmimage_chain_start img b = Some c"
    using cr rb by (simp add: cbmimage_chain_start_def)
  ultimately show ?thesis using inv by blast
qed

lemma advance_times_step:
  assumes a: "image_addressable img" and inv: "chain_inv c"
  shows "\<exists>c'. chain_advance_times img n c = Some c' \<and> chain_inv c'
           \<and> (is_done c \<longrightarrow> is_done c')
           \<and> (is_done c' \<or> loop_unmarked (settings img) (loop_detector c') + n
                               \<le> loop_unmarked (settings img) (loop_detector c))"
  using inv
proof (induction n arbitrary: c)
  case 0
  then show ?case by simp
next
  case (Suc n)
  from advance_step[OF a Suc.prems] obtain r c1 where
    adv: "cbmimage_chain_advance img c = Some (r, c1)" and inv1: "chain_inv c1"
    and mono: "is_done c \<longrightarrow> is_done c1"
    and dec: "\<not> is_done c1 \<longrightarrow> loop_unmarked (settings img) (loop_detector c1)
                   < loop_unmarked (settings img) (loop_detector c)"
    by blast
  from Suc.IH[OF inv1] obtain c' where
    t: "chain_advance_times img n c1 = Some c'" and inv': "chain_inv c'"
    and mono': "is_done c1 \<longrightarrow> is_done c'"
    and m: "is_done c' \<or> loop_unmarked (settings img) (loop_detector c') + n
                               \<le> loop_unmarked (settings img) (loop_detector c1)"
    by blast
  have "is_done c' \<or> loop_unmarked (settings img) (loop_detector c') + Suc n
                               \<le> loop_unmarked (settings img) (loop_detector c)"
  proof (cases "is_done c1")
    case True
    with mono' show ?thesis by simp
  next
    case False
    with dec m show ?thesis by auto
  qed
  with adv t inv' mono mono' show ?case by simp
qed

text \<open>
  Traversal of a chain on an image without relative addressing whose buffer holds every
  block of the frame: a chain started at an existing block is done after \<open>max_lba\<close>
  calls of \<open>cbmimage_chain_advance\<close>, and after any larger number of calls, whatever
  the link bytes in the buffer are; no call traps. Every call that does not finish the
  chain marks an LBA of \<open>1 .. max_lba\<close> that was not marked before. Both conditions on
  the image are needed: without them a link can lead to a block whose address is NULL.
\<close>

lemma chain_terminates:
  assumes "image_addressable img"
    and "cbmimage_blockaddress_ts_exists (settings img) (ts_track b) (ts_sector b)"
    and "cbmimage_blockaddress_lba_exists (settings img) (lba b)"
    and "unat (cbmimage_get_max_lba (settings img)) \<le> n"
  shows "\<exists>c0 c. cbmimage_chain_start img b = Some c0
           \<and> chain_advance_times img n c0 = Some c
           \<and> cbmimage_chain_is_done c"
proof -
  from chain_start_step[OF assms(1,2,3)] obtain c0 where
    s: "cbmimage_chain_start img b = Some c0" and inv: "chain_inv c0"
    and u: "is_done c0 \<or> loop_unmarked (settings img) (loop_detector c0)
                              < unat (cbmimage_get_max_lba (settings img))"
    by blast
  from advance_times_step[OF assms(1) inv, of n] obtain c where
    t: "chain_advance_times img n c0 = Some c"
    and mono: "is_done c0 \<longrightarrow> is_done c"
    and m: "is_done c \<or> loop_unmarked (settings img) (loop_detector c) + n
                               \<le> loop_unmarked (settings img) (loop_detector c0)"
    by blast
  have "is_done c" using u mono m assms(4) by auto
  with s t show ?thesis by (simp add: cbmimage_chain_is_done_def)
qed

lemma chain_terminates_d64_zero:
  "image_addressable image_d64_zero
   \<and> cbmimage_blockaddress_ts_exists (settings image_d64_zero) 18 1
   \<and> cbmimage_blockaddress_lba_exists (settings image_d64_zero) 359
   \<and> unat (cbmimage_get_max_lba (settings image_d64_zero)) \<le> 683
   \<and> (\<exists>c0 c. cbmimage_chain_start image_d64_zero \<lparr>ts_track = 18, ts_sector = 1, lba = 359\<rparr>
                 = Some c0
           \<and> chain_advance_times image_d64_zero 683 c0 = Some c
           \<and> cbmimage_chain_is_done c)"
proof -
  have a: "image_addressable image_d64_zero"
    by (simp add: image_addressable_def image_d64_zero_def d64_settings_value
        cbmimage_get_max_lba_def)
  have e: "cbmimage_blockaddress_ts_exists (settings image_d64_zero)
             (ts_track \<lparr>ts_track = 18, ts_sector = 1, lba = 359\<rparr>)
             (ts_sector \<lparr>ts_track = 18, ts_sector = 1, lba = 359\<rparr>)"
    by (simp add: ts_exists_table image_d64_zero_def d64_settings_value
        sectors_in_track_d64_def)
  have l: "cbmimage_blockaddress_lba_exists (settings image_d64_zero)
             (lba \<lparr>ts_track = 18, ts_sector = 1, lba = 359\<rparr>)"
    by (simp add: cbmimage_blockaddress_lba_exists_def image_d64_zero_def
        d64_settings_value cbmimage_get_max_lba_def)
  have n: "unat (cbmimage_get_max_lba (settings image_d64_zero)) \<le> 683"
    by (simp add: image_d64_zero_def d64_settings_value cbmimage_get_max_lba_def)
  show ?thesis
    using chain_terminates [OF a e l n] a e l n by simp
qed

section \<open>File reader (lib/file.c)\<close>

text \<open>
  \<open>cbmimage_file\<close>: the chain of the file and the read position inside the current
  block. \<open>cbmimage_file_open_by_dir_entry\<close> takes from the directory entry only its
  start block, which is the argument of the model.
\<close>

record cbmimage_file =
  file_chain :: cbmimage_chain
  block_current_offset :: uint16_t
  block_current_remain :: uint16_t

definition cbmimage_file_open_by_dir_entry ::
  "cbmimage_fileimage \<Rightarrow> cbmimage_blockaddress \<Rightarrow> cbmimage_file option" where
  "cbmimage_file_open_by_dir_entry img start_block =
     (case cbmimage_chain_start img start_block of
        None \<Rightarrow> None
      | Some chain \<Rightarrow>
          (case cbmimage_chain_last_result img chain of
             None \<Rightarrow> None
           | Some ret \<Rightarrow>
               Some (if ret = 0
                     then \<lparr> file_chain = chain, block_current_offset = 2,
                            block_current_remain = 0x100 - 2 \<rparr>
                     else if ret > 1
                     then \<lparr> file_chain = chain, block_current_offset = 2,
                            block_current_remain = of_int (ret - 2 + 1) \<rparr>
                     else \<lparr> file_chain = chain, block_current_offset = 0,
                            block_current_remain = 0 \<rparr>)))"

text \<open>
  The state of the loop in \<open>cbmimage_file_read_next_block\<close>: the file, the
  \<open>size_t write_remaining\<close> (64 bit), the \<open>int bytes_return\<close> and the bytes written
  to the destination so far. \<open>file_read_step\<close> is one pass through the loop body.

  \<open>min\<close> of \<open>helper.h\<close> takes and returns \<open>int\<close>: the call
  \<^verbatim>\<open>min(write_remaining, file->block_current_remain)\<close> narrows \<open>write_remaining\<close>
  to its low 32 bits, read as a signed number, and the result is widened to the
  \<open>size_t bytes_to_copy\<close>. A negative minimum becomes a length of at least
  \<open>2^64 - 2^31\<close>, and \<open>memcpy\<close> with that length leaves every object: the model
  traps there.
\<close>

definition min_c :: "int \<Rightarrow> int \<Rightarrow> int" where
  "min_c a b = (if a < b then a else b)"

record file_read_state =
  rd_file :: cbmimage_file
  write_remaining :: nat
  bytes_return :: int
  written :: "uint8_t list"

definition file_read_copy ::
  "cbmimage_fileimage \<Rightarrow> file_read_state \<Rightarrow> file_read_state option" where
  "file_read_copy img st =
     (let file = rd_file st;
          minimum = min_c (sint (of_nat (write_remaining st) :: 32 word))
                      (uint (block_current_remain file));
          bytes_to_copy = nat (minimum mod 2 ^ 64)
      in if bytes_to_copy > 0
         then (if minimum < 0 then None
               else case cbmimage_chain_get_data (file_chain file) of
                 NULL \<Rightarrow> None
               | Ptr p \<Rightarrow>
                   Some (st\<lparr> rd_file := file
                              \<lparr> block_current_offset :=
                                  block_current_offset file + of_nat bytes_to_copy,
                                block_current_remain :=
                                  block_current_remain file - of_nat bytes_to_copy \<rparr>,
                            write_remaining := write_remaining st - bytes_to_copy,
                            bytes_return := bytes_return st + int bytes_to_copy,
                            written := written st
                              @ take bytes_to_copy
                                  (drop (p + unat (block_current_offset file))
                                     (parameter_buffer img)) \<rparr>))
         else Some st)"

definition file_read_step ::
  "cbmimage_fileimage \<Rightarrow> file_read_state \<Rightarrow> file_read_state option" where
  "file_read_step img st =
     (case file_read_copy img st of
        None \<Rightarrow> None
      | Some st1 \<Rightarrow>
          if write_remaining st1 > 0
          then (case cbmimage_chain_advance img (file_chain (rd_file st1)) of
                  None \<Rightarrow> None
                | Some (ret, chain') \<Rightarrow>
                    let file' = (rd_file st1)\<lparr>file_chain := chain'\<rparr>
                    in if ret = 0
                       then Some (st1\<lparr>rd_file := file'\<lparr>block_current_offset := 2,
                                     block_current_remain := 0x100 - 2\<rparr>\<rparr>)
                       else if ret = 1
                       then Some (st1\<lparr>rd_file := file', write_remaining := 0\<rparr>)
                       else if ret > 1
                       then Some (st1\<lparr>rd_file := file'\<lparr>block_current_offset := 2,
                                     block_current_remain := of_int (ret - 2 + 1)\<rparr>\<rparr>)
                       else Some (st1\<lparr>rd_file := file', write_remaining := 0\<rparr>))
          else Some st1)"

definition file_read_measure :: "cbmimage_fileimage \<times> file_read_state \<Rightarrow> nat" where
  "file_read_measure = (\<lambda>(img, st).
     if write_remaining st = 0 \<or> is_done (file_chain (rd_file st)) then 0
     else Suc (loop_unmarked (settings img) (loop_detector (file_chain (rd_file st)))))"

lemma chain_advance_measure:
  assumes "cbmimage_chain_advance img c = Some (r, c')" and "r = 0 \<or> r > 1"
  shows "is_done c' \<or> loop_unmarked (settings img) (loop_detector c')
                         < loop_unmarked (settings img) (loop_detector c)"
proof -
  from assms(1) obtain ret bn where
    gn: "cbmimage_blockaccessor_get_next_block img (block_accessor c)
           (Some cbmimage_block_unused) = Some (ret, bn)"
    by (auto simp: cbmimage_chain_advance_def split: option.splits)
  show ?thesis
  proof (cases "ret = 0")
    case False
    with assms(1) gn show ?thesis by (auto simp: cbmimage_chain_advance_def)
  next
    case True
    let ?b = "case bn of Some b \<Rightarrow> b | None \<Rightarrow> cbmimage_block_unused"
    from assms(1) gn True have rb: "cbmimage_i_chain_readblock img c ?b = Some (r, c')"
      by (simp add: cbmimage_chain_advance_def)
    obtain m loop' where lm: "cbmimage_loop_mark (settings img) (loop_detector c) ?b = (m, loop')"
      by (cases "cbmimage_loop_mark (settings img) (loop_detector c) ?b")
    show ?thesis
    proof (cases "m = 0")
      case False
      with rb lm assms(2) show ?thesis
        by (auto simp: cbmimage_i_chain_readblock_def)
    next
      case True
      with lm have lm0: "cbmimage_loop_mark (settings img) (loop_detector c) ?b = (0, loop')"
        by simp
      from rb lm0 have "loop_detector c' = loop'"
        by (auto simp: cbmimage_i_chain_readblock_def Let_def split: option.splits if_splits)
      with loop_mark_new(1)[OF lm0] show ?thesis by simp
    qed
  qed
qed

lemma file_read_step_measure:
  assumes "write_remaining st > 0" "\<not> is_done (file_chain (rd_file st))"
    and "file_read_step img st = Some st'"
  shows "file_read_measure (img, st') < file_read_measure (img, st)"
proof -
  from assms(3) obtain st1 where c: "file_read_copy img st = Some st1"
    by (auto simp: file_read_step_def split: option.splits)
  have ch: "file_chain (rd_file st1) = file_chain (rd_file st)"
    using c by (auto simp: file_read_copy_def Let_def split: if_splits buffer_ptr.splits)
  have pos: "file_read_measure (img, st)
               = Suc (loop_unmarked (settings img) (loop_detector (file_chain (rd_file st))))"
    using assms(1,2) by (simp add: file_read_measure_def)
  show ?thesis
  proof (cases "write_remaining st1 > 0")
    case False
    with assms(3) c have "st' = st1" by (simp add: file_read_step_def)
    with False pos show ?thesis by (simp add: file_read_measure_def)
  next
    case True
    with assms(3) c obtain ret chain' where
      adv: "cbmimage_chain_advance img (file_chain (rd_file st)) = Some (ret, chain')"
      by (auto simp: file_read_step_def ch split: option.splits)
    show ?thesis
    proof (cases "ret = 0 \<or> ret > 1")
      case False
      with assms(3) c True adv have "write_remaining st' = 0"
        by (auto simp: file_read_step_def ch Let_def split: if_splits)
      with pos show ?thesis by (simp add: file_read_measure_def)
    next
      case r: True
      from chain_advance_measure[OF adv r]
      have d: "is_done chain' \<or> loop_unmarked (settings img) (loop_detector chain')
                         < loop_unmarked (settings img) (loop_detector (file_chain (rd_file st)))" .
      from assms(3) c True adv r have "file_chain (rd_file st') = chain'"
        by (auto simp: file_read_step_def ch Let_def split: if_splits)
      with d pos show ?thesis by (auto simp: file_read_measure_def)
    qed
  qed
qed

text \<open>
  With a destination of \<open>2^32\<close> bytes the narrowed \<open>write_remaining\<close> is 0 and
  nothing is copied.
\<close>

lemma file_read_copy_narrowed:
  "write_remaining st = 2 ^ 32 \<Longrightarrow> file_read_copy img st = Some st"
  by (simp add: file_read_copy_def min_c_def Let_def)

function file_read_loop ::
  "cbmimage_fileimage \<Rightarrow> file_read_state \<Rightarrow> file_read_state option" where
  "file_read_loop img st =
     (if write_remaining st > 0 \<and> \<not> cbmimage_chain_is_done (file_chain (rd_file st))
      then (case file_read_step img st of
              None \<Rightarrow> None
            | Some st' \<Rightarrow> file_read_loop img st')
      else Some st)"
  by pat_completeness auto
termination
proof (relation "measure file_read_measure")
  show "wf (measure file_read_measure)" by simp
next
  fix img st st'
  assume "0 < write_remaining st \<and> \<not> cbmimage_chain_is_done (file_chain (rd_file st))"
    and "file_read_step img st = Some st'"
  then show "((img, st'), (img, st)) \<in> measure file_read_measure"
    using file_read_step_measure[of st img st']
    by (simp add: cbmimage_chain_is_done_def)
qed

declare file_read_loop.simps [simp del]

text \<open>
  \<open>cbmimage_file_read_next_block\<close> with a non-NULL destination of \<open>buffer_size\<close>
  bytes: the return value, the bytes written to the destination and the file afterwards.
\<close>

definition cbmimage_file_read_next_block ::
  "cbmimage_fileimage \<Rightarrow> cbmimage_file \<Rightarrow> nat
     \<Rightarrow> (int \<times> uint8_t list \<times> cbmimage_file) option" where
  "cbmimage_file_read_next_block img file buffer_size =
     (if cbmimage_chain_is_done (file_chain file) then Some (- 1, [], file)
      else case file_read_loop img
                  \<lparr> rd_file = file, write_remaining = buffer_size, bytes_return = 0,
                    written = [] \<rparr> of
             None \<Rightarrow> None
           | Some st \<Rightarrow> Some (bytes_return st, written st, rd_file st))"


text \<open>
  A D64 image whose block 1/0 is the only block of a file: link (0, 10), that is nine
  data bytes at the offsets 2 to 10, here the bytes 1 to 9.
\<close>

definition image_d64_short_file :: cbmimage_fileimage where
  "image_d64_short_file =
     \<lparr> settings = d64_settings, parameter_size = 174848,
       parameter_buffer = [0, 10, 1, 2, 3, 4, 5, 6, 7, 8, 9] @ replicate 174837 0 \<rparr>"

text \<open>The chain that \<open>cbmimage_chain_start\<close> returns for block 1/0 of this image.\<close>

definition short_file_chain :: cbmimage_chain where
  "short_file_chain =
     \<lparr> block_start = \<lparr>ts_track = 1, ts_sector = 0, lba = 1\<rparr>, is_done = False,
       is_loop = False,
       loop_detector = \<lparr> loop_map = (replicate 86 0)[0 := 2] \<rparr>,
       block_accessor = \<lparr> acc_block = \<lparr>ts_track = 1, ts_sector = 0, lba = 1\<rparr>,
                          acc_data = Ptr 0 \<rparr> \<rparr>"

lemma short_file_settings:
  "settings image_d64_short_file = d64_settings"
  "parameter_size image_d64_short_file = 174848"
  "parameter_buffer image_d64_short_file = [0, 10, 1, 2, 3, 4, 5, 6, 7, 8, 9] @ replicate 174837 0"
  by (simp_all add: image_d64_short_file_def)

lemma short_file_address:
  "cbmimage_i_get_address_of_block image_d64_short_file \<lparr>ts_track = 1, ts_sector = 0, lba = 1\<rparr>
     = Some (Ptr 0)"
  by (simp add: cbmimage_i_get_address_of_block_def cbmimage_i_adjust_relative_address_def
      short_file_settings d64_settings_value cbmimage_get_max_lba_def
      cbmimage_get_bytes_in_block_def Let_def)

lemma short_file_start:
  "cbmimage_chain_start image_d64_short_file \<lparr>ts_track = 1, ts_sector = 0, lba = 1\<rparr>
     = Some short_file_chain"
proof -
  have e: "cbmimage_blockaddress_ts_exists (settings image_d64_short_file) 1 0"
    by (simp add: ts_exists_table short_file_settings d64_settings_value
        sectors_in_track_d64_def)
  have cr: "cbmimage_blockaccessor_create image_d64_short_file
              \<lparr>ts_track = 1, ts_sector = 0, lba = 1\<rparr>
            = Some \<lparr> acc_block = \<lparr>ts_track = 1, ts_sector = 0, lba = 1\<rparr>, acc_data = Ptr 0 \<rparr>"
    using e short_file_address by (intro set_to_data) simp_all
  have st: "cbmimage_blockaccessor_set_to image_d64_short_file
              \<lparr> acc_block = \<lparr>ts_track = 1, ts_sector = 0, lba = 1\<rparr>, acc_data = Ptr 0 \<rparr>
              \<lparr>ts_track = 1, ts_sector = 0, lba = 1\<rparr>
            = Some (0, \<lparr> acc_block = \<lparr>ts_track = 1, ts_sector = 0, lba = 1\<rparr>, acc_data = Ptr 0 \<rparr>)"
    using e short_file_address
    by (simp add: cbmimage_blockaccessor_set_to_def cbmimage_blockaddress_ts_exists_def
        cbmimage_i_blockaccessor_release_def Let_def)
  have lm: "cbmimage_loop_mark (settings image_d64_short_file)
              (cbmimage_loop_create (settings image_d64_short_file))
              \<lparr>ts_track = 1, ts_sector = 0, lba = 1\<rparr>
            = (0, \<lparr> loop_map = (replicate 86 0)[0 := 2] \<rparr>)"
    by (simp add: cbmimage_loop_mark_def cbmimage_loop_create_def short_file_settings
        d64_settings_value cbmimage_get_max_lba_def Let_def)
  have gn: "cbmimage_blockaccessor_get_next_block image_d64_short_file
              \<lparr> acc_block = \<lparr>ts_track = 1, ts_sector = 0, lba = 1\<rparr>, acc_data = Ptr 0 \<rparr> None
            = Some (10, None)"
    by (simp add: cbmimage_blockaccessor_get_next_block_def short_file_settings Let_def)
  show ?thesis
    by (simp add: cbmimage_chain_start_def cr cbmimage_i_chain_readblock_def lm st gn
        short_file_chain_def)
qed

lemma short_file_last_result:
  "cbmimage_chain_last_result image_d64_short_file short_file_chain = Some 10"
  by (simp add: cbmimage_chain_last_result_def cbmimage_blockaccessor_get_next_block_def
      short_file_chain_def short_file_settings Let_def)

lemma short_file_advance:
  "cbmimage_chain_advance image_d64_short_file short_file_chain
     = Some (10, short_file_chain\<lparr>is_done := True\<rparr>)"
  by (simp add: cbmimage_chain_advance_def cbmimage_blockaccessor_get_next_block_def
      short_file_chain_def short_file_settings Let_def)

text \<open>
  Claim C5 (return value of \<open>cbmimage_file_read_next_block\<close>). The claim, like the
  function's own documentation, requires 0 at end of file and a negative value only for
  an error. The function starts with
  \<^verbatim>\<open>if (cbmimage_chain_is_done(file->chain)) return -1;\<close>.
  On the image above the file at 1/0 is opened without error; the first call with a
  destination of 256 bytes returns 9 and the nine data bytes and leaves the chain done;
  the second call, at end of file, returns -1.
\<close>

theorem file_read_next_block_at_eof:
  "cbmimage_file_open_by_dir_entry image_d64_short_file \<lparr>ts_track = 1, ts_sector = 0, lba = 1\<rparr>
     = Some \<lparr> file_chain = short_file_chain, block_current_offset = 2,
              block_current_remain = 9 \<rparr>
   \<and> cbmimage_file_read_next_block image_d64_short_file
       \<lparr> file_chain = short_file_chain, block_current_offset = 2, block_current_remain = 9 \<rparr>
       256
     = Some (9, [1, 2, 3, 4, 5, 6, 7, 8, 9],
             \<lparr> file_chain = short_file_chain\<lparr>is_done := True\<rparr>, block_current_offset = 2,
               block_current_remain = 9 \<rparr>)
   \<and> cbmimage_chain_is_done (short_file_chain\<lparr>is_done := True\<rparr>)
   \<and> cbmimage_file_read_next_block image_d64_short_file
       \<lparr> file_chain = short_file_chain\<lparr>is_done := True\<rparr>, block_current_offset = 2,
         block_current_remain = 9 \<rparr>
       256
     = Some (- 1, [],
             \<lparr> file_chain = short_file_chain\<lparr>is_done := True\<rparr>, block_current_offset = 2,
               block_current_remain = 9 \<rparr>)"
proof -
  have nd: "\<not> cbmimage_chain_is_done short_file_chain"
    by (simp add: cbmimage_chain_is_done_def short_file_chain_def)
  have d: "cbmimage_chain_is_done (short_file_chain\<lparr>is_done := True\<rparr>)"
    by (simp add: cbmimage_chain_is_done_def)
  have dt: "cbmimage_chain_get_data short_file_chain = Ptr 0"
    by (simp add: cbmimage_chain_get_data_def short_file_chain_def)
  let ?st0 = "\<lparr> rd_file = \<lparr> file_chain = short_file_chain, block_current_offset = 2,
                            block_current_remain = 9 \<rparr>,
                write_remaining = 256, bytes_return = 0, written = [] \<rparr>"
  let ?st1 = "\<lparr> rd_file = \<lparr> file_chain = short_file_chain\<lparr>is_done := True\<rparr>,
                            block_current_offset = 2, block_current_remain = 9 \<rparr>,
                write_remaining = 247, bytes_return = 9,
                written = [1, 2, 3, 4, 5, 6, 7, 8, 9] \<rparr>"
  have step: "file_read_step image_d64_short_file ?st0 = Some ?st1"
    by (simp add: file_read_step_def file_read_copy_def min_c_def dt short_file_advance
        short_file_settings Let_def)
  have 1: "file_read_loop image_d64_short_file ?st1 = Some ?st1"
    using d by (subst file_read_loop.simps) simp
  have 0: "file_read_loop image_d64_short_file ?st0 = Some ?st1"
    using nd step 1 by (subst file_read_loop.simps) simp
  show ?thesis
    using nd d 0
    by (simp add: cbmimage_file_open_by_dir_entry_def short_file_start short_file_last_result
        cbmimage_file_read_next_block_def)
qed

section \<open>Opening a D64 image\<close>

lemma partition_geometry_d64_value:
  "d40_d64_d71_partition_geometry settings_zero TYPE_D64 35 = d64_settings"
  unfolding d64_settings_value by code_simp

lemma geos_text_value: "geos_text = [71, 69, 79, 83, 32, 102, 111, 114, 109, 97, 116, 32, 86, 49, 46]"
  by code_simp

lemma no_geos_text:
  assumes "k < length xs" "xs ! k \<noteq> 71"
  shows "take (length geos_text) (drop k xs) \<noteq> geos_text"
proof
  assume e: "take (length geos_text) (drop k xs) = geos_text"
  have "hd (take (length geos_text) (drop k xs)) = xs ! k"
    using assms(1) by (simp add: geos_text_value hd_drop_conv_nth)
  with e assms(2) show False by (simp add: geos_text_value)
qed

lemma open_d64:
  assumes "length buffer = 174848" "buffer ! 91565 \<noteq> 71"
  shows "cbmimage_image_open_d64 buffer
           = Some \<lparr>settings = d64_image_settings, parameter_size = 174848,
                    parameter_buffer = buffer\<rparr>"
proof -
  have g: "take (length geos_text) (drop 91565 buffer) \<noteq> geos_text"
    using assms by (intro no_geos_text) simp_all
  show ?thesis
    using g assms(1)
    apply (simp add: cbmimage_image_open_d64_def cbmimage_i_d64_image_open_def
      fileimage_fresh_def cbmimage_i_d40_d64_d71_chdir_partition_init_def
      partition_geometry_d64_value Let_def)
    apply (simp add: cbmimage_blockaccessor_create_from_ts_def CBMIMAGE_BLOCK_SET_FROM_TS_def
      cbmimage_blockaddress_init_from_ts_def cbmimage_i_d40_d64_d71_ts_to_blockaddress_def
      d40_d64_d71_ts_lba_def d64_settings_value cbmimage_block_unused_def
      cbmimage_blockaccessor_create_def cbmimage_blockaccessor_set_to_def
      cbmimage_i_blockaccessor_release_def cbmimage_get_max_track_def
      cbmimage_get_sectors_in_track_def cbmimage_i_d40_d64_d71_get_sectors_in_track_def
      sectors_in_track_d64_def
      cbmimage_i_get_address_of_block_def cbmimage_i_adjust_relative_address_def
      cbmimage_get_max_lba_def cbmimage_get_bytes_in_block_def Let_def)
    apply (simp add: cbmimage_i_d40_d64_d71_get_geos_infoblock_def)
    apply (simp add: cbmimage_i_init_bam_selector_def selector_array_def i_d40_d64_bam_def
      i_d40_d64_bam_counter_def CBMIMAGE_BAM_SELECTOR_INIT_def
      CBMIMAGE_BAM_COUNTER_SELECTOR_INIT_def
      cbmimage_blockaddress_init_from_ts_def cbmimage_i_d40_d64_d71_ts_to_blockaddress_def
      d40_d64_d71_ts_lba_def
      cbmimage_i_get_address_of_block_def cbmimage_i_adjust_relative_address_def
      cbmimage_get_max_lba_def cbmimage_get_bytes_in_block_def Let_def)
    apply (simp add: fileimage_create_last_block_def cbmimage_i_create_last_block_def
      cbmimage_get_max_track_def
      cbmimage_get_sectors_in_track_def cbmimage_i_d40_d64_d71_get_sectors_in_track_def
      sectors_in_track_d64_def
      cbmimage_blockaddress_init_from_ts_def cbmimage_i_d40_d64_d71_ts_to_blockaddress_def
      d40_d64_d71_ts_lba_def d64_image_settings_def d64_settings_value Let_def
      cbmimage_block_unused_def bam_selector_zero_def)
    done
qed

section \<open>The BAM of a D64 image\<close>

lemma upt_mask_count:
  "[0..<BAM_MASK_COUNT] = [0, 1, 2, 3, 4, 5, 6, 7, 8, 9, 10, 11, 12, 13, 14, 15, 16, 17, 18,
     19, 20, 21, 22, 23, 24, 25, 26, 27, 28, 29, 30, 31]"
  by code_simp

lemma uint8_track:
  assumes "1 \<le> t" "t \<le> 35"
  shows "unat (of_nat t :: uint8_t) = t" "uint (of_nat t :: uint8_t) = int t"
    "unat (of_nat t :: uint16_t) = t"
  using assms by (simp_all add: unat_of_nat_8 unat_of_nat_16 uint_nat)

lemma right_selector_d64:
  assumes "1 \<le> t" "t \<le> 35" "maxtracks s = 35"
  shows "cbmimage_i_get_right_selector s sels (Suc 0) (of_nat t) = 0"
proof -
  have "unat (of_nat t :: uint8_t) = t" using assms by (simp add: uint8_track)
  then have "\<not> (of_nat t :: uint8_t) < 1" "\<not> (of_nat t :: uint8_t) > 35"
    using assms by (simp_all add: word_less_nat_alt)
  then show ?thesis
    using assms(3) by (simp add: cbmimage_i_get_right_selector_def right_selector_scan.simps)
qed

lemma bam_offset_d64:
  assumes "1 \<le> t" "t \<le> 35" "starttrack sel = 1" "multiplier sel = 4" "startoffset sel = so"
    "unat so \<le> 5"
  shows "unat (bam_offset sel (of_nat t)) = unat so + 4 * (t - 1)"
proof -
  have "uint (startoffset sel) + (uint (of_nat t :: uint8_t) - uint (starttrack sel)) * uint (multiplier sel)
          = int (unat so + 4 * (t - 1))"
  proof -
    have a: "uint (of_nat t :: uint8_t) = int t" using assms(1,2) by (rule uint8_track(2))
    have b: "uint so = int (unat so)" by (rule uint_nat)
    have c: "uint (1 :: uint8_t) = 1" "uint (4 :: uint8_t) = 4" by simp_all
    show ?thesis
      unfolding assms(3,4,5) a b c using assms(1) by (cases t) simp_all
  qed
  then have e: "bam_offset sel (of_nat t) = of_nat (unat so + 4 * (t - 1))"
    unfolding bam_offset_def by (simp only: of_int_of_nat_eq)
  have "unat so + 4 * (t - 1) < 256" using assms(2,6) by arith
  then have "unat (of_nat (unat so + 4 * (t - 1)) :: uint8_t) = unat so + 4 * (t - 1)"
    by (rule unat_of_nat_8)
  then show ?thesis by (simp only: e)
qed

lemma replicate_29: "replicate 29 (0 :: uint8_t) = [0, 0, 0, 0, 0, 0, 0, 0, 0, 0, 0, 0, 0, 0, 0,
    0, 0, 0, 0, 0, 0, 0, 0, 0, 0, 0, 0, 0, 0]"
  by code_simp

lemma d64_image_settings_fields:
  "maxtracks d64_image_settings = 35"
  "bam_count d64_image_settings = 1"
  "fct_d40_d64_d71 d64_image_settings"
  "sectors_in_track d64_image_settings = sectors_in_track_d64"
  "bam d64_image_settings
     = Some [\<lparr> sel_buffer = Ptr 91392, starttrack = 1,
                      sel_block = \<lparr> ts_track = 18, ts_sector = 0, lba = 358 \<rparr>,
                      startoffset = 5, multiplier = 4, data_count = 3, reverse_order = 0 \<rparr>,
                    bam_selector_zero]"
  "bam_counter d64_image_settings
     = Some [\<lparr> sel_buffer = Ptr 91392, starttrack = 1,
                              sel_block = \<lparr> ts_track = 18, ts_sector = 0, lba = 358 \<rparr>,
                              startoffset = 4, multiplier = 4, data_count = 0,
                              reverse_order = 0 \<rparr>,
                            bam_selector_zero]"
  by (simp_all add: d64_image_settings_def d64_settings_value)

lemma get_bam_of_track_d64:
  assumes "settings img = d64_image_settings" "1 \<le> t" "t \<le> 35"
  shows "cbmimage_i_get_bam_of_track img (of_nat t)
           = Some (0, d64_bam_bytes (parameter_buffer img) t @ replicate 29 0)"
proof -
  let ?sel = "\<lparr> sel_buffer = Ptr 91392, starttrack = 1,
                 sel_block = \<lparr> ts_track = 18, ts_sector = 0, lba = 358 \<rparr>,
                 startoffset = 5, multiplier = 4, data_count = 3, reverse_order = 0 \<rparr>"
  have "unat (bam_offset ?sel (of_nat t)) = unat (5 :: uint8_t) + 4 * (t - 1)"
    using assms(2,3) by (intro bam_offset_d64) simp_all
  then have o: "unat (bam_offset ?sel (of_nat t)) = 5 + 4 * (t - 1)" by simp
  have d: "unat (3 :: uint8_t) = 3" "(3 :: uint8_t) \<noteq> 0" by simp_all
  show ?thesis
    using assms(2,3)
    by (simp add: cbmimage_i_get_bam_of_track_def assms(1) d64_image_settings_fields
        right_selector_d64 o d upt_mask_count replicate_29 d64_bam_bytes_def Let_def)
qed

lemma get_bam_counter_of_track_d64:
  assumes "settings img = d64_image_settings" "1 \<le> t" "t \<le> 35"
  shows "cbmimage_i_get_bam_counter_of_track img (of_nat t)
           = Some (ucast (d64_bam_counter_byte (parameter_buffer img) t))"
proof -
  let ?sel = "\<lparr> sel_buffer = Ptr 91392, starttrack = 1,
                 sel_block = \<lparr> ts_track = 18, ts_sector = 0, lba = 358 \<rparr>,
                 startoffset = 4, multiplier = 4, data_count = 0, reverse_order = 0 \<rparr>"
  have "unat (bam_offset ?sel (of_nat t)) = unat (4 :: uint8_t) + 4 * (t - 1)"
    using assms(2,3) by (intro bam_offset_d64) simp_all
  then have o: "unat (bam_offset ?sel (of_nat t)) = 4 + 4 * (t - 1)" by simp
  show ?thesis
    using assms(2,3)
    by (simp add: cbmimage_i_get_bam_counter_of_track_def assms(1) d64_image_settings_fields
        right_selector_d64 o d64_bam_counter_byte_def Let_def)
qed

lemma countbits_byte_values: "countbits_byte 0 = 0" "countbits_byte 0xFF = 8"
  by code_simp+

lemma countbits_d64:
  "cbmimage_i_countbits ([b0, b1, b2] @ replicate 29 0)
     = countbits_byte b0 + countbits_byte b1 + countbits_byte b2"
  by (simp add: cbmimage_i_countbits_def upt_mask_count replicate_29 countbits_byte_values)

lemma check_max_zero: "check_max_bam_loop n (replicate k 0)"
  by (induction k arbitrary: n) simp_all

lemma zero_mask: "[0, 0, 0] @ replicate 29 (0 :: uint8_t) = replicate 32 0"
proof -
  have "replicate 32 (0 :: uint8_t) = replicate (3 + 29) 0" by simp
  also have "\<dots> = replicate 3 0 @ replicate 29 0" by (rule replicate_add)
  also have "replicate 3 (0 :: uint8_t) = [0, 0, 0]" by (simp add: numeral_3_eq_3)
  finally show ?thesis by (simp only:)
qed

lemma countbits_zero_mask: "cbmimage_i_countbits (replicate 32 0) = 0"
  by code_simp

lemma check_max_zero_mask_d64:
  assumes "settings img = d64_image_settings" "1 \<le> t" "t \<le> 35"
  shows "cbmimage_i_check_max_bam_of_track (settings img) (of_nat t) (replicate 32 0) = (0, [])"
proof -
  have "unat (of_nat t :: uint16_t) = t" using assms(2,3) by (rule uint8_track(3))
  then have "\<not> (of_nat t :: uint16_t) > cbmimage_get_max_track (settings img)"
    using assms(3)
    by (simp add: word_less_nat_alt cbmimage_get_max_track_def assms(1)
        d64_image_settings_fields unat_ucast_8_16)
  then show ?thesis
    by (simp add: cbmimage_i_check_max_bam_of_track_def BAM_MASK_COUNT_def check_max_zero)
qed

lemma consistency_loop_clean_d64:
  assumes "settings img = d64_image_settings"
    and "\<forall>u. t \<le> u \<and> u \<le> 35 \<longrightarrow>
           d64_bam_bytes (parameter_buffer img) u = [0, 0, 0]
           \<and> d64_bam_counter_byte (parameter_buffer img) u = 0"
    and "1 \<le> t"
  shows "bam_check_consistency_loop img 35 t out = Some (0, out)"
  using assms(2,3)
proof (induction "36 - t" arbitrary: t)
  case 0
  then show ?case by (simp add: bam_check_consistency_loop.simps)
next
  case (Suc n)
  then have t: "1 \<le> t" "t \<le> 35" by simp_all
  from Suc.prems(1) t have z: "d64_bam_bytes (parameter_buffer img) t = [0, 0, 0]"
    "d64_bam_counter_byte (parameter_buffer img) t = 0" by simp_all
  have next_clean: "bam_check_consistency_loop img 35 (Suc t) out = Some (0, out)"
    using Suc.hyps(2) Suc.prems by (intro Suc.hyps(1)) simp_all
  have g: "cbmimage_i_get_bam_of_track img (of_nat t) = Some (0, replicate 32 0)"
    using get_bam_of_track_d64[OF assms(1) t] by (simp only: z zero_mask)
  have c: "cbmimage_i_get_bam_counter_of_track img (of_nat t) = Some 0"
    using get_bam_counter_of_track_d64[OF assms(1) t] by (simp add: z)
  show ?case
    using t next_clean
    by (subst bam_check_consistency_loop.simps)
       (simp add: g c check_max_zero_mask_d64[OF assms(1) t] countbits_zero_mask)
qed

lemma buffer_d64_bad_bam_facts:
  "length buffer_d64_bad_bam = 174848"
  "buffer_d64_bad_bam ! 91565 = 0"
  "d64_bam_counter_byte buffer_d64_bad_bam 1 = 22"
  "d64_bam_bytes buffer_d64_bad_bam 1 = [0xFF, 0xFF, 0xFF]"
  by (simp_all add: buffer_d64_bad_bam_def d64_bam_counter_byte_def d64_bam_bytes_def)

lemma buffer_d64_bad_bam_clean:
  assumes "2 \<le> u" "u \<le> 35"
  shows "d64_bam_bytes buffer_d64_bad_bam u = [0, 0, 0]"
    "d64_bam_counter_byte buffer_d64_bad_bam u = 0"
  using assms
  by (simp_all add: buffer_d64_bad_bam_def d64_bam_counter_byte_def d64_bam_bytes_def)

lemma check_max_bad_mask:
  "cbmimage_i_check_max_bam_of_track d64_image_settings 1 ([0xFF, 0xFF, 0xFF] @ replicate 29 0)
     = (- 1, [Bits_not_allowed 1 21])"
  by (simp add: cbmimage_i_check_max_bam_of_track_def cbmimage_get_max_track_def
      cbmimage_get_sectors_in_track_def cbmimage_i_d40_d64_d71_get_sectors_in_track_def
      d64_image_settings_fields sectors_in_track_d64_def BAM_MASK_COUNT_def)

section \<open>Claims about the BAM\<close>

text \<open>
  Claim C2 (return value of \<open>cbmimage_bam_check_consistency\<close>). The claim requires a
  return value different from 0 whenever a track violates one of the three conditions.
  \<open>cbmimage_bam_check_consistency\<close> is documented to return 0 if the BAM is
  consistent and a value different from 0 if not. On the D64 image
  \<open>buffer_d64_bad_bam\<close> the BAM entry of track 1 violates all three conditions: bits are
  set for the sectors 21 to 23 that do not exist, the counter 22 exceeds the 21 sectors
  of the track, and the counter differs from the 24 bits set. The function prints the
  three diagnostics and returns 0.
\<close>

theorem bam_check_consistency_bad_bam_returns_0:
  "Option.bind (cbmimage_image_open_d64 buffer_d64_bad_bam) cbmimage_bam_check_consistency
     = Some (0, [Bits_not_allowed 1 21, Free_exceeds_sectors 1 22 21,
                 Free_count_mismatch 1 22 24])"
proof -
  let ?img = "\<lparr>settings = d64_image_settings, parameter_size = 174848,
                parameter_buffer = buffer_d64_bad_bam\<rparr>"
  let ?mask = "[0xFF, 0xFF, 0xFF] @ replicate 29 (0 :: uint8_t)"
  have o: "cbmimage_image_open_d64 buffer_d64_bad_bam = Some ?img"
    by (rule open_d64) (simp_all add: buffer_d64_bad_bam_facts)
  have s: "settings ?img = d64_image_settings" by simp
  have g: "cbmimage_i_get_bam_of_track ?img 1 = Some (0, ?mask)"
    using get_bam_of_track_d64[OF s, of 1]
    by (simp add: buffer_d64_bad_bam_facts(4)[unfolded One_nat_def])
  have c: "cbmimage_i_get_bam_counter_of_track ?img 1 = Some 22"
    using get_bam_counter_of_track_d64[OF s, of 1]
    by (simp add: buffer_d64_bad_bam_facts(3)[unfolded One_nat_def])
  have cb: "cbmimage_i_countbits ?mask = 24"
    by (simp only: countbits_d64 countbits_byte_values)
  have cm: "cbmimage_i_check_max_bam_of_track (settings ?img) 1 ?mask
              = (- 1, [Bits_not_allowed 1 21])"
    by (simp only: s check_max_bad_mask)
  have sec: "cbmimage_get_sectors_in_track (settings ?img) 1 = 21"
    by (simp add: cbmimage_get_sectors_in_track_def
        cbmimage_i_d40_d64_d71_get_sectors_in_track_def d64_image_settings_fields
        sectors_in_track_d64_def)
  have clean: "bam_check_consistency_loop ?img 35 2 out = Some (0, out)" for out
    by (rule consistency_loop_clean_d64) (auto simp: buffer_d64_bad_bam_clean)
  have step: "bam_check_consistency_loop ?img 35 1 []
                = bam_check_consistency_loop ?img 35 (Suc 1)
                    [Bits_not_allowed 1 21, Free_exceeds_sectors 1 22 21,
                     Free_count_mismatch 1 22 24]"
    using cb cm sec by (subst bam_check_consistency_loop.simps) (simp add: g c Let_def)
  have m: "unat (cbmimage_get_max_track d64_image_settings) = 35"
    by (simp add: cbmimage_get_max_track_def d64_image_settings_fields)
  have run: "bam_check_consistency_loop ?img 35 1 []
               = Some (0, [Bits_not_allowed 1 21, Free_exceeds_sectors 1 22 21,
                           Free_count_mismatch 1 22 24])"
    by (simp only: step Suc_1 clean)
  show ?thesis
    by (simp add: o cbmimage_bam_check_consistency_def m run[simplified])
qed

section \<open>Chain traversal on a D1M image\<close>

lemma d1m_last_block:
  "cbmimage_i_create_last_block
     (d1m_d2m_d4m_settings_template\<lparr>maxsectors := ucast (40 :: uint8_t), is_partition_table := True\<rparr>)
   = d1m_image_settings\<lparr> block_subdir_first := cbmimage_block_unused,
        block_subdir_last := cbmimage_block_unused, subdir_relative_addressing := False,
        info := None, dir := \<lparr> ts_track = 1, ts_sector = 0, lba = 0 \<rparr> \<rparr>"
  by code_simp

lemma d1m_settings_last_block:
  "cbmimage_i_create_last_block d1m_image_settings = d1m_image_settings"
  by code_simp

lemma d1m_adjust:
  "cbmimage_i_adjust_relative_address d1m_image_settings \<lparr>ts_track = 1, ts_sector = 0, lba = 1\<rparr>
     = Some (0, \<lparr>ts_track = 81, ts_sector = 8, lba = 3209\<rparr>)"
  "cbmimage_i_adjust_relative_address d1m_image_settings \<lparr>ts_track = 2, ts_sector = 0, lba = 41\<rparr>
     = Some (0, \<lparr>ts_track = 0, ts_sector = 0, lba = 3249\<rparr>)"
  by code_simp+

lemma d1m_getters:
  "cbmimage_get_max_lba d1m_image_settings = 3240"
  "cbmimage_get_bytes_in_block d1m_image_settings = 256"
  "cbmimage_get_max_track d1m_image_settings = 81"
  "cbmimage_get_sectors_in_track d1m_image_settings t = 40"
  "subdir_data_offset d1m_image_settings = 0"
  by (simp_all add: d1m_image_settings_def cbmimage_get_max_lba_def
      cbmimage_get_bytes_in_block_def cbmimage_get_max_track_def
      cbmimage_get_sectors_in_track_def)

lemma d1m_link_image:
  "settings image_d1m_link = d1m_image_settings"
  "parameter_size image_d1m_link = 829440"
  "parameter_buffer image_d1m_link ! 821248 = 2"
  "parameter_buffer image_d1m_link ! 821249 = 0"
  by (simp_all add: image_d1m_link_def buffer_d1m_link_def)

lemma d1m_address:
  "cbmimage_i_get_address_of_block image_d1m_link \<lparr>ts_track = 1, ts_sector = 0, lba = 1\<rparr>
     = Some (Ptr 821248)"
  "cbmimage_i_get_address_of_block image_d1m_link \<lparr>ts_track = 2, ts_sector = 0, lba = 41\<rparr>
     = Some NULL"
  by (simp_all add: cbmimage_i_get_address_of_block_def d1m_link_image d1m_adjust d1m_getters
      Let_def)

lemma d1m_link_start:
  "cbmimage_chain_start image_d1m_link \<lparr>ts_track = 1, ts_sector = 0, lba = 1\<rparr>
     = Some d1m_link_chain"
proof -
  have cr: "cbmimage_blockaccessor_create image_d1m_link
              \<lparr>ts_track = 1, ts_sector = 0, lba = 1\<rparr>
            = Some \<lparr> acc_block = \<lparr>ts_track = 1, ts_sector = 0, lba = 1\<rparr>,
                     acc_data = Ptr 821248 \<rparr>"
    by (simp add: cbmimage_blockaccessor_create_def cbmimage_blockaccessor_set_to_def
        cbmimage_i_blockaccessor_release_def d1m_link_image d1m_getters d1m_address Let_def)
  have st: "cbmimage_blockaccessor_set_to image_d1m_link
              \<lparr> acc_block = \<lparr>ts_track = 1, ts_sector = 0, lba = 1\<rparr>,
                acc_data = Ptr 821248 \<rparr>
              \<lparr>ts_track = 1, ts_sector = 0, lba = 1\<rparr>
            = Some (0, \<lparr> acc_block = \<lparr>ts_track = 1, ts_sector = 0, lba = 1\<rparr>,
                        acc_data = Ptr 821248 \<rparr>)"
    by (simp add: cbmimage_blockaccessor_set_to_def
        cbmimage_i_blockaccessor_release_def d1m_link_image d1m_getters d1m_address Let_def)
  have lm: "cbmimage_loop_mark d1m_image_settings (cbmimage_loop_create d1m_image_settings)
              \<lparr>ts_track = 1, ts_sector = 0, lba = 1\<rparr>
            = (0, \<lparr> loop_map = (replicate 406 0)[0 := 2] \<rparr>)"
    by (simp add: cbmimage_loop_mark_def cbmimage_loop_create_def d1m_getters Let_def)
  have gn: "cbmimage_blockaccessor_get_next_block image_d1m_link
              \<lparr> acc_block = \<lparr>ts_track = 1, ts_sector = 0, lba = 1\<rparr>,
                acc_data = Ptr 821248 \<rparr> None
            = Some (0, None)"
    by (simp add: cbmimage_blockaccessor_get_next_block_def d1m_link_image d1m_getters
        Let_def)
  show ?thesis
    by (simp add: cbmimage_chain_start_def cr cbmimage_i_chain_readblock_def lm st gn
        d1m_link_chain_def d1m_link_image)
qed

lemma d1m_link_next:
  "cbmimage_blockaccessor_get_next_block image_d1m_link (block_accessor d1m_link_chain)
     (Some cbmimage_block_unused)
   = Some (0, Some \<lparr>ts_track = 2, ts_sector = 0, lba = 41\<rparr>)"
proof -
  have "cbmimage_blockaddress_init_from_ts_value d1m_image_settings cbmimage_block_unused 2 0
          = (0, \<lparr>ts_track = 2, ts_sector = 0, lba = 41\<rparr>)"
    by code_simp
  then show ?thesis
    by (simp add: cbmimage_blockaccessor_get_next_block_def d1m_link_chain_def
        d1m_link_image d1m_getters Let_def)
qed

lemma d1m_link_advance:
  "cbmimage_chain_advance image_d1m_link d1m_link_chain = None"
proof -
  have lm: "fst (cbmimage_loop_mark d1m_image_settings (loop_detector d1m_link_chain)
              \<lparr>ts_track = 2, ts_sector = 0, lba = 41\<rparr>) = 0"
    by (simp add: d1m_link_chain_def cbmimage_loop_mark_def d1m_getters Let_def)
  have st: "cbmimage_blockaccessor_set_to image_d1m_link acc
              \<lparr>ts_track = 2, ts_sector = 0, lba = 41\<rparr>
            = Some (0, \<lparr> acc_block = \<lparr>ts_track = 2, ts_sector = 0, lba = 41\<rparr>,
                        acc_data = NULL \<rparr>)" for acc
    by (simp add: cbmimage_blockaccessor_set_to_def
        cbmimage_i_blockaccessor_release_def d1m_link_image d1m_getters d1m_address Let_def)
  have gn: "cbmimage_blockaccessor_get_next_block image_d1m_link
              \<lparr> acc_block = \<lparr>ts_track = 2, ts_sector = 0, lba = 41\<rparr>, acc_data = NULL \<rparr> None
            = None"
    by (simp add: cbmimage_blockaccessor_get_next_block_def)
  obtain loop' where lmv:
    "cbmimage_loop_mark d1m_image_settings (loop_detector d1m_link_chain)
       \<lparr>ts_track = 2, ts_sector = 0, lba = 41\<rparr> = (0, loop')"
    using lm
    by (cases "cbmimage_loop_mark d1m_image_settings (loop_detector d1m_link_chain)
                 \<lparr>ts_track = 2, ts_sector = 0, lba = 41\<rparr>") auto
  have rb: "cbmimage_i_chain_readblock image_d1m_link d1m_link_chain
              \<lparr>ts_track = 2, ts_sector = 0, lba = 41\<rparr> = None"
    by (simp add: cbmimage_i_chain_readblock_def d1m_link_image(1) lmv st gn)
  show ?thesis
    by (simp add: cbmimage_chain_advance_def d1m_link_next rb)
qed

lemma open_d1m_link: "cbmimage_image_open_d1m buffer_d1m_link = Some image_d1m_link"
proof -
  have l: "length buffer_d1m_link = 829440" "buffer_d1m_link ! 173 = 0"
    by (simp_all add: buffer_d1m_link_def)
  have g: "take (length geos_text) (drop 173 buffer_d1m_link) \<noteq> geos_text"
    using l by (intro no_geos_text) simp_all
  show ?thesis
    unfolding cbmimage_image_open_d1m_def cbmimage_i_d1m_image_open_def
      cbmimage_i_d1m_d2m_d4m_image_create_def Let_def d1m_last_block fileimage_fresh_def
    using g l(1)
    apply (simp add: cbmimage_blockaccessor_create_from_ts_def CBMIMAGE_BLOCK_SET_FROM_TS_def
      cbmimage_blockaddress_init_from_ts_def cbmimage_i_generic_ts_to_blockaddress_def
      cbmimage_blockaddress_ts_exists_def cbmimage_get_max_sectors_def
      generic_ts_lba_def d1m_image_settings_def cbmimage_block_unused_def
      cbmimage_blockaccessor_create_def cbmimage_blockaccessor_set_to_def
      cbmimage_i_blockaccessor_release_def cbmimage_get_max_track_def
      cbmimage_get_sectors_in_track_def
      cbmimage_i_get_address_of_block_def cbmimage_i_adjust_relative_address_def
      cbmimage_get_max_lba_def cbmimage_get_bytes_in_block_def Let_def)
    apply (simp add: cbmimage_i_d1m_d2m_d4m_get_geos_infoblock_def)
    apply (simp add: CBMIMAGE_BLOCK_SET_FROM_TS_def
      cbmimage_blockaddress_init_from_ts_def cbmimage_i_generic_ts_to_blockaddress_def
      cbmimage_blockaddress_ts_exists_def cbmimage_get_max_sectors_def
      cbmimage_get_max_track_def cbmimage_get_sectors_in_track_def generic_ts_lba_def)
    apply (simp add: fileimage_create_last_block_def image_d1m_link_def
      d1m_settings_last_block[unfolded d1m_image_settings_def cbmimage_block_unused_def]
      d1m_image_settings_def cbmimage_block_unused_def)
    done
qed

section \<open>Claims about the termination of chain traversal\<close>

text \<open>
  Claim C8 (chain traversal terminates). The claim requires that from every valid start
  block the done state is reached within \<open>max_lba + 1\<close> steps, whatever the link
  bytes are. \<open>cbmimage_blockaccessor_get_next_block\<close> asserts that the data pointer of
  the accessor is not NULL and then reads through it. A D1M image is opened with
  relative addressing for the system partition 81/8 to 81/39. On the image above the
  start block 1/0 exists and its link (2, 0) names an existing track and sector; the
  chain starts and is not done. \<open>cbmimage_chain_advance\<close> then sets the accessor to
  2/0, which lies behind the end of the image once the start of the partition is added,
  so that \<open>cbmimage_i_get_address_of_block\<close> returns NULL, and reads the link through
  that pointer: the call traps and the done state is not reached.
\<close>

theorem chain_advance_traps_d1m:
  "cbmimage_image_open_d1m buffer_d1m_link = Some image_d1m_link
   \<and> cbmimage_blockaddress_ts_exists (settings image_d1m_link) 1 0
   \<and> cbmimage_blockaddress_lba_exists (settings image_d1m_link) 1
   \<and> cbmimage_chain_start image_d1m_link \<lparr>ts_track = 1, ts_sector = 0, lba = 1\<rparr>
       = Some d1m_link_chain
   \<and> \<not> cbmimage_chain_is_done d1m_link_chain
   \<and> cbmimage_blockaddress_ts_exists (settings image_d1m_link) 2 0
   \<and> cbmimage_i_get_address_of_block image_d1m_link \<lparr>ts_track = 2, ts_sector = 0, lba = 41\<rparr>
       = Some NULL
   \<and> cbmimage_chain_advance image_d1m_link d1m_link_chain = None"
proof -
  have ms: "maxsectors d1m_image_settings = 40" by (simp add: d1m_image_settings_def)
  have e: "cbmimage_blockaddress_ts_exists (settings image_d1m_link) 1 0"
    "cbmimage_blockaddress_ts_exists (settings image_d1m_link) 2 0"
    "cbmimage_blockaddress_lba_exists (settings image_d1m_link) 1"
    by (simp_all add: cbmimage_blockaddress_ts_exists_def cbmimage_blockaddress_lba_exists_def
        d1m_link_image d1m_getters cbmimage_get_max_sectors_def ms)
  have nd: "\<not> cbmimage_chain_is_done d1m_link_chain"
    by (simp add: cbmimage_chain_is_done_def d1m_link_chain_def)
  show ?thesis
    using e nd by (simp only: open_d1m_link d1m_link_start d1m_address d1m_link_advance simp_thms)
qed

section \<open>Comparing the reconstructed FAT with the BAM (lib/validate.c)\<close>

lemma blockaddress_advance_measure:
  assumes "cbmimage_i_blockaddress_advance s block d = (0, block')"
  shows "lba_measure block' < lba_measure block"
proof -
  from assms have e: "cbmimage_blockaddress_lba_exists s (lba block)"
    and l: "lba block' = lba block + 1"
    by (auto simp: cbmimage_i_blockaddress_advance_def Let_def split: if_splits)
  from e have p: "0 < unat (lba block)" by (simp add: cbmimage_blockaddress_lba_exists_def)
  then have nz: "lba block \<noteq> 0" by (simp add: uint16_neq_0_iff)
  show ?thesis
  proof (cases "lba block + 1 = 0")
    case True
    with nz l p unat_uint16_less[of "lba block"] show ?thesis by (simp add: lba_measure_def)
  next
    case False
    then have "1 + lba block \<noteq> 0" by (simp add: add.commute)
    then have "unat (1 + lba block) = Suc (unat (lba block))" by (rule unatSuc)
    then have "unat (lba block + 1) = unat (lba block) + 1" by (simp add: add.commute)
    with False nz l unat_uint16_less[of "lba block"] show ?thesis
      by (simp add: lba_measure_def)
  qed
qed

text \<open>
  \<open>cbmimage_i_bam_check_equality\<close>: the \<open>do \<dots> while\<close> loop over all blocks from 1/0
  on. The FAT is the one of the settings. The result is the return value, the local
  \<open>ret\<close>, and the diagnostics printed; \<open>ret\<close> is initialised to 0 and never assigned
  again. The source calls \<open>cbmimage_bam_get\<close> a second time for a value it does not use.
\<close>

function bam_check_equality_loop ::
  "cbmimage_fileimage \<Rightarrow> cbmimage_fat \<Rightarrow> cbmimage_blockaddress \<Rightarrow> int \<Rightarrow> diagnostic list
     \<Rightarrow> (int \<times> diagnostic list) option" where
  "bam_check_equality_loop img fat block ret out =
     (case cbmimage_bam_get img block of
        None \<Rightarrow> None
      | Some bam_state \<Rightarrow>
          let is_marked_in_loop = cbmimage_fat_is_used fat block;
              is_used_in_bam = (bam_state = BAM_USED);
              out' = out @ (if is_marked_in_loop \<and> \<not> is_used_in_bam
                            then [Marked_but_bam_free block]
                            else if \<not> is_marked_in_loop \<and> is_used_in_bam
                            then [Unmarked_but_bam_used block]
                            else [])
          in (case cbmimage_blockaddress_advance (settings img) block of
                (r, block') \<Rightarrow>
                  if r = 0 then bam_check_equality_loop img fat block' ret out'
                  else Some (ret, out')))"
  by pat_completeness auto
termination
  apply (relation "measure (\<lambda>(img, fat, block, ret, out). lba_measure block)")
   apply simp
  apply (simp add: cbmimage_blockaddress_advance_def)
  apply (rule blockaddress_advance_measure)
  apply (erule sym)
  done

declare bam_check_equality_loop.simps [simp del]

definition cbmimage_i_bam_check_equality ::
  "cbmimage_fileimage \<Rightarrow> cbmimage_fat \<Rightarrow> (int \<times> diagnostic list) option" where
  "cbmimage_i_bam_check_equality img fat =
     bam_check_equality_loop img fat
       (snd (cbmimage_blockaddress_init_from_ts_value (settings img) cbmimage_block_unused 1 0))
       0 []"

lemma bam_get_used_d64:
  assumes "settings img = d64_image_settings"
    and "1 \<le> unat (ts_track b)" "unat (ts_track b) \<le> 35"
    and "d64_bam_bytes (parameter_buffer img) (unat (ts_track b)) = [0, 0, 0]"
  shows "cbmimage_bam_get img b = Some BAM_USED"
proof -
  have t: "of_nat (unat (ts_track b)) = ts_track b" by simp
  have g: "cbmimage_i_get_bam_of_track img (ts_track b) = Some (0, replicate 32 0)"
    using get_bam_of_track_d64[OF assms(1,2,3)] by (simp only: t assms(4) zero_mask)
  have "unat (ts_sector b) div 8 < 32" using unat_uint8_less[of "ts_sector b"] by simp
  then show ?thesis
    by (simp add: cbmimage_bam_get_def g BAM_USED_def BAM_FREE_def Let_def)
qed

lemma advance_track_d64:
  assumes "maxtracks s = 35"
    and "cbmimage_blockaddress_advance s b = (0, b')"
    and "1 \<le> unat (ts_track b)" "unat (ts_track b) \<le> 35"
  shows "1 \<le> unat (ts_track b') \<and> unat (ts_track b') \<le> 35"
proof -
  let ?t = "ucast (ts_track b) :: uint16_t"
  have u: "unat ?t = unat (ts_track b)" by (simp add: unat_ucast_8_16)
  have m: "unat (cbmimage_get_max_track s) = 35"
    by (simp add: cbmimage_get_max_track_def assms(1) unat_ucast_8_16)
  have s1: "unat (?t + 1) = unat (ts_track b) + 1"
    using assms(4) u by (simp add: unat_word_ariths)
  from assms(2) consider
      (stay) "ts_track b' = ucast ?t"
    | (step) "\<not> ?t + 1 > cbmimage_get_max_track s" "ts_track b' = ucast (?t + 1)"
    by (auto simp: cbmimage_blockaddress_advance_def cbmimage_i_blockaddress_advance_def
        Let_def split: if_splits)
  then show ?thesis
  proof cases
    case stay
    then have "ts_track b' = ts_track b" by (simp add: ucast_ucast_8_16_8)
    with assms(3,4) show ?thesis by simp
  next
    case step
    from step(1) have le: "unat (ts_track b) + 1 \<le> 35"
      by (simp add: word_less_nat_alt s1 m)
    then have "unat (ucast (?t + 1) :: uint8_t) = unat (ts_track b) + 1"
      using s1 by (simp add: unsigned_ucast_eq take_bit_nat_eq_self)
    with step(2) le show ?thesis by simp
  qed
qed

lemma bam_check_equality_loop_d64:
  assumes "settings img = d64_image_settings"
    and "\<forall>t. 1 \<le> t \<and> t \<le> 35 \<longrightarrow> d64_bam_bytes (parameter_buffer img) t = [0, 0, 0]"
    and "1 \<le> unat (ts_track b)" "unat (ts_track b) \<le> 35"
  shows "\<exists>rest. bam_check_equality_loop img fat b r out
           = Some (r, out @ (if cbmimage_fat_is_used fat b then []
                            else [Unmarked_but_bam_used b]) @ rest)"
  using assms(3,4)
proof (induction "lba_measure b" arbitrary: b out rule: less_induct)
  case less
  let ?d = "if cbmimage_fat_is_used fat b then [] else [Unmarked_but_bam_used b]"
  have g: "cbmimage_bam_get img b = Some BAM_USED"
    using assms(1) less.prems assms(2) by (intro bam_get_used_d64) simp_all
  obtain r' b' where a: "cbmimage_blockaddress_advance (settings img) b = (r', b')"
    by (cases "cbmimage_blockaddress_advance (settings img) b")
  have u: "bam_check_equality_loop img fat b r out
             = (if r' = 0 then bam_check_equality_loop img fat b' r (out @ ?d)
                else Some (r, out @ ?d))"
    by (subst bam_check_equality_loop.simps) (simp add: g a Let_def)
  show ?case
  proof (cases "r' = 0")
    case False
    with u show ?thesis by simp
  next
    case True
    with a have a0: "cbmimage_blockaddress_advance (settings img) b = (0, b')" by simp
    then have m: "lba_measure b' < lba_measure b"
      by (simp add: cbmimage_blockaddress_advance_def blockaddress_advance_measure)
    have t: "1 \<le> unat (ts_track b') \<and> unat (ts_track b') \<le> 35"
      using a0 less.prems
      by (intro advance_track_d64[of "settings img" b]) (simp_all add: assms(1) d64_image_settings_fields)
    from less.hyps[OF m, of "out @ ?d"] t obtain rest where
      "bam_check_equality_loop img fat b' r (out @ ?d)
         = Some (r, (out @ ?d) @ (if cbmimage_fat_is_used fat b' then []
                                  else [Unmarked_but_bam_used b']) @ rest)"
      by blast
    with u True show ?thesis by simp
  qed
qed

section \<open>Claims about validation\<close>

text \<open>
  Claim C1 (return value of \<open>cbmimage_validate\<close>). The claim requires a return value
  different from 0 whenever the run detects an anomaly, among them a divergence of the
  reconstructed FAT from the BAM. \<open>cbmimage_validate\<close> ends with
  \<^verbatim>\<open>ret = cbmimage_i_bam_check_equality(image) | ret;\<close>, and
  \<open>cbmimage_i_bam_check_equality\<close> is documented to return 0 if BAM and FAT are
  identical and a value different from 0 if not.

  On a zero-filled D64 image the BAM is consistent and marks every block as used, the
  info block 18/0 is a chain of one block, and the directory block 18/1 has no entry:
  when \<open>cbmimage_validate\<close> reaches the comparison, \<open>ret\<close> is 0 and the FAT marks
  block 18/0 and nothing else. \<open>cbmimage_i_bam_check_equality\<close> then prints a
  diagnostic for block 1/0, which the BAM marks as used and the FAT does not (and goes
  on through the other blocks), and returns 0, which is then the return value of
  \<open>cbmimage_validate\<close>.
\<close>

theorem bam_check_equality_divergence_returns_0:
  "\<exists>rest.
     cbmimage_image_open_d64 (replicate 174848 0) = Some image_d64_opened_zero
     \<and> cbmimage_bam_check_consistency image_d64_opened_zero = Some (0, [])
     \<and> cbmimage_i_bam_check_equality image_d64_opened_zero
           (snd (cbmimage_fat_set (cbmimage_fat_create (settings image_d64_opened_zero))
                   \<lparr>ts_track = 18, ts_sector = 0, lba = 358\<rparr> cbmimage_block_unused))
         = Some (0, Unmarked_but_bam_used \<lparr>ts_track = 1, ts_sector = 0, lba = 1\<rparr> # rest)"
proof -
  let ?img = "image_d64_opened_zero"
  let ?fat = "snd (cbmimage_fat_set (cbmimage_fat_create d64_image_settings)
                     \<lparr>ts_track = 18, ts_sector = 0, lba = 358\<rparr> cbmimage_block_unused)"
  let ?b = "\<lparr>ts_track = 1, ts_sector = 0, lba = 1\<rparr>"
  have o: "cbmimage_image_open_d64 (replicate 174848 0) = Some ?img"
    unfolding image_d64_opened_zero_def by (rule open_d64) simp_all
  have s: "settings ?img = d64_image_settings" by (simp add: image_d64_opened_zero_def)
  have z: "\<forall>t. 1 \<le> t \<and> t \<le> 35
             \<longrightarrow> d64_bam_bytes (parameter_buffer ?img) t = [0, 0, 0]
                 \<and> d64_bam_counter_byte (parameter_buffer ?img) t = 0"
  proof (intro allI impI)
    fix t :: nat
    assume "1 \<le> t \<and> t \<le> 35"
    then have "91396 + 4 * (t - 1) < 174848" "91397 + 4 * (t - 1) < 174848"
      "91398 + 4 * (t - 1) < 174848" "91399 + 4 * (t - 1) < 174848" by arith+
    then show "d64_bam_bytes (parameter_buffer ?img) t = [0, 0, 0]
                 \<and> d64_bam_counter_byte (parameter_buffer ?img) t = 0"
      by (simp add: d64_bam_bytes_def d64_bam_counter_byte_def image_d64_opened_zero_def)
  qed
  have m: "unat (cbmimage_get_max_track d64_image_settings) = 35"
    by (simp add: cbmimage_get_max_track_def d64_image_settings_fields)
  have c: "cbmimage_bam_check_consistency ?img = Some (0, [])"
    unfolding cbmimage_bam_check_consistency_def s m
    using z by (intro consistency_loop_clean_d64[OF s]) simp_all
  have b: "snd (cbmimage_blockaddress_init_from_ts_value d64_image_settings
                  cbmimage_block_unused 1 0) = ?b"
    by (simp add: cbmimage_blockaddress_init_from_ts_value_def
        cbmimage_blockaddress_init_from_ts_def cbmimage_i_d40_d64_d71_ts_to_blockaddress_def
        d40_d64_d71_ts_lba_def d64_image_settings_def d64_settings_value
        cbmimage_block_unused_def)
  have f: "\<not> cbmimage_fat_is_used ?fat ?b"
    by (simp add: cbmimage_fat_is_used_def cbmimage_i_fat_get_target_lba_def
        cbmimage_fat_set_def cbmimage_i_fat_set_def cbmimage_fat_create_def
        cbmimage_block_unused_def CBMIMAGE_FAT_UNUSED_def Let_def
        cbmimage_get_max_lba_def d64_image_settings_def d64_settings_value)
  have z': "\<forall>t. 1 \<le> t \<and> t \<le> 35
             \<longrightarrow> d64_bam_bytes (parameter_buffer ?img) t = [0, 0, 0]"
    using z by simp
  from bam_check_equality_loop_d64[OF s z', of ?b ?fat 0 "[]"] f obtain rest where
    "bam_check_equality_loop ?img ?fat ?b 0 []
       = Some (0, Unmarked_but_bam_used ?b # rest)"
    by auto
  then show ?thesis
    by (simp add: o c s cbmimage_i_bam_check_equality_def b)
qed

end
